theory Spec2Isabelle
  imports Main "HOL-Library.AList"
begin

section \<open>Python values and string operations\<close>

text \<open>
  The translator \<^verbatim>\<open>misp2stix2.py\<close> builds keyword-argument dictionaries and hands them
  to the constructors of the target object model. A dictionary is an association list
  (insertion order is kept, a later store to a present key overwrites in place, which is
  \<open>AList.update\<close>); the values it carries are the JSON-like values below. \<open>JTime\<close>
  stands for a \<^verbatim>\<open>datetime\<close> made from an integer timestamp.
\<close>

datatype jv =
    JNone
  | JBool bool
  | JInt int
  | JStr string
  | JTime int
  | JList "jv list"
  | JDict "(string \<times> jv) list"

text \<open>
  The exception classes the code raises or catches. The classes of the object model
  (\<open>InvalidValueError\<close>, \<open>TLPMarkingDefinitionError\<close>, \<open>StixError\<close> for any other of
  its rejections) are each taken as a class of its own.
\<close>

datatype error =
    KeyError
  | IndexError
  | ValueError
  | TypeError
  | AttributeError
  | NameError
  | UnboundLocalError
  | InvalidValueError
  | TLPMarkingDefinitionError
  | StixError

definition startswith :: "string \<Rightarrow> string \<Rightarrow> bool" where
  "startswith s p = (take (length p) s = p)"

definition endswith :: "string \<Rightarrow> string \<Rightarrow> bool" where
  "endswith s p = (length p \<le> length s \<and> drop (length s - length p) s = p)"

text \<open>\<^verbatim>\<open>sub in s\<close> for strings.\<close>

fun contains :: "string \<Rightarrow> string \<Rightarrow> bool" where
  "contains [] sub = (sub = [])"
| "contains (c # cs) sub = (startswith (c # cs) sub \<or> contains cs sub)"

text \<open>
  \<^verbatim>\<open>s.split(sep)\<close> for a non-empty separator: the pieces between the non-overlapping
  occurrences of \<open>sep\<close>, found left to right. \<open>skip\<close> counts the characters of an
  occurrence still to pass over; \<open>acc\<close> is the current piece, reversed.
\<close>

fun split_aux :: "string \<Rightarrow> nat \<Rightarrow> string \<Rightarrow> string \<Rightarrow> string list" where
  "split_aux sep skip acc [] = [rev acc]"
| "split_aux sep skip acc (c # cs) =
     (if 0 < skip then split_aux sep (skip - 1) acc cs
      else if startswith (c # cs) sep then rev acc # split_aux sep (length sep - 1) [] cs
      else split_aux sep 0 (c # acc) cs)"

definition split :: "string \<Rightarrow> string \<Rightarrow> string list" where
  "split s sep = split_aux sep 0 [] s"

text \<open>\<^verbatim>\<open>s.replace(old, new)\<close> for a non-empty \<open>old\<close>.\<close>

fun replace_aux :: "string \<Rightarrow> string \<Rightarrow> nat \<Rightarrow> string \<Rightarrow> string" where
  "replace_aux old new skip [] = []"
| "replace_aux old new skip (c # cs) =
     (if 0 < skip then replace_aux old new (skip - 1) cs
      else if startswith (c # cs) old then new @ replace_aux old new (length old - 1) cs
      else c # replace_aux old new 0 cs)"

definition replace :: "string \<Rightarrow> string \<Rightarrow> string \<Rightarrow> string" where
  "replace s old new = replace_aux old new 0 s"

text \<open>
  \<^verbatim>\<open>sep.join(parts)\<close>.
\<close>

fun join :: "string \<Rightarrow> string list \<Rightarrow> string" where
  "join sep [] = []"
| "join sep [x] = x"
| "join sep (x # y # ys) = x @ sep @ join sep (y # ys)"

text \<open>
  White space as \<^verbatim>\<open>str.strip()\<close> and \<^verbatim>\<open>int()\<close> see it, on the code points below 256:
  tab to carriage return, the four separators 28 to 31, space, NEL and the no-break space.
\<close>

definition is_space :: "char \<Rightarrow> bool" where
  "is_space c =
     (let n = (of_char c :: nat)
      in (9 \<le> n \<and> n \<le> 13) \<or> (28 \<le> n \<and> n \<le> 32) \<or> n = 133 \<or> n = 160)"

definition strip :: "string \<Rightarrow> string" where
  "strip s = rev (dropWhile is_space (rev (dropWhile is_space s)))"

definition lower_char :: "char \<Rightarrow> char" where
  "lower_char c =
     (let n = (of_char c :: nat)
      in if (65 \<le> n \<and> n \<le> 90) \<or> (192 \<le> n \<and> n \<le> 222 \<and> n \<noteq> 215)
         then char_of (n + 32) else c)"

definition lower :: "string \<Rightarrow> string" where
  "lower s = map lower_char s"

text \<open>\<^verbatim>\<open>str(n)\<close> for a natural number: its decimal digits.\<close>

definition digit_char :: "nat \<Rightarrow> char" where
  "digit_char d = char_of (48 + d)"

fun str_nat_aux :: "nat \<Rightarrow> nat \<Rightarrow> string \<Rightarrow> string" where
  "str_nat_aux 0 n acc = acc"
| "str_nat_aux (Suc fuel) n acc =
     (if n < 10 then digit_char n # acc
      else str_nat_aux fuel (n div 10) (digit_char (n mod 10) # acc))"

definition str_nat :: "nat \<Rightarrow> string" where
  "str_nat n = str_nat_aux (Suc n) n []"

definition is_digit :: "char \<Rightarrow> bool" where
  "is_digit c = (let n = (of_char c :: nat) in 48 \<le> n \<and> n \<le> 57)"

definition digit_val :: "char \<Rightarrow> nat" where
  "digit_val c = of_char c - 48"

text \<open>
  \<^verbatim>\<open>int(x)\<close> as the code uses it, on the declared section count of an embedded
  executable: a string is stripped of white space, may carry one sign, and must then be
  decimal digits, where single underscores may stand between digits; an integer is
  itself; a boolean is 0 or 1; anything else (the empty list a \<^verbatim>\<open>defaultdict(list)\<close>
  makes up for an absent key among them) is a \<^verbatim>\<open>TypeError\<close>.
\<close>

fun digits_val :: "nat \<Rightarrow> string \<Rightarrow> nat option" where
  "digits_val acc [] = Some acc"
| "digits_val acc [c] = (if is_digit c then Some (acc * 10 + digit_val c) else None)"
| "digits_val acc (c # d # cs) =
     (if is_digit c then
        (if d = CHR ''_'' then
           (case cs of [] \<Rightarrow> None
            | e # es \<Rightarrow> if is_digit e then digits_val (acc * 10 + digit_val c) cs else None)
         else digits_val (acc * 10 + digit_val c) (d # cs))
      else None)"

definition int_of_string :: "string \<Rightarrow> error + int" where
  "int_of_string s =
     (let t = strip s;
          (neg, ds) = (case t of
                         c # cs \<Rightarrow> if c = CHR ''-'' then (True, cs)
                                   else if c = CHR ''+'' then (False, cs) else (False, t)
                       | [] \<Rightarrow> (False, t))
      in if ds = [] then Inl ValueError
         else (case digits_val 0 ds of
                 None \<Rightarrow> Inl ValueError
               | Some n \<Rightarrow> Inr (if neg then - int n else int n)))"

fun py_int :: "jv \<Rightarrow> error + int" where
  "py_int (JStr s) = int_of_string s"
| "py_int (JInt i) = Inr i"
| "py_int (JBool b) = Inr (if b then 1 else 0)"
| "py_int _ = Inl TypeError"

text \<open>\<^verbatim>\<open>str(b)\<close> for a boolean.\<close>

definition str_bool :: "bool \<Rightarrow> string" where
  "str_bool b = (if b then ''True'' else ''False'')"

text \<open>\<^verbatim>\<open>xs.index(x)\<close>, for an \<open>x\<close> that is in \<open>xs\<close>.\<close>

fun index_of :: "'a list \<Rightarrow> 'a \<Rightarrow> nat" where
  "index_of [] x = 0"
| "index_of (y # ys) x = (if y = x then 0 else Suc (index_of ys x))"

section \<open>The input: events, attributes, objects, galaxies\<close>

text \<open>
  The records hold the keys of the MISP JSON that the translator reads, for an input in
  which every key the code reads with a subscript is there. A key it reads with
  \<^verbatim>\<open>.get\<close> and tests for truth is a field whose empty value stands for the absent key
  as well. A tag is its \<^verbatim>\<open>name\<close>, the only key read.
\<close>

record cluster =
  c_collection_uuid :: "string option"
  c_uuid :: string
  c_description :: string
  c_value :: string
  c_tag_name :: string
  c_meta :: "(string \<times> string list) list option"

record galaxy =
  g_type :: "string option"
  g_uuid :: string
  g_name :: string
  g_description :: string
  g_GalaxyCluster :: "cluster list"

record attribute =
  a_uuid :: string
  a_type :: string
  a_category :: string
  a_value :: string
  a_to_ids :: bool
  a_comment :: string
  a_data :: "string option"
  a_timestamp :: int
  a_object_relation :: string
  a_first_seen :: string
  a_last_seen :: string
  a_Tag :: "string list"
  a_Galaxy :: "galaxy list"

record object_reference =
  r_referenced_uuid :: string
  r_relationship_type :: string
  r_Object_name :: string

record misp_object =
  o_uuid :: string
  o_name :: string
  o_meta_category :: string
  o_description :: string
  o_timestamp :: int
  o_first_seen :: string
  o_last_seen :: string
  o_Attribute :: "attribute list"
  o_ObjectReference :: "object_reference list"

record event =
  e_uuid :: string
  e_info :: string
  e_date :: string
  e_timestamp :: int
  e_publish_timestamp :: int
  e_Orgc_uuid :: string
  e_Orgc_name :: string
  e_Attribute :: "attribute list"
  e_Object :: "misp_object list"
  e_Galaxy :: "galaxy list"
  e_Tag :: "string list"

section \<open>The output and what the translator is given\<close>

text \<open>
  A produced object is the class that was instantiated, the object's \<^verbatim>\<open>id\<close>, and the
  keyword arguments it was made from.
\<close>

datatype sdo = SDO (sdo_class: string) (sdo_id: string) (sdo_args: "(string \<times> jv) list")

text \<open>
  The class of a custom wrapper kind, as \<^verbatim>\<open>add_custom\<close> (from an attribute) or
  \<^verbatim>\<open>add_object_custom\<close> (from an object) declares it: the type name and the local
  values the property list captures.
\<close>

datatype custom_class =
    Custom_of_attribute string jv jv
  | Custom_of_object string jv

text \<open>
  The method names a mapping table can hold under \<^verbatim>\<open>to_call\<close>: for an attribute type the
  methods that take an attribute, for an object name those that take an object and its
  flag.
\<close>

datatype attr_call =
    Handle_person
  | Handle_usual_type
  | Handle_link
  | Add_custom
  | Add_identity
  | Add_indicator
  | Add_observed_data
  | Add_vulnerability

datatype obj_call =
    Handle_usual_object_name
  | Populate_objects_to_parse
  | Add_attack_pattern_object
  | Add_course_of_action_from_object
  | Add_object_vulnerability
  | Add_object_custom

text \<open>
  One entry of \<^verbatim>\<open>mispTypesMapping\<close>. The module \<^verbatim>\<open>misp2stix2_mapping\<close> that holds the
  table is not among the sources, so the entry's functions are parameters: the observable
  function (type, value, data), the comparison clauses the pattern function makes for
  (type, value, data), and \<^verbatim>\<open>vulnerability_args\<close>. A key the entry lacks is \<open>None\<close>.
\<close>

record type_entry =
  to_call :: attr_call
  t_observable :: "(string \<Rightarrow> jv \<Rightarrow> string option \<Rightarrow> error + jv) option"
  t_clauses :: "(string \<Rightarrow> jv \<Rightarrow> string option \<Rightarrow> error + string list) option"
  t_vulnerability_args :: "(string \<Rightarrow> jv) option"

text \<open>
  Everything the translator takes from outside the file: the tables of
  \<^verbatim>\<open>misp2stix2_mapping\<close>, the category names of \<^verbatim>\<open>describeTypes.json\<close>, the target object
  model (\<open>construct cls args\<close> is \<open>None\<close> when the constructor of class \<open>cls\<close> accepts the
  keyword arguments and the exception it raises otherwise; likewise the declaration and
  the instantiation of a custom class), the module's globals that \<^verbatim>\<open>tlp_markings\<close> names,
  and the successive results of \<^verbatim>\<open>uuid.uuid4()\<close>. \<open>file_pattern a b\<close> is
  \<^verbatim>\<open>objectsMapping['file']['pattern'].format(a, b)\<close>, \<open>socket_allowed f\<close> is
  \<^verbatim>\<open>SocketExt._properties[f].allowed\<close>, and \<open>py_str\<close> is the text Python prints for a
  value that is not a string.

  The twelve object kinds other than \<^verbatim>\<open>file\<close> and \<^verbatim>\<open>stix2-pattern\<close> have builders of one
  shape: local variables are set up, a loop over the attributes registers each
  attribute's galaxies and then updates the locals and the mapping module's mutable
  templates, and a tail computes the result. \<open>b_start\<close>, \<open>b_step\<close> and \<open>b_finish\<close> are those
  three parts, acting on the value \<open>builder_state\<close>; \<open>b_galaxies\<close> tells whether the loop
  registers galaxies.
\<close>

record env =
  mispTypesMapping :: "(string \<times> type_entry) list"
  category_type_mappings :: "string list"
  objectsMapping_to_call :: "string \<Rightarrow> obj_call option"
  file_pattern :: "string \<Rightarrow> jv \<Rightarrow> string"
  fileMapping :: "(string \<times> string) list"
  hash_types :: "string list"
  peMapping :: "string \<Rightarrow> string option"
  peSectionMapping :: "string \<Rightarrow> string option"
  relationshipsSpecifications :: "string \<Rightarrow> (string \<Rightarrow> string option) option"
  defineProtocols :: "string \<Rightarrow> string option"
  attackPatternObjectMapping :: "string \<Rightarrow> string option"
  attack_pattern_reference_mapping :: "string \<Rightarrow> (string \<times> string) option"
  vulnerabilityMapping :: "string \<Rightarrow> string option"
  socket_allowed :: "string \<Rightarrow> jv list"
  py_str :: "jv \<Rightarrow> string"
  tlp_markings :: "string \<Rightarrow> string option"
  module_globals :: "string \<Rightarrow> sdo option"
  construct :: "string \<Rightarrow> (string \<times> jv) list \<Rightarrow> error option"
  define_custom :: "custom_class \<Rightarrow> error option"
  construct_custom :: "custom_class \<Rightarrow> (string \<times> jv) list \<Rightarrow> error option"
  uuid4 :: "nat \<Rightarrow> string"
  b_galaxies :: "string \<Rightarrow> bool"
  b_start :: "string \<Rightarrow> string \<Rightarrow> jv \<Rightarrow> jv"
  b_step :: "string \<Rightarrow> attribute \<Rightarrow> jv \<Rightarrow> error option \<times> jv"
  b_finish :: "string \<Rightarrow> jv \<Rightarrow> (error + jv) \<times> jv"

section \<open>The builder's state\<close>

text \<open>
  \<^verbatim>\<open>StixBuilder\<close>'s attributes. \<^verbatim>\<open>__init__\<close> makes \<open>orgs\<close>, \<open>galaxies\<close>, \<open>ids\<close> and
  \<open>custom_objects\<close>; \<^verbatim>\<open>handler\<close> makes the others when an event's translation begins,
  and none of them is read before. \<open>relationships_defined\<close> and
  \<open>relationships_to_define\<close> are the two entries of \<^verbatim>\<open>self.relationships\<close>. \<open>uuid_calls\<close>
  counts the calls of \<^verbatim>\<open>uuid.uuid4()\<close> so far.
\<close>

record builder =
  orgs :: "string list"
  galaxies :: "string list"
  ids :: "(string \<times> string) list"
  custom_objects :: "(string \<times> custom_class) list"
  misp_event :: "event option"
  report_id :: string
  identity_id :: string
  SDOs :: "sdo list"
  object_refs :: "string list"
  links :: "attribute list"
  markings :: "(string \<times> sdo) list"
  relationships_defined :: "(string \<times> string list) list"
  relationships_to_define :: "(string \<times> (string \<times> string) list) list"
  objects_to_parse :: "(string \<times> (string \<times> bool \<times> misp_object) list) list"
  uuid_calls :: nat
  builder_state :: jv

definition init :: builder where
  "init =
     \<lparr>orgs = [], galaxies = [], ids = [], custom_objects = [], misp_event = None,
      report_id = [], identity_id = [], SDOs = [], object_refs = [], links = [],
      markings = [], relationships_defined = [], relationships_to_define = [],
      objects_to_parse = [], uuid_calls = 0, builder_state = JNone\<rparr>"

text \<open>
  A method is a function from the state to a result, an exception or a value, and the
  state it leaves: what was mutated before an exception was raised stays mutated.
\<close>

type_synonym 'a M = "builder \<Rightarrow> (error + 'a) \<times> builder"

definition ret :: "'a \<Rightarrow> 'a M" where
  "ret x s = (Inr x, s)"

definition raise :: "error \<Rightarrow> 'a M" where
  "raise e s = (Inl e, s)"

definition bind :: "'a M \<Rightarrow> ('a \<Rightarrow> 'b M) \<Rightarrow> 'b M" where
  "bind m f s = (case m s of (Inl e, s') \<Rightarrow> (Inl e, s') | (Inr x, s') \<Rightarrow> f x s')"

text \<open>\<^verbatim>\<open>try: m except <caught>: h\<close>.\<close>

definition try_except :: "'a M \<Rightarrow> (error \<Rightarrow> bool) \<Rightarrow> 'a M \<Rightarrow> 'a M" where
  "try_except m caught h s =
     (case m s of
        (Inl e, s') \<Rightarrow> if caught e then h s' else (Inl e, s')
      | (Inr x, s') \<Rightarrow> (Inr x, s'))"

text \<open>\<^verbatim>\<open>for x in xs: f(x)\<close>.\<close>

fun for_each :: "'a list \<Rightarrow> ('a \<Rightarrow> unit M) \<Rightarrow> unit M" where
  "for_each [] f s = (Inr (), s)"
| "for_each (x # xs) f s =
     (case f x s of (Inl e, s') \<Rightarrow> (Inl e, s') | (Inr u, s') \<Rightarrow> for_each xs f s')"

text \<open>A pure computation that may raise, run inside a method.\<close>

definition lift :: "error + 'a \<Rightarrow> 'a M" where
  "lift r s = (r, s)"

subsection \<open>Collecting the produced objects\<close>

definition append_object :: "sdo \<Rightarrow> bool \<Rightarrow> unit M" where
  "append_object stix_object id_mapping s =
     (let s1 = s\<lparr>SDOs := SDOs s @ [stix_object],
                 object_refs := object_refs s @ [sdo_id stix_object]\<rparr>
      in if id_mapping then
           (case split (sdo_id stix_object) ''--'' of
              [object_type, uuid] \<Rightarrow> (Inr (), s1\<lparr>ids := AList.update uuid object_type (ids s1)\<rparr>)
            | _ \<Rightarrow> (Inl ValueError, s1))
         else (Inr (), s1))"

text \<open>
  \<^verbatim>\<open>cls(**args)\<close> for a class of the object model, with the \<^verbatim>\<open>id\<close> among the arguments.
\<close>

definition new_object :: "env \<Rightarrow> string \<Rightarrow> string \<Rightarrow> (string \<times> jv) list \<Rightarrow> sdo M" where
  "new_object E cls oid args s =
     (case construct E cls args of
        Some e \<Rightarrow> (Inl e, s)
      | None \<Rightarrow> (Inr (SDO cls oid args), s))"

section \<open>Marking resolver\<close>

definition create_marking :: "env \<Rightarrow> string \<Rightarrow> string option M" where
  "create_marking E tag s =
     (case tlp_markings E tag of
        Some name \<Rightarrow>
          (case module_globals E name of
             None \<Rightarrow> (Inl KeyError, s)
           | Some marking_definition \<Rightarrow>
               (Inr (Some (sdo_id marking_definition)),
                s\<lparr>markings := AList.update tag marking_definition (markings s)\<rparr>))
      | None \<Rightarrow>
          (let marking_id = ''marking-definition--'' @ uuid4 E (uuid_calls s);
               s1 = s\<lparr>uuid_calls := Suc (uuid_calls s)\<rparr>
           in case split tag '':'' of
                [definition_type, definition] \<Rightarrow>
                  (let marking_definition =
                         [(''type'', JStr ''marking-definition''), (''id'', JStr marking_id),
                          (''definition_type'', JStr definition_type),
                          (''definition'', JDict [(definition_type, JStr definition)])]
                   in case construct E ''MarkingDefinition'' marking_definition of
                        None \<Rightarrow>
                          (Inr (Some marking_id),
                           s1\<lparr>markings :=
                                 AList.update tag
                                   (SDO ''MarkingDefinition'' marking_id marking_definition)
                                   (markings s1)\<rparr>)
                      | Some e \<Rightarrow>
                          if e = TLPMarkingDefinitionError \<or> e = ValueError
                          then (Inr None, s1) else (Inl e, s1))
              | _ \<Rightarrow> (Inl ValueError, s1)))"

text \<open>
  The identifier a tag resolves to in \<^verbatim>\<open>handle_tags\<close>: the cached marking's, or what
  \<open>create_marking\<close> returns.
\<close>

definition resolve_tag :: "env \<Rightarrow> string \<Rightarrow> string option M" where
  "resolve_tag E tag s =
     (case map_of (markings s) tag of
        Some marking \<Rightarrow> (Inr (Some (sdo_id marking)), s)
      | None \<Rightarrow> create_marking E tag s)"

fun handle_tags :: "env \<Rightarrow> string list \<Rightarrow> string list M" where
  "handle_tags E [] s = (Inr [], s)"
| "handle_tags E (tag # tags) s =
     (case resolve_tag E tag s of
        (Inl e, s1) \<Rightarrow> (Inl e, s1)
      | (Inr marking_id, s1) \<Rightarrow>
          (case handle_tags E tags s1 of
             (Inl e, s2) \<Rightarrow> (Inl e, s2)
           | (Inr marking_ids, s2) \<Rightarrow>
               (Inr ((case marking_id of
                        Some i \<Rightarrow> if i \<noteq> [] then [i] else []
                      | None \<Rightarrow> []) @ marking_ids), s2)))"

definition add_all_markings :: "unit M" where
  "add_all_markings s = for_each (map snd (markings s)) (\<lambda>marking. append_object marking True) s"

section \<open>Galaxy and cluster resolver\<close>

definition attack_pattern_galaxies_list :: "string list" where
  "attack_pattern_galaxies_list =
     [''mitre-attack-pattern'', ''mitre-enterprise-attack-attack-pattern'',
      ''mitre-mobile-attack-attack-pattern'', ''mitre-pre-attack-attack-pattern'']"

definition course_of_action_galaxies_list :: "string list" where
  "course_of_action_galaxies_list =
     [''mitre-course-of-action'', ''mitre-enterprise-attack-course-of-action'',
      ''mitre-mobile-attack-course-of-action'']"

definition intrusion_set_galaxies_list :: "string list" where
  "intrusion_set_galaxies_list =
     [''mitre-enterprise-attack-intrusion-set'', ''mitre-mobile-attack-intrusion-set'',
      ''mitre-pre-attack-intrusion-set'', ''mitre-intrusion-set'']"

definition malware_galaxies_list :: "string list" where
  "malware_galaxies_list =
     [''android'', ''banker'', ''stealer'', ''backdoor'', ''ransomware'', ''mitre-malware'',
      ''mitre-enterprise-attack-malware'', ''mitre-mobile-attack-malware'']"

definition threat_actor_galaxies_list :: "string list" where
  "threat_actor_galaxies_list = [''threat-actor'', ''microsoft-activity-group'']"

definition tool_galaxies_list :: "string list" where
  "tool_galaxies_list =
     [''botnet'', ''rat'', ''exploit-kit'', ''tds'', ''tool'', ''mitre-tool'',
      ''mitre-enterprise-attack-tool'', ''mitre-mobile-attack-tool'']"

datatype galaxy_call =
    Add_vulnerability_from_galaxy
  | Add_attack_pattern
  | Add_course_of_action
  | Add_intrusion_set
  | Add_malware
  | Add_threat_actor
  | Add_tool

text \<open>
  \<^verbatim>\<open>load_galaxy_mapping\<close>: the dictionary after its six updates, a later update winning.
\<close>

definition galaxies_mapping :: "string \<Rightarrow> (string \<times> galaxy_call) option" where
  "galaxies_mapping t =
     (if t \<in> set tool_galaxies_list then Some (''tool'', Add_tool)
      else if t \<in> set threat_actor_galaxies_list then Some (''threat-actor'', Add_threat_actor)
      else if t \<in> set malware_galaxies_list then Some (''malware'', Add_malware)
      else if t \<in> set intrusion_set_galaxies_list then Some (''intrusion-set'', Add_intrusion_set)
      else if t \<in> set course_of_action_galaxies_list
        then Some (''course-of-action'', Add_course_of_action)
      else if t \<in> set attack_pattern_galaxies_list
        then Some (''attack-pattern'', Add_attack_pattern)
      else if t = ''branded-vulnerability''
        then Some (''vulnerability'', Add_vulnerability_from_galaxy)
      else None)"

definition str_opt :: "string option \<Rightarrow> string" where
  "str_opt x = (case x of None \<Rightarrow> ''None'' | Some s \<Rightarrow> s)"

definition generate_galaxy_args ::
  "event option \<Rightarrow> galaxy \<Rightarrow> bool \<Rightarrow> bool \<Rightarrow> string \<Rightarrow> error + (string \<times> jv) list" where
  "generate_galaxy_args ev galaxy b_killchain b_alias sdo_type =
     (case g_GalaxyCluster galaxy of
        [] \<Rightarrow> Inl IndexError
      | cluster # _ \<Rightarrow>
          (let cluster_uuid = (case c_collection_uuid cluster of
                                 Some u \<Rightarrow> u
                               | None \<Rightarrow> c_uuid cluster);
               sdo_id = sdo_type @ ''--'' @ cluster_uuid;
               description = g_description galaxy @ '' | '' @ c_description cluster;
               labels = [''misp:name=\"'' @ g_name galaxy @ ''\"'']
           in case ev of
                None \<Rightarrow> Inl AttributeError
              | Some event \<Rightarrow>
                  (let sdo_args =
                         [(''id'', JStr sdo_id), (''type'', JStr sdo_type),
                          (''created'', JStr (e_date event)),
                          (''modified'', JTime (e_timestamp event)),
                          (''name'', JStr (c_value cluster)),
                          (''description'', JStr description),
                          (''interoperability'', JBool True)]
                   in if b_killchain \<and> g_type galaxy = None then Inl KeyError
                      else
                        (let sdo_args1 =
                               (if b_killchain
                                then AList.update ''kill_chain_phases''
                                       (JList [JDict [(''kill_chain_name'', JStr ''misp-category''),
                                                      (''phase_name'', JStr (str_opt (g_type galaxy)))]])
                                       sdo_args
                                else sdo_args);
                             labels1 = (if c_tag_name cluster \<noteq> []
                                        then labels @ [c_tag_name cluster] else labels)
                         in case c_meta cluster of
                              None \<Rightarrow> Inl TypeError
                            | Some meta \<Rightarrow>
                                (let sdo_args2 =
                                       (case map_of meta ''synonyms'' of
                                          Some synonyms \<Rightarrow>
                                            if b_alias
                                            then AList.update ''aliases''
                                                   (JList (map JStr synonyms)) sdo_args1
                                            else sdo_args1
                                        | None \<Rightarrow> sdo_args1)
                                 in Inr (AList.update ''labels'' (JList (map JStr labels1))
                                           sdo_args2))))))"

text \<open>
  \<^verbatim>\<open>add_attack_pattern\<close>, \<^verbatim>\<open>add_intrusion_set\<close>, \<^verbatim>\<open>add_malware\<close>, \<^verbatim>\<open>add_threat_actor\<close> and
  \<^verbatim>\<open>add_tool\<close> differ in the class, the type name and the two flags only.
\<close>

definition args_id :: "(string \<times> jv) list \<Rightarrow> string" where
  "args_id args = (case map_of args ''id'' of Some (JStr i) \<Rightarrow> i | _ \<Rightarrow> [])"

definition add_galaxy_sdo ::
  "env \<Rightarrow> string \<Rightarrow> string \<Rightarrow> bool \<Rightarrow> bool \<Rightarrow> galaxy \<Rightarrow> unit M" where
  "add_galaxy_sdo E cls sdo_type b_killchain b_alias galaxy =
     bind (\<lambda>s. lift (generate_galaxy_args (misp_event s) galaxy b_killchain b_alias sdo_type) s)
       (\<lambda>args. bind (\<lambda>s. new_object E cls (args_id args)
                            (AList.update ''created_by_ref'' (JStr (identity_id s)) args) s)
          (\<lambda>obj. append_object obj True))"

definition add_coa_stix_object :: "env \<Rightarrow> (string \<times> jv) list \<Rightarrow> unit M" where
  "add_coa_stix_object E coa_args =
     bind (\<lambda>s. new_object E ''CourseOfAction'' (args_id coa_args)
                 (AList.update ''created_by_ref'' (JStr (identity_id s)) coa_args
                    @ [(''allow_custom'', JBool True)]) s)
       (\<lambda>course_of_action. append_object course_of_action True)"

definition add_course_of_action :: "env \<Rightarrow> galaxy \<Rightarrow> unit M" where
  "add_course_of_action E galaxy =
     bind (\<lambda>s. lift (generate_galaxy_args (misp_event s) galaxy False False ''course-of-action'') s)
       (add_coa_stix_object E)"

definition vulnerability_args_of :: "env \<Rightarrow> error + (string \<Rightarrow> jv)" where
  "vulnerability_args_of E =
     (case map_of (mispTypesMapping E) ''vulnerability'' of
        None \<Rightarrow> Inl KeyError
      | Some entry \<Rightarrow>
          (case t_vulnerability_args entry of None \<Rightarrow> Inl KeyError | Some f \<Rightarrow> Inr f))"

definition add_vulnerability_from_galaxy :: "env \<Rightarrow> galaxy \<Rightarrow> unit M" where
  "add_vulnerability_from_galaxy E attribute s =
     (let vulnerability_id = ''vulnerability--'' @ g_uuid attribute
      in case g_GalaxyCluster attribute of
           [] \<Rightarrow> (Inl IndexError, s)
         | cluster # _ \<Rightarrow>
            (let name = c_value cluster;
                 meta = (case c_meta cluster of None \<Rightarrow> [] | Some m \<Rightarrow> m)
             in if meta \<noteq> [] \<and> map_of meta ''aliases'' = None then (Inl KeyError, s)
                else
                 (case vulnerability_args_of E of
                    Inl e \<Rightarrow> (Inl e, s)
                  | Inr vulnerability_args \<Rightarrow>
                     (let aliases = (case map_of meta ''aliases'' of None \<Rightarrow> [] | Some a \<Rightarrow> a);
                          vulnerability_data =
                            (if meta \<noteq> [] \<and> aliases \<noteq> [] then map vulnerability_args aliases
                             else [vulnerability_args name]);
                          labels = [''misp:type=\"'' @ str_opt (g_type attribute) @ ''\"'']
                                   @ (if c_tag_name cluster \<noteq> [] then [c_tag_name cluster] else []);
                          description = g_description attribute @ '' | '' @ c_description cluster;
                          vulnerability_args =
                            [(''id'', JStr vulnerability_id), (''type'', JStr ''vulnerability''),
                             (''name'', JStr name),
                             (''external_references'', JList vulnerability_data),
                             (''created_by_ref'', JStr (identity_id s)),
                             (''labels'', JList (map JStr labels)),
                             (''description'', JStr description),
                             (''interoperability'', JBool True)]
                      in bind (new_object E ''Vulnerability'' vulnerability_id vulnerability_args)
                           (\<lambda>vulnerability. append_object vulnerability True) s))))"

fun call_galaxy :: "env \<Rightarrow> galaxy_call \<Rightarrow> galaxy \<Rightarrow> unit M" where
  "call_galaxy E Add_vulnerability_from_galaxy = add_vulnerability_from_galaxy E"
| "call_galaxy E Add_attack_pattern = add_galaxy_sdo E ''AttackPattern'' ''attack-pattern'' True False"
| "call_galaxy E Add_course_of_action = add_course_of_action E"
| "call_galaxy E Add_intrusion_set = add_galaxy_sdo E ''IntrusionSet'' ''intrusion-set'' False True"
| "call_galaxy E Add_malware = add_galaxy_sdo E ''Malware'' ''malware'' True False"
| "call_galaxy E Add_threat_actor = add_galaxy_sdo E ''ThreatActor'' ''threat-actor'' False True"
| "call_galaxy E Add_tool = add_galaxy_sdo E ''Tool'' ''tool'' True False"

text \<open>
  \<^verbatim>\<open>self.relationships['defined'][source_id].append(target)\<close> on a
  \<^verbatim>\<open>defaultdict(list)\<close>.
\<close>

definition add_defined :: "string \<Rightarrow> string \<Rightarrow> unit M" where
  "add_defined source_id target s =
     (Inr (),
      s\<lparr>relationships_defined :=
          AList.update source_id
            ((case map_of (relationships_defined s) source_id of None \<Rightarrow> [] | Some ts \<Rightarrow> ts)
               @ [target])
            (relationships_defined s)\<rparr>)"

definition parse_galaxy :: "env \<Rightarrow> galaxy \<Rightarrow> string \<Rightarrow> unit M" where
  "parse_galaxy E galaxy source_id s =
     (case g_GalaxyCluster galaxy of
        [] \<Rightarrow> (Inl IndexError, s)
      | cluster # _ \<Rightarrow>
          (case c_collection_uuid cluster of
             None \<Rightarrow> (Inl KeyError, s)
           | Some galaxy_uuid \<Rightarrow>
               (case (case g_type galaxy of None \<Rightarrow> None | Some t \<Rightarrow> galaxies_mapping t) of
                  None \<Rightarrow> (Inr (), s)
                | Some (stix_type, method) \<Rightarrow>
                    bind (if galaxy_uuid \<notin> set (galaxies s)
                          then bind (call_galaxy E method galaxy)
                                 (\<lambda>_ s1. (Inr (), s1\<lparr>galaxies := galaxies s1 @ [galaxy_uuid]\<rparr>))
                          else ret ())
                      (\<lambda>_. add_defined source_id (stix_type @ ''--'' @ galaxy_uuid)) s)))"

definition parse_galaxies :: "env \<Rightarrow> galaxy list \<Rightarrow> string \<Rightarrow> unit M" where
  "parse_galaxies E gs source_id =
     for_each gs (\<lambda>galaxy. parse_galaxy E galaxy source_id)"

section \<open>Relationship builder\<close>

text \<open>
  \<^verbatim>\<open>Relationship(...)\<close> is given no \<^verbatim>\<open>id\<close>: the object model makes one from the next
  \<^verbatim>\<open>uuid4\<close>.
\<close>

definition new_relationship :: "env \<Rightarrow> (string \<times> jv) list \<Rightarrow> sdo M" where
  "new_relationship E args s =
     (case construct E ''Relationship'' args of
        Some e \<Rightarrow> (Inl e, s)
      | None \<Rightarrow>
          (Inr (SDO ''Relationship'' (''relationship--'' @ uuid4 E (uuid_calls s)) args),
           s\<lparr>uuid_calls := Suc (uuid_calls s)\<rparr>))"

definition first_of_pair :: "string \<Rightarrow> error + string" where
  "first_of_pair x = (case split x ''--'' of [a, b] \<Rightarrow> Inr a | _ \<Rightarrow> Inl ValueError)"

definition add_defined_relationship :: "env \<Rightarrow> string \<Rightarrow> string \<Rightarrow> string \<Rightarrow> unit M" where
  "add_defined_relationship E source source_type target =
     bind (lift (first_of_pair target))
       (\<lambda>target_type.
          (let relation =
                 (case relationshipsSpecifications E source_type of
                    None \<Rightarrow> ''has''
                  | Some row \<Rightarrow> (case row target_type of None \<Rightarrow> ''has'' | Some r \<Rightarrow> r))
           in bind (new_relationship E
                      [(''source_ref'', JStr source), (''target_ref'', JStr target),
                       (''relationship_type'', JStr relation), (''interoperability'', JBool True)])
                (\<lambda>relationship. append_object relationship False)))"

definition add_defined_relationships :: "env \<Rightarrow> unit M" where
  "add_defined_relationships E s =
     for_each (relationships_defined s)
       (\<lambda>(source, targets).
          if startswith source ''report'' then ret ()
          else bind (lift (first_of_pair source))
                 (\<lambda>source_type. for_each targets (add_defined_relationship E source source_type)))
       s"

text \<open>
  One reference record of the second loop of \<^verbatim>\<open>add_all_relationships\<close>: the
  \<^verbatim>\<open>KeyError\<close> of either lookup in \<^verbatim>\<open>self.ids\<close> is the \<^verbatim>\<open>continue\<close>.
\<close>

definition add_to_define_relationship :: "env \<Rightarrow> string \<Rightarrow> string \<times> string \<Rightarrow> unit M" where
  "add_to_define_relationship E source_uuid reference s =
     (case reference of
        (target_uuid, relationship_type) \<Rightarrow>
          (case map_of (ids s) source_uuid of
             None \<Rightarrow> (Inr (), s)
           | Some source_type \<Rightarrow>
               (case map_of (ids s) target_uuid of
                  None \<Rightarrow> (Inr (), s)
                | Some target_type \<Rightarrow>
                    bind (new_relationship E
                            [(''source_ref'', JStr (source_type @ ''--'' @ source_uuid)),
                             (''target_ref'', JStr (target_type @ ''--'' @ target_uuid)),
                             (''interoperability'', JBool True),
                             (''relationship_type'', JStr (strip relationship_type))])
                      (\<lambda>relationship. append_object relationship False) s)))"

definition add_to_define_relationships :: "env \<Rightarrow> unit M" where
  "add_to_define_relationships E s =
     for_each (relationships_to_define s)
       (\<lambda>(source_uuid, references).
          for_each references (add_to_define_relationship E source_uuid))
       s"

definition add_all_relationships :: "env \<Rightarrow> unit M" where
  "add_all_relationships E =
     bind (add_defined_relationships E) (\<lambda>_. add_to_define_relationships E)"

section \<open>Attribute translator\<close>

definition create_killchain :: "string \<Rightarrow> jv" where
  "create_killchain category =
     JList [JDict [(''kill_chain_name'', JStr ''misp-category''), (''phase_name'', JStr category)]]"

text \<open>
  \<^verbatim>\<open>create_labels\<close>: the three labels, then the tags that do not start with \<^verbatim>\<open>tlp:\<close>; the
  tags that do are the markings.
\<close>

definition create_labels :: "attribute \<Rightarrow> string list \<times> string list" where
  "create_labels attribute =
     ([''misp:type=\"'' @ a_type attribute @ ''\"'',
       ''misp:category=\"'' @ a_category attribute @ ''\"'',
       ''misp:to_ids=\"'' @ str_bool (a_to_ids attribute) @ ''\"'']
        @ filter (\<lambda>name. \<not> startswith name ''tlp:'') (a_Tag attribute),
      filter (\<lambda>name. startswith name ''tlp:'') (a_Tag attribute))"

definition create_object_labels :: "string \<Rightarrow> string \<Rightarrow> bool \<Rightarrow> jv" where
  "create_object_labels name category to_ids =
     JList (map JStr [''misp:type=\"'' @ name @ ''\"'',
                      ''misp:category=\"'' @ category @ ''\"'',
                      ''misp:to_ids=\"'' @ str_bool to_ids @ ''\"'',
                      ''from_object''])"

definition time_fields :: "string \<Rightarrow> string \<times> string" where
  "time_fields stix_type =
     (if stix_type = ''indicator'' then (''valid_from'', ''valid_until'')
      else (''first_observed'', ''last_observed''))"

text \<open>
  \<^verbatim>\<open>args.update(handle_time_fields(record, timestamp, stix_type))\<close>, for the
  \<^verbatim>\<open>first_seen\<close> and \<^verbatim>\<open>last_seen\<close> of an attribute or an object.
\<close>

definition update_time_fields ::
  "string \<Rightarrow> string \<Rightarrow> int \<Rightarrow> string \<Rightarrow> (string \<times> jv) list \<Rightarrow> (string \<times> jv) list" where
  "update_time_fields first_seen last_seen timestamp stix_type args =
     AList.update (snd (time_fields stix_type))
       (if last_seen \<noteq> [] then JStr last_seen else JTime timestamp)
       (AList.update (fst (time_fields stix_type))
          (if first_seen \<noteq> [] then JStr first_seen else JTime timestamp)
          (AList.update ''modified'' (JTime timestamp)
             (AList.update ''created'' (JTime timestamp) args)))"

text \<open>
  \<^verbatim>\<open>str.isdigit()\<close> on the code points below 256: the ten digits and the superscripts
  two, three and one, which \<^verbatim>\<open>int()\<close> then refuses.
\<close>

definition py_isdigit :: "string \<Rightarrow> bool" where
  "py_isdigit s =
     (s \<noteq> [] \<and> list_all (\<lambda>c. is_digit c \<or> (of_char c :: nat) = 178
                                   \<or> (of_char c :: nat) = 179 \<or> (of_char c :: nat) = 185) s)"

definition as_number :: "string \<Rightarrow> error + jv" where
  "as_number x =
     (case (if py_isdigit x then int_of_string x
            else (case split (drop 2 x) '' '' of
                    [] \<Rightarrow> Inl IndexError
                  | piece # _ \<Rightarrow> int_of_string piece)) of
        Inl e \<Rightarrow> Inl e
      | Inr i \<Rightarrow> Inr (JInt i))"

definition define_attribute_value :: "string \<Rightarrow> string \<Rightarrow> error + jv" where
  "define_attribute_value v comment =
     (if py_isdigit v \<or> startswith v ''AS'' then as_number v
      else if startswith comment ''AS'' \<or> py_isdigit comment then as_number comment
      else Inr JNone)"

definition attribute_value_of :: "attribute \<Rightarrow> error + jv" where
  "attribute_value_of attribute =
     (if a_type attribute \<noteq> ''AS'' then Inr (JStr (a_value attribute))
      else define_attribute_value (a_value attribute) (a_comment attribute))"

text \<open>
  Modelled from the spec: the pattern functions of \<^verbatim>\<open>mispTypesMapping\<close> (module
  \<^verbatim>\<open>misp2stix2_mapping\<close>, not among the sources). The spec, section 4.4: one comparison
  clause per mapped field; multiple clauses for one record are joined with \<^verbatim>\<open>AND\<close> and
  the whole expression is wrapped in one bracket pair. The clauses are the entry's
  \<open>t_clauses\<close>.
\<close>

definition pattern_expression :: "string list \<Rightarrow> string" where
  "pattern_expression clauses = ''['' @ join '' AND '' clauses @ '']''"

text \<open>\<^verbatim>\<open>entry['pattern'](type, value, data)\<close> and \<^verbatim>\<open>entry['observable'](type, value, data)\<close>.\<close>

definition call_pattern :: "type_entry \<Rightarrow> string \<Rightarrow> jv \<Rightarrow> string option \<Rightarrow> error + jv" where
  "call_pattern entry t v d =
     (case t_clauses entry of
        None \<Rightarrow> Inl KeyError
      | Some f \<Rightarrow> (case f t v d of Inl e \<Rightarrow> Inl e | Inr clauses \<Rightarrow> Inr (JStr (pattern_expression clauses))))"

definition call_observable :: "type_entry \<Rightarrow> string \<Rightarrow> jv \<Rightarrow> string option \<Rightarrow> error + jv" where
  "call_observable entry t v d =
     (case t_observable entry of None \<Rightarrow> Inl KeyError | Some f \<Rightarrow> f t v d)"

definition escape_value :: "jv \<Rightarrow> jv" where
  "escape_value v =
     (case v of
        JStr s \<Rightarrow> JStr (replace (replace s [CHR 0x27] ''##APOSTROPHE##'') [CHR 0x22] ''##QUOTE##'')
      | _ \<Rightarrow> v)"

definition define_pattern :: "env \<Rightarrow> string \<Rightarrow> jv \<Rightarrow> error + jv" where
  "define_pattern E attribute_type attribute_value =
     (case map_of (mispTypesMapping E) attribute_type of
        None \<Rightarrow> Inl KeyError
      | Some entry \<Rightarrow>
          if attribute_type = ''malware-sample''
          then call_pattern entry ''filename|md5'' (escape_value attribute_value) None
          else call_pattern entry attribute_type (escape_value attribute_value) None)"

text \<open>
  \<^verbatim>\<open>observable['0']['protocols'].append(x)\<close>, the step \<^verbatim>\<open>define_observable\<close> adds for a
  port.
\<close>

definition append_protocol :: "jv \<Rightarrow> jv \<Rightarrow> error + jv" where
  "append_protocol observable x =
     (case observable of
        JDict d \<Rightarrow>
          (case map_of d ''0'' of
             None \<Rightarrow> Inl KeyError
           | Some (JDict node) \<Rightarrow>
               (case map_of node ''protocols'' of
                  None \<Rightarrow> Inl KeyError
                | Some (JList ps) \<Rightarrow>
                    Inr (JDict (AList.update ''0''
                                  (JDict (AList.update ''protocols'' (JList (ps @ [x])) node)) d))
                | Some _ \<Rightarrow> Inl AttributeError)
           | Some _ \<Rightarrow> Inl TypeError)
      | _ \<Rightarrow> Inl TypeError)"

definition define_observable :: "env \<Rightarrow> string \<Rightarrow> jv \<Rightarrow> error + jv" where
  "define_observable E attribute_type attribute_value =
     (case map_of (mispTypesMapping E) attribute_type of
        None \<Rightarrow> Inl KeyError
      | Some entry \<Rightarrow>
          if attribute_type = ''malware-sample''
          then call_observable entry ''filename|md5'' attribute_value None
          else
            (case call_observable entry attribute_type attribute_value None of
               Inl e \<Rightarrow> Inl e
             | Inr observable \<Rightarrow>
                 if attribute_type = ''port''
                 then append_protocol observable
                        (JStr (case (case attribute_value of
                                       JStr p \<Rightarrow> defineProtocols E p | _ \<Rightarrow> None) of
                                 Some proto \<Rightarrow> proto
                               | None \<Rightarrow> ''tcp''))
                 else Inr observable))"

text \<open>
  \<^verbatim>\<open>args['object_marking_refs'] = self.handle_tags(markings)\<close> when there are markings.
\<close>

definition with_marking_refs ::
  "env \<Rightarrow> string list \<Rightarrow> (string \<times> jv) list \<Rightarrow> (string \<times> jv) list M" where
  "with_marking_refs E tags args =
     (if tags \<noteq> []
      then bind (handle_tags E tags)
             (\<lambda>refs. ret (AList.update ''object_marking_refs'' (JList (map JStr refs)) args))
      else ret args)"

definition with_comment :: "string \<Rightarrow> string \<Rightarrow> (string \<times> jv) list \<Rightarrow> (string \<times> jv) list" where
  "with_comment key comment args =
     (if comment \<noteq> [] then AList.update key (JStr comment) args else args)"

definition add_indicator :: "env \<Rightarrow> attribute \<Rightarrow> unit M" where
  "add_indicator E attribute =
     (let attribute_type = a_type attribute;
          indicator_id = ''indicator--'' @ a_uuid attribute
      in bind (parse_galaxies E (a_Galaxy attribute) indicator_id)
           (\<lambda>_. bind (lift (attribute_value_of attribute))
           (\<lambda>attribute_value.
              bind (lift (if a_data attribute \<noteq> None \<and> a_data attribute \<noteq> Some []
                          then (case map_of (mispTypesMapping E) attribute_type of
                                  None \<Rightarrow> Inl KeyError
                                | Some entry \<Rightarrow>
                                    call_pattern entry attribute_type attribute_value
                                      (a_data attribute))
                          else define_pattern E attribute_type attribute_value))
           (\<lambda>pattern s.
              (let indicator_args =
                     with_comment ''description'' (a_comment attribute)
                       (update_time_fields (a_first_seen attribute) (a_last_seen attribute)
                          (a_timestamp attribute) ''indicator''
                          [(''id'', JStr indicator_id), (''type'', JStr ''indicator''),
                           (''labels'', JList (map JStr (fst (create_labels attribute)))),
                           (''kill_chain_phases'', create_killchain (a_category attribute)),
                           (''created_by_ref'', JStr (identity_id s)),
                           (''pattern'', pattern), (''interoperability'', JBool True)])
               in bind (with_marking_refs E (snd (create_labels attribute)) indicator_args)
                    (\<lambda>args. bind (new_object E ''Indicator'' indicator_id args)
                       (\<lambda>indicator. append_object indicator True)) s)))))"

definition add_observed_data :: "env \<Rightarrow> attribute \<Rightarrow> unit M" where
  "add_observed_data E attribute =
     (let attribute_type = a_type attribute;
          observed_data_id = ''observed-data--'' @ a_uuid attribute
      in bind (parse_galaxies E (a_Galaxy attribute) observed_data_id)
           (\<lambda>_. bind (lift (attribute_value_of attribute))
           (\<lambda>attribute_value.
              bind (lift (if a_data attribute \<noteq> None \<and> a_data attribute \<noteq> Some []
                          then (case map_of (mispTypesMapping E) attribute_type of
                                  None \<Rightarrow> Inl KeyError
                                | Some entry \<Rightarrow>
                                    call_observable entry attribute_type attribute_value
                                      (a_data attribute))
                          else define_observable E attribute_type attribute_value))
           (\<lambda>observable s.
              (let observed_data_args =
                     update_time_fields (a_first_seen attribute) (a_last_seen attribute)
                       (a_timestamp attribute) ''observed-data''
                       [(''id'', JStr observed_data_id), (''type'', JStr ''observed-data''),
                        (''number_observed'', JInt 1), (''objects'', observable),
                        (''created_by_ref'', JStr (identity_id s)),
                        (''labels'', JList (map JStr (fst (create_labels attribute)))),
                        (''interoperability'', JBool True)]
               in bind (with_marking_refs E (snd (create_labels attribute)) observed_data_args)
                    (\<lambda>args. bind (new_object E ''ObservedData'' observed_data_id args)
                       (\<lambda>observed_data. append_object observed_data True)) s)))))"

text \<open>
  The custom wrapper of a kind: the class cached under the type name, or a class declared
  now and cached; then its instance.
\<close>

definition new_custom ::
  "env \<Rightarrow> string \<Rightarrow> custom_class \<Rightarrow> string \<Rightarrow> (string \<times> jv) list \<Rightarrow> sdo M" where
  "new_custom E custom_object_type declared custom_object_id args s =
     (case (case map_of (custom_objects s) custom_object_type of
              Some cls \<Rightarrow> (Inr cls, s)
            | None \<Rightarrow>
                (case define_custom E declared of
                   Some e \<Rightarrow> (Inl e, s)
                 | None \<Rightarrow>
                     (Inr declared,
                      s\<lparr>custom_objects :=
                          AList.update custom_object_type declared (custom_objects s)\<rparr>))) of
        (Inl e, s1) \<Rightarrow> (Inl e, s1)
      | (Inr cls, s1) \<Rightarrow>
          (case construct_custom E cls args of
             Some e \<Rightarrow> (Inl e, s1)
           | None \<Rightarrow> (Inr (SDO custom_object_type custom_object_id args), s1)))"

definition add_custom :: "env \<Rightarrow> attribute \<Rightarrow> unit M" where
  "add_custom E attribute s =
     (let attribute_type = lower (replace (replace (a_type attribute) ''|'' ''-'') '' '' ''-'');
          custom_object_id = ''x-misp-object-'' @ attribute_type @ ''--'' @ a_uuid attribute;
          custom_object_type = ''x-misp-object-'' @ attribute_type;
          labels = JList (map JStr (fst (create_labels attribute)));
          tags = snd (create_labels attribute);
          custom_object_args =
            with_comment ''x_misp_comment'' (a_comment attribute)
              [(''id'', JStr custom_object_id), (''x_misp_category'', JStr (a_category attribute)),
               (''created'', JTime (a_timestamp attribute)),
               (''modified'', JTime (a_timestamp attribute)), (''labels'', labels),
               (''x_misp_value'', JStr (a_value attribute)),
               (''created_by_ref'', JStr (identity_id s))]
      in bind (with_marking_refs E tags custom_object_args)
           (\<lambda>args.
              bind (new_custom E custom_object_type
                      (Custom_of_attribute custom_object_type labels
                         (case map_of args ''object_marking_refs'' of
                            Some refs \<Rightarrow> refs | None \<Rightarrow> JList []))
                      custom_object_id args)
                (\<lambda>custom_object. append_object custom_object True)) s)"

text \<open>
  \<^verbatim>\<open>add_identity\<close> reads its local variable \<^verbatim>\<open>identity\<close> while it builds the arguments,
  before the assignment that makes it: every call raises \<^verbatim>\<open>UnboundLocalError\<close>.
\<close>

definition add_identity :: "env \<Rightarrow> attribute \<Rightarrow> unit M" where
  "add_identity E attribute = raise UnboundLocalError"

definition add_vulnerability :: "env \<Rightarrow> attribute \<Rightarrow> unit M" where
  "add_vulnerability E attribute s =
     (let vulnerability_id = ''vulnerability--'' @ a_uuid attribute;
          name = a_value attribute
      in case vulnerability_args_of E of
           Inl e \<Rightarrow> (Inl e, s)
         | Inr vulnerability_args \<Rightarrow>
             bind (with_marking_refs E (snd (create_labels attribute))
                     [(''id'', JStr vulnerability_id), (''type'', JStr ''vulnerability''),
                      (''name'', JStr name),
                      (''external_references'', JList [vulnerability_args name]),
                      (''created_by_ref'', JStr (identity_id s)),
                      (''labels'', JList (map JStr (fst (create_labels attribute)))),
                      (''interoperability'', JBool True)])
               (\<lambda>args. bind (new_object E ''Vulnerability'' vulnerability_id args)
                  (\<lambda>vulnerability. append_object vulnerability True)) s)"

definition handle_person :: "env \<Rightarrow> attribute \<Rightarrow> unit M" where
  "handle_person E attribute =
     (if a_category attribute = ''Person'' then add_identity E attribute
      else add_custom E attribute)"

definition handle_usual_type :: "env \<Rightarrow> attribute \<Rightarrow> unit M" where
  "handle_usual_type E attribute =
     try_except
       (if a_to_ids attribute then add_indicator E attribute
        else add_observed_data E attribute)
       (\<lambda>e. True)
       (add_custom E attribute)"

definition handle_link :: "attribute \<Rightarrow> unit M" where
  "handle_link attribute s = (Inr (), s\<lparr>links := links s @ [attribute]\<rparr>)"

section \<open>Pattern and observable builders of the file family\<close>

text \<open>Sequencing of pure computations that may raise.\<close>

definition sbind :: "error + 'a \<Rightarrow> ('a \<Rightarrow> error + 'b) \<Rightarrow> error + 'b" where
  "sbind r f = (case r of Inl e \<Rightarrow> Inl e | Inr x \<Rightarrow> f x)"

text \<open>The text an f-string or \<^verbatim>\<open>format\<close> puts for a value.\<close>

definition text_of :: "env \<Rightarrow> jv \<Rightarrow> string" where
  "text_of E v = (case v of JStr s \<Rightarrow> s | _ \<Rightarrow> py_str E v)"

text \<open>
  \<^verbatim>\<open>d[k].append(v)\<close> on a \<^verbatim>\<open>defaultdict(list)\<close>, over a list of pairs.
\<close>

definition group_values :: "(string \<times> string) list \<Rightarrow> (string \<times> string list) list" where
  "group_values kvs =
     foldl (\<lambda>d (k, v). AList.update k ((case map_of d k of None \<Rightarrow> [] | Some vs \<Rightarrow> vs) @ [v]) d)
       [] kvs"

definition parse_attribute :: "attribute \<Rightarrow> string" where
  "parse_attribute attribute =
     (case a_data attribute of
        Some data \<Rightarrow>
          if a_type attribute = ''attachment'' \<or> a_type attribute = ''malware-sample''
          then replace (a_value attribute) '' | '' ''|'' @ '' | '' @ data
          else a_value attribute
      | None \<Rightarrow> a_value attribute)"

definition multiple_fields :: "string list" where
  "multiple_fields = [''filename'', ''path'', ''fullpath'']"

text \<open>
  \<^verbatim>\<open>create_file_attributes_dict\<close>: the values of each relation, a lone value of a relation
  outside \<open>multiple_fields\<close> unwrapped; each attribute's galaxies are registered on the
  way.
\<close>

definition file_attributes_dict :: "attribute list \<Rightarrow> (string \<times> jv) list" where
  "file_attributes_dict attributes =
     map (\<lambda>(key, vs).
            (key, (case vs of
                     [v] \<Rightarrow> if key \<notin> set multiple_fields then JStr v else JList [JStr v]
                   | _ \<Rightarrow> JList (map JStr vs))))
       (group_values (map (\<lambda>a. (a_object_relation a, parse_attribute a)) attributes))"

definition create_file_attributes_dict ::
  "env \<Rightarrow> attribute list \<Rightarrow> string \<Rightarrow> (string \<times> jv) list M" where
  "create_file_attributes_dict E attributes object_id =
     bind (for_each attributes (\<lambda>attribute. parse_galaxies E (a_Galaxy attribute) object_id))
       (\<lambda>_. ret (file_attributes_dict attributes))"

text \<open>
  The statement both file builders run on the dictionary before they read it:
  \<^verbatim>\<open>attributes_dict.update({'path': ['/home/chrisr3d/git/'], 'fullpath': [...]})\<close>.
\<close>

definition update_paths :: "(string \<times> jv) list \<Rightarrow> (string \<times> jv) list" where
  "update_paths attributes_dict =
     AList.update ''fullpath''
       (JList [JStr ''/home/chrisr3d/git/MISP/cleanMISP/app/files/scripts/stix2''])
       (AList.update ''path'' (JList [JStr ''/home/chrisr3d/git/'']) attributes_dict)"

text \<open>
  \<^verbatim>\<open>d['hashes'][k] = v\<close> on a \<^verbatim>\<open>defaultdict(dict)\<close>.
\<close>

definition set_hash :: "(string \<times> jv) list \<Rightarrow> string \<Rightarrow> jv \<Rightarrow> error + (string \<times> jv) list" where
  "set_hash d k v =
     (case map_of d ''hashes'' of
        None \<Rightarrow> Inr (AList.update ''hashes'' (JDict [(k, v)]) d)
      | Some (JDict h) \<Rightarrow> Inr (AList.update ''hashes'' (JDict (AList.update k v h)) d)
      | Some _ \<Rightarrow> Inl TypeError)"

fun apply_file_mapping ::
  "env \<Rightarrow> (string \<times> jv) list \<Rightarrow> (string \<times> string) list \<Rightarrow> (string \<times> jv) list
     \<Rightarrow> error + (string \<times> jv) list" where
  "apply_file_mapping E attributes_dict [] file_observable = Inr file_observable"
| "apply_file_mapping E attributes_dict ((key, feature) # rest) file_observable =
     (case map_of attributes_dict key of
        None \<Rightarrow> apply_file_mapping E attributes_dict rest file_observable
      | Some v \<Rightarrow>
          sbind (if key \<in> set (hash_types E) then set_hash file_observable feature v
                 else Inr (AList.update feature v file_observable))
            (apply_file_mapping E attributes_dict rest))"

definition handle_multiple_file_fields_observable ::
  "(string \<times> jv) list \<Rightarrow> jv list \<Rightarrow> string \<Rightarrow> error + (string \<times> jv) list" where
  "handle_multiple_file_fields_observable file_observable vs feature =
     (case vs of
        [] \<Rightarrow> Inl IndexError
      | [v] \<Rightarrow> Inr (AList.update (''x_misp_multiple_'' @ feature) v file_observable)
      | _ \<Rightarrow> Inr (AList.update (''x_misp_multiple_'' @ feature @ ''s'') (JList vs) file_observable))"

definition create_artifact_observable :: "jv \<Rightarrow> error + (string \<times> jv) list \<times> jv" where
  "create_artifact_observable v =
     (case v of
        JStr s \<Rightarrow>
          if contains s '' | ''
          then (case split s '' | '' of
                  [v1, data] \<Rightarrow> Inr ([(''type'', JStr ''artifact''), (''payload_bin'', JStr data)],
                                     JStr v1)
                | _ \<Rightarrow> Inl ValueError)
          else Inr ([(''type'', JStr ''artifact'')], v)
      | JList xs \<Rightarrow>
          if JStr '' | '' \<in> set xs then Inl AttributeError
          else Inr ([(''type'', JStr ''artifact'')], v)
      | _ \<Rightarrow> Inl TypeError)"

text \<open>
  The three variables of \<^verbatim>\<open>resolve_file_observable\<close> are \<open>observable\<close>, \<open>file_observable\<close>
  and \<open>n_object\<close>; each step below is one \<^verbatim>\<open>if\<close> of its body. The two statements that
  name \<^verbatim>\<open>file_obsevrable\<close>, a variable that does not exist, raise \<^verbatim>\<open>NameError\<close>.
\<close>

type_synonym file_vars = "(string \<times> jv) list \<times> (string \<times> jv) list \<times> nat"

definition file_step_filename :: "(string \<times> jv) list \<Rightarrow> file_vars \<Rightarrow> error + file_vars" where
  "file_step_filename attributes_dict vars =
     (case vars of
        (observable, file_observable, n_object) \<Rightarrow>
          (case map_of attributes_dict ''filename'' of
             None \<Rightarrow> Inr vars
           | Some (JList []) \<Rightarrow> Inl IndexError
           | Some (JList (v # rest)) \<Rightarrow>
               (let file_observable1 = AList.update ''name'' v file_observable
                in if rest \<noteq> []
                   then sbind (handle_multiple_file_fields_observable file_observable1 rest
                                 ''filename'')
                          (\<lambda>file_observable2. Inr (observable, file_observable2, n_object))
                   else Inr (observable, file_observable1, n_object))
           | Some _ \<Rightarrow> Inl TypeError))"

definition file_step_path :: "(string \<times> jv) list \<Rightarrow> file_vars \<Rightarrow> error + file_vars" where
  "file_step_path attributes_dict vars =
     (case vars of
        (observable, file_observable, n_object) \<Rightarrow>
          (case map_of attributes_dict ''path'' of
             None \<Rightarrow> Inr vars
           | Some (JList []) \<Rightarrow> Inl IndexError
           | Some (JList (v # rest)) \<Rightarrow>
               if rest \<noteq> [] then Inl NameError
               else Inr (AList.update (str_nat n_object)
                           (JDict [(''type'', JStr ''directory''), (''path'', v)]) observable,
                         AList.update ''parent_directory_ref'' (JStr (str_nat n_object))
                           file_observable,
                         n_object + 1)
           | Some _ \<Rightarrow> Inl TypeError))"

definition file_step_fullpath :: "(string \<times> jv) list \<Rightarrow> file_vars \<Rightarrow> error + file_vars" where
  "file_step_fullpath attributes_dict vars =
     (case vars of
        (observable, file_observable, n_object) \<Rightarrow>
          (case map_of attributes_dict ''fullpath'' of
             None \<Rightarrow> Inr vars
           | Some (JList vs) \<Rightarrow>
               if map_of file_observable ''parent_directory_ref'' = None
               then (case vs of
                       [] \<Rightarrow> Inl IndexError
                     | v # _ \<Rightarrow>
                         (case map_of attributes_dict ''path'' of
                            None \<Rightarrow> Inl KeyError
                          | Some (JList ps) \<Rightarrow>
                              if 1 < length ps then Inl NameError
                              else Inr (AList.update (str_nat n_object)
                                          (JDict [(''type'', JStr ''directory''), (''path'', v)])
                                          observable,
                                        AList.update ''parent_directory_ref''
                                          (JStr (str_nat n_object)) file_observable,
                                        n_object + 1)
                          | Some _ \<Rightarrow> Inl TypeError))
               else sbind (handle_multiple_file_fields_observable file_observable vs ''fullpath'')
                      (\<lambda>file_observable1. Inr (observable, file_observable1, n_object))
           | Some _ \<Rightarrow> Inl TypeError))"

definition file_step_malware_sample ::
  "(string \<times> jv) list \<Rightarrow> file_vars \<Rightarrow> error + file_vars" where
  "file_step_malware_sample attributes_dict vars =
     (case vars of
        (observable, file_observable, n_object) \<Rightarrow>
          (case map_of attributes_dict ''malware-sample'' of
             None \<Rightarrow> Inr vars
           | Some v \<Rightarrow>
               sbind (create_artifact_observable v)
                 (\<lambda>(artifact, v1).
                    (case v1 of
                       JStr s \<Rightarrow>
                         (case split s ''|'' of
                            [filename, md5] \<Rightarrow>
                              Inr (AList.update (str_nat n_object)
                                     (JDict (AList.update ''hashes'' (JDict [(''MD5'', JStr md5)])
                                               (AList.update ''name'' (JStr filename) artifact)))
                                     observable,
                                   AList.update ''content_ref'' (JStr (str_nat n_object))
                                     file_observable,
                                   n_object + 1)
                          | _ \<Rightarrow> Inl ValueError)
                     | _ \<Rightarrow> Inl AttributeError))))"

definition file_step_attachment ::
  "(string \<times> jv) list \<Rightarrow> file_vars \<Rightarrow> error + file_vars" where
  "file_step_attachment attributes_dict vars =
     (case vars of
        (observable, file_observable, n_object) \<Rightarrow>
          (case map_of attributes_dict ''attachment'' of
             None \<Rightarrow> Inr vars
           | Some v \<Rightarrow>
               sbind (create_artifact_observable v)
                 (\<lambda>(artifact, v1).
                    Inr (AList.update (str_nat n_object)
                           (JDict (AList.update ''name'' v1 artifact)) observable,
                         file_observable, n_object + 1))))"

definition file_observable_of :: "env \<Rightarrow> (string \<times> jv) list \<Rightarrow> error + (string \<times> jv) list" where
  "file_observable_of E attributes_dict =
     sbind (apply_file_mapping E attributes_dict (fileMapping E) [(''type'', JStr ''file'')])
       (\<lambda>file_observable.
          sbind (file_step_filename attributes_dict ([], file_observable, 0))
            (\<lambda>vars1. sbind (file_step_path attributes_dict vars1)
            (\<lambda>vars2. sbind (file_step_fullpath attributes_dict vars2)
            (\<lambda>vars3. sbind (file_step_malware_sample attributes_dict vars3)
            (\<lambda>vars4. sbind (file_step_attachment attributes_dict vars4)
            (\<lambda>(observable, file_observable1, n_object).
               Inr (AList.update (str_nat n_object) (JDict file_observable1) observable)))))))"

definition resolve_file_observable :: "env \<Rightarrow> attribute list \<Rightarrow> string \<Rightarrow> (string \<times> jv) list M" where
  "resolve_file_observable E attributes object_id =
     bind (create_file_attributes_dict E attributes object_id)
       (\<lambda>attributes_dict. lift (file_observable_of E (update_paths attributes_dict)))"

subsection \<open>The file pattern\<close>

fun file_mapping_patterns ::
  "env \<Rightarrow> (string \<times> jv) list \<Rightarrow> (string \<times> string) list \<Rightarrow> string list" where
  "file_mapping_patterns E attributes_dict [] = []"
| "file_mapping_patterns E attributes_dict ((key, feature) # rest) =
     (case map_of attributes_dict key of
        None \<Rightarrow> file_mapping_patterns E attributes_dict rest
      | Some v \<Rightarrow>
          file_pattern E (if key \<in> set (hash_types E) then ''hashes.'' @ [CHR 0x27] @ feature @ [CHR 0x27]
                          else feature) v
            # file_mapping_patterns E attributes_dict rest)"

definition file_clause :: "env \<Rightarrow> string \<Rightarrow> jv \<Rightarrow> string" where
  "file_clause E feature v = ''file:'' @ feature @ '' = '' @ [CHR 0x27] @ text_of E v @ [CHR 0x27]"

text \<open>
  \<^verbatim>\<open>_handle_multiple_file_fields_pattern\<close>: the clauses it adds for the values of one
  relation.
\<close>

definition handle_multiple_file_fields_pattern ::
  "env \<Rightarrow> (string \<times> jv) list \<Rightarrow> string \<Rightarrow> string \<Rightarrow> error + string list" where
  "handle_multiple_file_fields_pattern E attributes_dict key feature =
     (case map_of attributes_dict key of
        None \<Rightarrow> Inr []
      | Some (JList []) \<Rightarrow> Inl IndexError
      | Some (JList vs) \<Rightarrow> Inr (map (file_clause E feature) vs)
      | Some _ \<Rightarrow> Inl TypeError)"

definition quoted :: "string \<Rightarrow> string" where
  "quoted s = [CHR 0x27] @ s @ [CHR 0x27]"

text \<open>
  The last loop of \<^verbatim>\<open>resolve_file_pattern\<close>, for \<^verbatim>\<open>attachment\<close> and then
  \<^verbatim>\<open>malware-sample\<close>.
\<close>

definition payload_patterns ::
  "env \<Rightarrow> (string \<times> jv) list \<Rightarrow> string \<Rightarrow> string \<Rightarrow> error + string list" where
  "payload_patterns E attributes_dict feature pattern_part =
     (case map_of attributes_dict feature of
        None \<Rightarrow> Inr []
      | Some (JStr s) \<Rightarrow>
          sbind (if contains s '' | ''
                 then (case split s '' | '' of
                         [v1, data] \<Rightarrow> Inr ([pattern_part @ ''payload_bin = '' @ quoted data], v1)
                       | _ \<Rightarrow> Inl ValueError)
                 else Inr ([], s))
            (\<lambda>(ps, v1).
               if feature = ''malware-sample''
               then (case split v1 ''|'' of
                       [v2, md5] \<Rightarrow>
                         Inr (ps @ [pattern_part @ ''hashes.'' @ quoted ''MD5'' @ '' = '' @ quoted md5,
                                    pattern_part @ ''name = '' @ quoted v2])
                     | _ \<Rightarrow> Inl ValueError)
               else Inr (ps @ [pattern_part @ ''x_misp_text_name = '' @ quoted v1]))
      | Some (JList xs) \<Rightarrow>
          if JStr '' | '' \<in> set xs \<or> feature = ''malware-sample'' then Inl AttributeError
          else Inr [pattern_part @ ''x_misp_text_name = '' @ quoted (py_str E (JList xs))]
      | Some _ \<Rightarrow> Inl TypeError)"

definition file_patterns_of :: "env \<Rightarrow> (string \<times> jv) list \<Rightarrow> error + string list" where
  "file_patterns_of E attributes_dict =
     sbind (handle_multiple_file_fields_pattern E attributes_dict ''filename'' ''name'')
       (\<lambda>p1. sbind (handle_multiple_file_fields_pattern E attributes_dict ''path''
                      ''parent_directory_ref.path'')
       (\<lambda>p2. sbind (handle_multiple_file_fields_pattern E attributes_dict ''fullpath''
                      ''parent_directory_ref.path'')
       (\<lambda>p3. sbind (payload_patterns E attributes_dict ''attachment'' ''artifact:'')
       (\<lambda>p4. sbind (payload_patterns E attributes_dict ''malware-sample'' ''file:content_ref.'')
       (\<lambda>p5. Inr (file_mapping_patterns E attributes_dict (fileMapping E)
                    @ p1 @ p2 @ p3 @ p4 @ p5))))))"

definition resolve_file_pattern :: "env \<Rightarrow> attribute list \<Rightarrow> string \<Rightarrow> string list M" where
  "resolve_file_pattern E attributes object_id =
     bind (create_file_attributes_dict E attributes object_id)
       (\<lambda>attributes_dict. lift (file_patterns_of E (update_paths attributes_dict)))"

subsection \<open>The embedded executable and its sections\<close>

definition misp_hash_types :: "string list" where
  "misp_hash_types =
     [''authentihash'', ''ssdeep'', ''imphash'', ''md5'', ''sha1'', ''sha224'', ''sha256'',
      ''sha384'', ''sha512'', ''sha512/224'', ''sha512/256'', ''tlsh'']"

definition custom_key :: "attribute \<Rightarrow> string" where
  "custom_key attribute =
     ''x_misp_'' @ a_type attribute @ ''_'' @ replace (a_object_relation attribute) ''-'' ''_''"

definition pe_key :: "env \<Rightarrow> attribute \<Rightarrow> string" where
  "pe_key E attribute =
     (case peMapping E (a_object_relation attribute) of
        Some k \<Rightarrow> k
      | None \<Rightarrow> custom_key attribute)"

text \<open>The loop over one section's attributes, on the \<^verbatim>\<open>defaultdict(dict)\<close> \<open>d_section\<close>.\<close>

fun section_fields ::
  "env \<Rightarrow> attribute list \<Rightarrow> (string \<times> jv) list \<Rightarrow> error + (string \<times> jv) list" where
  "section_fields E [] d_section = Inr d_section"
| "section_fields E (attribute # rest) d_section =
     (let relation = a_object_relation attribute
      in if relation \<in> set misp_hash_types
         then sbind (set_hash d_section relation (JStr (a_value attribute)))
                (section_fields E rest)
         else (case peSectionMapping E relation of
                 None \<Rightarrow> section_fields E rest d_section
               | Some k \<Rightarrow>
                   section_fields E rest (AList.update k (JStr (a_value attribute)) d_section)))"

text \<open>\<^verbatim>\<open>extension['sections'].append(x)\<close> on the \<^verbatim>\<open>defaultdict(list)\<close> \<open>extension\<close>.\<close>

definition append_section :: "(string \<times> jv) list \<Rightarrow> jv \<Rightarrow> error + (string \<times> jv) list" where
  "append_section extension x =
     (case map_of extension ''sections'' of
        None \<Rightarrow> Inr (AList.update ''sections'' (JList [x]) extension)
      | Some (JList xs) \<Rightarrow> Inr (AList.update ''sections'' (JList (xs @ [x])) extension)
      | Some _ \<Rightarrow> Inl AttributeError)"

text \<open>
  The loop over the sections; \<open>todo\<close> are the sections still to come, \<open>sections\<close> all of
  them, which \<^verbatim>\<open>sections.index(section)\<close> searches.
\<close>

fun add_sections ::
  "env \<Rightarrow> misp_object list \<Rightarrow> misp_object list \<Rightarrow> (string \<times> jv) list
     \<Rightarrow> error + (string \<times> jv) list" where
  "add_sections E sections [] extension = Inr extension"
| "add_sections E sections (section # todo) extension =
     sbind (section_fields E (o_Attribute section) [])
       (\<lambda>d_section.
          (let d_section1 =
                 (if map_of d_section ''name'' = None
                  then AList.update ''name''
                         (JStr (''Section '' @ str_nat (index_of sections section))) d_section
                  else d_section)
           in case construct E ''WindowsPESection'' d_section1 of
                Some e \<Rightarrow> Inl e
              | None \<Rightarrow>
                  sbind (append_section extension (JDict d_section1))
                    (add_sections E sections todo)))"

text \<open>
  The last statement of \<^verbatim>\<open>parse_pe_extensions_observable\<close>: the declared count is
  read from the \<^verbatim>\<open>defaultdict(list)\<close>, which yields the empty list when there is none.
\<close>

definition fix_number_of_sections ::
  "nat \<Rightarrow> (string \<times> jv) list \<Rightarrow> error + (string \<times> jv) list" where
  "fix_number_of_sections n extension =
     sbind (py_int (case map_of extension ''number_of_sections'' of
                      None \<Rightarrow> JList []
                    | Some v \<Rightarrow> v))
       (\<lambda>declared.
          if int n \<noteq> declared
          then Inr (AList.update ''number_of_sections'' (JStr (str_nat n)) extension)
          else Inr extension)"

definition parse_pe_extensions_observable ::
  "env \<Rightarrow> misp_object \<Rightarrow> misp_object list \<Rightarrow> string \<Rightarrow> error + jv" where
  "parse_pe_extensions_observable E pe_object sections pe_type =
     sbind (add_sections E sections sections
              (foldl (\<lambda>extension attribute.
                        AList.update (pe_key E attribute) (JStr (a_value attribute)) extension)
                 [(''pe_type'', JStr pe_type)] (o_Attribute pe_object)))
       (\<lambda>extension.
          sbind (fix_number_of_sections (length sections) extension)
            (\<lambda>extension1. Inr (JDict [(''windows-pebinary-ext'', JDict extension1)])))"

definition pe_mapping :: string where
  "pe_mapping = ''extensions.'' @ quoted ''windows-pebinary-ext''"

fun section_patterns :: "env \<Rightarrow> string \<Rightarrow> attribute list \<Rightarrow> string list" where
  "section_patterns E section_mapping [] = []"
| "section_patterns E section_mapping (attribute # rest) =
     (let relation = a_object_relation attribute
      in if relation \<in> set misp_hash_types
         then file_pattern E (section_mapping @ ''.hashes.'' @ quoted relation)
                (JStr (a_value attribute))
              # section_patterns E section_mapping rest
         else (case peSectionMapping E relation of
                 None \<Rightarrow> section_patterns E section_mapping rest
               | Some k \<Rightarrow>
                   file_pattern E (section_mapping @ ''.'' @ k) (JStr (a_value attribute))
                   # section_patterns E section_mapping rest))"

fun sections_patterns :: "env \<Rightarrow> nat \<Rightarrow> misp_object list \<Rightarrow> string list" where
  "sections_patterns E n_section [] = []"
| "sections_patterns E n_section (section # rest) =
     section_patterns E (pe_mapping @ ''.sections['' @ str_nat n_section @ '']'')
       (o_Attribute section)
     @ sections_patterns E (n_section + 1) rest"

definition parse_pe_extensions_pattern ::
  "env \<Rightarrow> misp_object \<Rightarrow> misp_object list \<Rightarrow> string list" where
  "parse_pe_extensions_pattern E pe_object sections =
     map (\<lambda>attribute. file_pattern E (pe_mapping @ ''.'' @ pe_key E attribute)
                         (JStr (a_value attribute)))
       (o_Attribute pe_object)
     @ sections_patterns E 0 sections"

text \<open>
  \<^verbatim>\<open>re.compile(".* .+{0}.+ .*|.* {0} .*".format(extension)).match(s)\<close>: the dot does not
  match a line feed, so a match lies in the first line. Either the extension stands there
  between two spaces, or it stands at a place \<open>j\<close> with a space at least two characters
  before it and a space at least one character after its end.
\<close>

definition mime_matches :: "string \<Rightarrow> string \<Rightarrow> bool" where
  "mime_matches extension s =
     (let l = takeWhile (\<lambda>c. c \<noteq> CHR 0x0A) s
      in contains l ('' '' @ extension @ '' '')
         \<or> list_ex (\<lambda>j. startswith (drop j l) extension
                         \<and> CHR '' '' \<in> set (take (j - 1) l)
                         \<and> CHR '' '' \<in> set (drop (j + length extension + 1) l))
              [0..<length l])"

definition create_pe_type_test :: "(string \<times> jv) list \<Rightarrow> string \<Rightarrow> error + bool" where
  "create_pe_type_test observable extension =
     sbind (case map_of observable ''name'' of
              None \<Rightarrow> Inr False
            | Some (JStr n) \<Rightarrow> Inr (endswith n (''.'' @ extension))
            | Some _ \<Rightarrow> Inl AttributeError)
       (\<lambda>by_name.
          sbind (case map_of observable ''mime_type'' of
                   None \<Rightarrow> Inr False
                 | Some (JStr m) \<Rightarrow> Inr (mime_matches extension (lower m))
                 | Some _ \<Rightarrow> Inl AttributeError)
            (\<lambda>by_mime. Inr (by_name \<or> by_mime)))"

definition get_pe_type_from_filename :: "(string \<times> jv) list \<Rightarrow> error + string" where
  "get_pe_type_from_filename observable =
     sbind (create_pe_type_test observable ''exe'')
       (\<lambda>exe. if exe then Inr ''exe''
               else sbind (create_pe_type_test observable ''dll'')
                      (\<lambda>dll. if dll then Inr ''dll'' else Inr ''sys''))"

fun fetch_file_observable :: "(string \<times> jv) list \<Rightarrow> error + string" where
  "fetch_file_observable [] = Inr ''0''"
| "fetch_file_observable ((key, observable) # rest) =
     (case observable of
        JDict d \<Rightarrow>
          (case map_of d ''type'' of
             None \<Rightarrow> Inl KeyError
           | Some t \<Rightarrow> if t = JStr ''file'' then Inr key else fetch_file_observable rest)
      | _ \<Rightarrow> Inl TypeError)"

section \<open>Composite object translator\<close>

text \<open>
  \<^verbatim>\<open>load_objects_mapping\<close>: for an object name, the names of its observable builder and of
  its pattern builder.
\<close>

definition objects_mapping :: "(string \<times> string option \<times> string option) list" where
  "objects_mapping =
     [(''asn'', Some ''resolve_asn_observable'', Some ''resolve_asn_pattern''),
      (''credential'', Some ''resolve_credential_observable'', Some ''resolve_credential_pattern''),
      (''domain-ip'', Some ''resolve_domain_ip_observable'', Some ''resolve_domain_ip_pattern''),
      (''email'', Some ''resolve_email_object_observable'', Some ''resolve_email_object_pattern''),
      (''file'', Some ''resolve_file_observable'', Some ''resolve_file_pattern''),
      (''ip-port'', Some ''resolve_ip_port_observable'', Some ''resolve_ip_port_pattern''),
      (''network-connection'', Some ''resolve_network_connection_observable'',
         Some ''resolve_network_connection_pattern''),
      (''network-socket'', Some ''resolve_network_socket_observable'',
         Some ''resolve_network_socket_pattern''),
      (''process'', Some ''resolve_process_observable'', Some ''resolve_process_pattern''),
      (''registry-key'', Some ''resolve_regkey_observable'', Some ''resolve_regkey_pattern''),
      (''stix2-pattern'', None, Some ''resolve_stix2_pattern''),
      (''url'', Some ''resolve_url_observable'', Some ''resolve_url_pattern''),
      (''user-account'', Some ''resolve_user_account_observable'',
         Some ''resolve_user_account_pattern''),
      (''x509'', Some ''resolve_x509_observable'', Some ''resolve_x509_pattern'')]"

fun resolve_stix2_pattern :: "attribute list \<Rightarrow> jv" where
  "resolve_stix2_pattern [] = JNone"
| "resolve_stix2_pattern (attribute # rest) =
     (if a_object_relation attribute = ''stix2-pattern'' then JStr (a_value attribute)
      else resolve_stix2_pattern rest)"

text \<open>A builder of one of the twelve other kinds, by the name of its method.\<close>

definition other_builder :: "env \<Rightarrow> string \<Rightarrow> attribute list \<Rightarrow> string \<Rightarrow> jv M" where
  "other_builder E method attributes object_id s =
     bind (for_each attributes
             (\<lambda>attribute.
                bind (if b_galaxies E method
                      then parse_galaxies E (a_Galaxy attribute) object_id else ret ())
                  (\<lambda>_ s1. (case b_step E method attribute (builder_state s1) of
                              (None, st) \<Rightarrow> (Inr (), s1\<lparr>builder_state := st\<rparr>)
                            | (Some e, st) \<Rightarrow> (Inl e, s1\<lparr>builder_state := st\<rparr>)))))
       (\<lambda>_ s1. (case b_finish E method (builder_state s1) of
                   (r, st) \<Rightarrow> (r, s1\<lparr>builder_state := st\<rparr>)))
       (s\<lparr>builder_state := b_start E method object_id (builder_state s)\<rparr>)"

text \<open>\<^verbatim>\<open>getattr(self, method)(attributes, object_id)\<close> for a builder's name.\<close>

definition call_builder :: "env \<Rightarrow> string \<Rightarrow> attribute list \<Rightarrow> string \<Rightarrow> jv M" where
  "call_builder E method attributes object_id =
     (if method = ''resolve_file_observable''
      then bind (resolve_file_observable E attributes object_id) (\<lambda>observable. ret (JDict observable))
      else if method = ''resolve_file_pattern''
      then bind (resolve_file_pattern E attributes object_id)
             (\<lambda>patterns. ret (JList (map JStr patterns)))
      else if method = ''resolve_stix2_pattern'' then ret (resolve_stix2_pattern attributes)
      else other_builder E method attributes object_id)"

text \<open>
  \<^verbatim>\<open>' AND '.join(x)\<close> for what a pattern builder returned: the items of a list, the
  characters of a string, the keys of a dictionary.
\<close>

fun str_items :: "jv list \<Rightarrow> error + string list" where
  "str_items [] = Inr []"
| "str_items (JStr s # rest) = sbind (str_items rest) (\<lambda>ss. Inr (s # ss))"
| "str_items (_ # rest) = Inl TypeError"

definition join_and :: "jv \<Rightarrow> error + string" where
  "join_and x =
     (case x of
        JList xs \<Rightarrow> sbind (str_items xs) (\<lambda>ss. Inr (join '' AND '' ss))
      | JStr s \<Rightarrow> Inr (join '' AND '' (map (\<lambda>c. [c]) s))
      | JDict d \<Rightarrow> Inr (join '' AND '' (map fst d))
      | _ \<Rightarrow> Inl TypeError)"

definition add_object_indicator :: "env \<Rightarrow> misp_object \<Rightarrow> string option \<Rightarrow> unit M" where
  "add_object_indicator E misp_object pattern_arg =
     (let indicator_id = ''indicator--'' @ o_uuid misp_object
      in bind (if pattern_arg \<noteq> None \<and> pattern_arg \<noteq> Some []
               then ret (''WindowsPEBinaryFile'', str_opt pattern_arg)
               else (case map_of objects_mapping (o_name misp_object) of
                       Some (_, Some method) \<Rightarrow>
                         bind (call_builder E method (o_Attribute misp_object) indicator_id)
                           (\<lambda>clauses. bind (lift (join_and clauses))
                              (\<lambda>body. ret (o_name misp_object, ''['' @ body @ '']'')))
                     | _ \<Rightarrow> raise KeyError))
           (\<lambda>(name, pattern) s.
              (let category = o_meta_category misp_object;
                   indicator_args =
                     update_time_fields (o_first_seen misp_object) (o_last_seen misp_object)
                       (o_timestamp misp_object) ''indicator''
                       [(''id'', JStr indicator_id), (''type'', JStr ''indicator''),
                        (''labels'', create_object_labels name category True),
                        (''pattern'', JStr pattern),
                        (''description'', JStr (o_description misp_object)),
                        (''allow_custom'', JBool True),
                        (''kill_chain_phases'', create_killchain category),
                        (''interoperability'', JBool True),
                        (''created_by_ref'', JStr (identity_id s))]
               in bind (new_object E ''Indicator'' indicator_id indicator_args)
                    (\<lambda>indicator. append_object indicator True) s)))"

text \<open>
  \<^verbatim>\<open>fix_enumeration_issues\<close> for a network socket: the first node of type
  \<^verbatim>\<open>network-traffic\<close>, and the repair of its socket extension.
\<close>

fun find_network_traffic :: "(string \<times> jv) list \<Rightarrow> error + string option" where
  "find_network_traffic [] = Inr None"
| "find_network_traffic ((index, observable_object) # rest) =
     (case observable_object of
        JDict d \<Rightarrow>
          (case map_of d ''type'' of
             None \<Rightarrow> Inl KeyError
           | Some t \<Rightarrow>
               if t = JStr ''network-traffic'' then Inr (Some index)
               else find_network_traffic rest)
      | _ \<Rightarrow> Inl TypeError)"

definition fix_socket_extension :: "env \<Rightarrow> (string \<times> jv) list \<Rightarrow> (string \<times> jv) list" where
  "fix_socket_extension E extension =
     (let extension1 =
            (case map_of extension ''address_family'' of
               None \<Rightarrow> AList.update ''address_family'' (JStr ''AF_UNSPEC'') extension
             | Some v \<Rightarrow>
                 if v \<notin> set (socket_allowed E ''address_family'')
                 then AList.update ''address_family'' (JStr ''AF_UNSPEC'')
                        (AList.update ''x_misp_text_address_family'' v extension)
                 else extension)
      in case map_of extension1 ''protocol_family'' of
           None \<Rightarrow> extension1
         | Some v \<Rightarrow>
             if v \<notin> set (socket_allowed E ''protocol_family'')
             then AList.update ''x_misp_text_domain_family'' v
                    (AList.delete ''protocol_family'' extension1)
             else extension1)"

definition fix_socket_args :: "env \<Rightarrow> (string \<times> jv) list \<Rightarrow> error + (string \<times> jv) list" where
  "fix_socket_args E args =
     (case map_of args ''objects'' of
        Some (JDict objects) \<Rightarrow>
          sbind (find_network_traffic objects)
            (\<lambda>found.
               case found of
                 None \<Rightarrow> Inr args
               | Some n \<Rightarrow>
                   (case map_of objects n of
                      Some (JDict node) \<Rightarrow>
                        (case map_of node ''extensions'' of
                           None \<Rightarrow> Inl KeyError
                         | Some (JDict extensions) \<Rightarrow>
                             (case map_of extensions ''socket-ext'' of
                                None \<Rightarrow> Inl KeyError
                              | Some (JDict extension) \<Rightarrow>
                                  Inr (AList.update ''objects''
                                         (JDict (AList.update n
                                            (JDict (AList.update ''extensions''
                                               (JDict (AList.update ''socket-ext''
                                                  (JDict (fix_socket_extension E extension))
                                                  extensions))
                                               node))
                                            objects))
                                         args)
                              | Some _ \<Rightarrow> Inl TypeError)
                         | Some _ \<Rightarrow> Inl TypeError)
                    | _ \<Rightarrow> Inl TypeError))
      | Some _ \<Rightarrow> Inl AttributeError
      | None \<Rightarrow> Inl KeyError)"

definition fix_enumeration_issues ::
  "env \<Rightarrow> string \<Rightarrow> string \<Rightarrow> (string \<times> jv) list \<Rightarrow> sdo M" where
  "fix_enumeration_issues E name oid args =
     (if name = ''network-socket''
      then bind (lift (fix_socket_args E args)) (new_object E ''ObservedData'' oid)
      else new_object E ''ObservedData'' oid args)"

definition add_object_observable ::
  "env \<Rightarrow> misp_object \<Rightarrow> (string \<times> jv) list option \<Rightarrow> unit M" where
  "add_object_observable E misp_object observable_arg =
     (let observed_data_id = ''observed-data--'' @ o_uuid misp_object
      in bind (case observable_arg of
                 Some (x # xs) \<Rightarrow> ret (''WindowsPEBinaryFile'', JDict (x # xs))
               | _ \<Rightarrow>
                   (case map_of objects_mapping (o_name misp_object) of
                      Some (Some method, _) \<Rightarrow>
                        bind (call_builder E method (o_Attribute misp_object) observed_data_id)
                          (\<lambda>observable_objects. ret (o_name misp_object, observable_objects))
                    | _ \<Rightarrow> raise KeyError))
           (\<lambda>(name, observable_objects) s.
              (let category = o_meta_category misp_object;
                   observed_data_args =
                     update_time_fields (o_first_seen misp_object) (o_last_seen misp_object)
                       (o_timestamp misp_object) ''observed-data''
                       [(''id'', JStr observed_data_id), (''type'', JStr ''observed-data''),
                        (''labels'', create_object_labels name category False),
                        (''number_observed'', JInt 1), (''objects'', observable_objects),
                        (''allow_custom'', JBool True),
                        (''created_by_ref'', JStr (identity_id s)),
                        (''interoperability'', JBool True)]
               in bind (try_except
                          (new_object E ''ObservedData'' observed_data_id observed_data_args)
                          (\<lambda>e. e = InvalidValueError)
                          (fix_enumeration_issues E name observed_data_id observed_data_args))
                    (\<lambda>observed_data. append_object observed_data True) s)))"

text \<open>
  \<^verbatim>\<open>fetch_custom_values\<close>: the galaxies of each attribute are registered; the values are
  grouped by type and relation, a lone value unwrapped.
\<close>

definition custom_values :: "attribute list \<Rightarrow> jv" where
  "custom_values attributes =
     JDict (map (\<lambda>(attribute_type, vs).
                   (attribute_type, (case vs of [v] \<Rightarrow> JStr v | _ \<Rightarrow> JList (map JStr vs))))
              (group_values (map (\<lambda>a. (a_type a @ ''_'' @ a_object_relation a, a_value a))
                               attributes)))"

definition fetch_custom_values :: "env \<Rightarrow> attribute list \<Rightarrow> string \<Rightarrow> jv M" where
  "fetch_custom_values E attributes object_id =
     bind (for_each attributes (\<lambda>attribute. parse_galaxies E (a_Galaxy attribute) object_id))
       (\<lambda>_. ret (custom_values attributes))"

text \<open>
  \<^verbatim>\<open>add_object_custom\<close>. Its test \<^verbatim>\<open>hasattr(misp_object, 'comment')\<close> is false for a
  dictionary, so no comment is passed on.
\<close>

definition add_object_custom :: "env \<Rightarrow> misp_object \<Rightarrow> bool \<Rightarrow> unit M" where
  "add_object_custom E misp_object to_ids =
     (let name = o_name misp_object;
          custom_object_id = ''x-misp-object-'' @ name @ ''--'' @ o_uuid misp_object;
          custom_object_type = ''x-misp-object-'' @ name;
          category = o_meta_category misp_object;
          labels = create_object_labels name category to_ids
      in bind (fetch_custom_values E (o_Attribute misp_object) custom_object_id)
           (\<lambda>vs s.
              bind (new_custom E custom_object_type (Custom_of_object custom_object_type labels)
                      custom_object_id
                      [(''id'', JStr custom_object_id), (''x_misp_values'', vs),
                       (''created'', JTime (o_timestamp misp_object)),
                       (''modified'', JTime (o_timestamp misp_object)), (''labels'', labels),
                       (''x_misp_category'', JStr category),
                       (''created_by_ref'', JStr (identity_id s))])
                (\<lambda>custom_object. append_object custom_object True) s))"

subsection \<open>Attack patterns, courses of action and vulnerabilities given as objects\<close>

definition parse_attack_pattern_reference :: "env \<Rightarrow> attribute \<Rightarrow> error + jv" where
  "parse_attack_pattern_reference E attribute =
     (case attack_pattern_reference_mapping E (a_object_relation attribute) of
        None \<Rightarrow> Inl KeyError
      | Some (source_name, key) \<Rightarrow>
          Inr (JDict (AList.update key
                        (JStr (if a_object_relation attribute = ''id''
                                  \<and> \<not> contains (a_value attribute) ''CAPEC''
                               then ''CAPEC-'' @ a_value attribute else a_value attribute))
                        [(''source_name'', JStr source_name)])))"

text \<open>
  The loop of \<^verbatim>\<open>parse_attack_pattern_fields\<close> on its variables \<open>attack_pattern\<close>,
  \<open>weaknesses\<close> and \<open>references\<close>.
\<close>

fun attack_pattern_loop ::
  "env \<Rightarrow> attribute list \<Rightarrow> (string \<times> jv) list \<times> string list \<times> jv list
     \<Rightarrow> error + (string \<times> jv) list \<times> string list \<times> jv list" where
  "attack_pattern_loop E [] vars = Inr vars"
| "attack_pattern_loop E (attribute # rest) (attack_pattern, weaknesses, references) =
     (let relation = a_object_relation attribute
      in case attackPatternObjectMapping E relation of
           Some k \<Rightarrow>
             attack_pattern_loop E rest
               (AList.update k (JStr (a_value attribute)) attack_pattern, weaknesses, references)
         | None \<Rightarrow>
             if relation = ''id'' \<or> relation = ''references''
             then sbind (parse_attack_pattern_reference E attribute)
                    (\<lambda>r. attack_pattern_loop E rest
                           (attack_pattern, weaknesses, references @ [r]))
             else if relation = ''related-weakness''
             then attack_pattern_loop E rest
                    (attack_pattern, weaknesses @ [a_value attribute], references)
             else attack_pattern_loop E rest
                    (AList.update ''allow_custom'' (JBool True)
                       (AList.update (custom_key attribute) (JStr (a_value attribute))
                          attack_pattern),
                     weaknesses, references))"

definition parse_attack_pattern_fields :: "env \<Rightarrow> attribute list \<Rightarrow> error + (string \<times> jv) list" where
  "parse_attack_pattern_fields E attributes =
     sbind (attack_pattern_loop E attributes ([], [], []))
       (\<lambda>(attack_pattern, weaknesses, references).
          (let attack_pattern1 =
                 (if references \<noteq> []
                  then AList.update ''external_references'' (JList references) attack_pattern
                  else attack_pattern)
           in Inr (case weaknesses of
                     [] \<Rightarrow> attack_pattern1
                   | [w] \<Rightarrow> AList.update ''x_misp_weakness_related_weakness'' (JStr w)
                              attack_pattern1
                   | _ \<Rightarrow> AList.update ''x_misp_weakness_related_weakness''
                            (JList (map JStr weaknesses)) attack_pattern1)))"

text \<open>\<^verbatim>\<open>args.update(fields)\<close>.\<close>

definition dict_update :: "(string \<times> jv) list \<Rightarrow> (string \<times> jv) list \<Rightarrow> (string \<times> jv) list" where
  "dict_update args kvs = foldl (\<lambda>d (k, v). AList.update k v d) args kvs"

definition add_attack_pattern_object :: "env \<Rightarrow> misp_object \<Rightarrow> bool \<Rightarrow> unit M" where
  "add_attack_pattern_object E misp_object to_ids s =
     (let attack_pattern_id = ''attack-pattern--'' @ o_uuid misp_object
      in bind (lift (parse_attack_pattern_fields E (o_Attribute misp_object)))
           (\<lambda>attack_pattern_fields.
              bind (new_object E ''AttackPattern'' attack_pattern_id
                      (AList.update ''labels''
                         (create_object_labels (o_name misp_object) (o_meta_category misp_object)
                            to_ids)
                         (dict_update
                            [(''id'', JStr attack_pattern_id), (''type'', JStr ''attack-pattern''),
                             (''created_by_ref'', JStr (identity_id s)),
                             (''interoperability'', JBool True)]
                            attack_pattern_fields)))
                (\<lambda>attack_pattern. append_object attack_pattern True)) s)"

definition coa_fields :: "attribute list \<Rightarrow> (string \<times> jv) list \<Rightarrow> (string \<times> jv) list" where
  "coa_fields attributes coa_args =
     foldl (\<lambda>args attribute.
              (let relation = a_object_relation attribute
               in if relation = ''name'' \<or> relation = ''description''
                  then AList.update relation (JStr (a_value attribute)) args
                  else AList.update (''x_misp_'' @ a_type attribute @ ''_'' @ relation)
                         (JStr (a_value attribute)) args))
       coa_args attributes"

definition add_course_of_action_from_object :: "env \<Rightarrow> misp_object \<Rightarrow> bool \<Rightarrow> unit M" where
  "add_course_of_action_from_object E misp_object to_ids s =
     (let coa_id = ''course-of-action--'' @ o_uuid misp_object;
          coa_args =
            coa_fields (o_Attribute misp_object)
              [(''id'', JStr coa_id), (''type'', JStr ''course-of-action''),
               (''created_by_ref'', JStr (identity_id s)),
               (''labels'', create_object_labels (o_name misp_object)
                              (o_meta_category misp_object) to_ids)]
      in bind (for_each (o_Attribute misp_object)
                 (\<lambda>attribute. parse_galaxies E (a_Galaxy attribute) coa_id))
           (\<lambda>_. if map_of coa_args ''name'' = None then ret ()
                 else add_coa_stix_object E coa_args) s)"

text \<open>
  The loop of \<^verbatim>\<open>parse_vulnerability_fields\<close> on its variables \<open>vulnerability\<close>,
  \<open>references\<close> and \<open>custom_args\<close>.
\<close>

fun vulnerability_loop ::
  "env \<Rightarrow> attribute list \<Rightarrow> (string \<times> jv) list \<times> jv list \<times> (string \<times> string list) list
     \<Rightarrow> (string \<times> jv) list \<times> jv list \<times> (string \<times> string list) list" where
  "vulnerability_loop E [] vars = vars"
| "vulnerability_loop E (attribute # rest) (vulnerability, references, custom_args) =
     (let relation = a_object_relation attribute
      in case vulnerabilityMapping E relation of
           Some k \<Rightarrow>
             vulnerability_loop E rest
               (AList.update k (JStr (a_value attribute)) vulnerability, references, custom_args)
         | None \<Rightarrow>
             if relation = ''references''
             then vulnerability_loop E rest
                    (vulnerability,
                     references @ [JDict [(''source_name'', JStr ''url''),
                                          (''url'', JStr (a_value attribute))]],
                     custom_args)
             else vulnerability_loop E rest
                    (AList.update ''allow_custom'' (JBool True) vulnerability, references,
                     AList.update (custom_key attribute)
                       ((case map_of custom_args (custom_key attribute) of
                           None \<Rightarrow> [] | Some vs \<Rightarrow> vs) @ [a_value attribute])
                       custom_args))"

definition parse_vulnerability_fields :: "env \<Rightarrow> attribute list \<Rightarrow> (string \<times> jv) list" where
  "parse_vulnerability_fields E attributes =
     (case vulnerability_loop E attributes ([], [], []) of
        (vulnerability, references, custom_args) \<Rightarrow>
          (let references1 =
                 (case map_of vulnerability ''name'' of
                    Some name \<Rightarrow>
                      references @ [JDict [(''source_name'', JStr ''cve''), (''external_id'', name)]]
                  | None \<Rightarrow> references);
               vulnerability1 =
                 (if references1 \<noteq> []
                  then AList.update ''external_references'' (JList references1) vulnerability
                  else vulnerability)
           in dict_update vulnerability1
                (map (\<lambda>(key, vs). (key, (case vs of [v] \<Rightarrow> JStr v | _ \<Rightarrow> JList (map JStr vs))))
                   custom_args)))"

definition add_object_vulnerability :: "env \<Rightarrow> misp_object \<Rightarrow> bool \<Rightarrow> unit M" where
  "add_object_vulnerability E misp_object to_ids s =
     (let vulnerability_id = ''vulnerability--'' @ o_uuid misp_object
      in bind (new_object E ''Vulnerability'' vulnerability_id
                 (AList.update ''labels''
                    (create_object_labels (o_name misp_object) (o_meta_category misp_object) to_ids)
                    (dict_update
                       [(''id'', JStr vulnerability_id), (''type'', JStr ''vulnerability''),
                        (''created_by_ref'', JStr (identity_id s)),
                        (''interoperability'', JBool True)]
                       (parse_vulnerability_fields E (o_Attribute misp_object)))))
           (\<lambda>vulnerability. append_object vulnerability True) s)"

subsection \<open>Deferred objects and the join of the file family\<close>

text \<open>\<^verbatim>\<open>self.objects_to_parse[name][uuid] = to_ids, misp_object\<close>.\<close>

definition populate_objects_to_parse :: "misp_object \<Rightarrow> bool \<Rightarrow> unit M" where
  "populate_objects_to_parse misp_object to_ids s =
     (Inr (),
      s\<lparr>objects_to_parse :=
          AList.update (o_name misp_object)
            (AList.update (o_uuid misp_object) (to_ids, misp_object)
               (case map_of (objects_to_parse s) (o_name misp_object) of
                  None \<Rightarrow> [] | Some d \<Rightarrow> d))
            (objects_to_parse s)\<rparr>)"

definition includes_pe :: "object_reference \<Rightarrow> bool" where
  "includes_pe reference =
     ((r_relationship_type reference = ''includes''
         \<or> r_relationship_type reference = ''included-in'')
      \<and> r_Object_name reference = ''pe'')"

definition handle_usual_object_name :: "env \<Rightarrow> misp_object \<Rightarrow> bool \<Rightarrow> unit M" where
  "handle_usual_object_name E misp_object to_ids =
     (let name = o_name misp_object
      in if name = ''file'' \<and> list_ex includes_pe (o_ObjectReference misp_object)
         then populate_objects_to_parse misp_object to_ids
         else try_except
                (if to_ids \<or> name = ''stix2-pattern''
                 then add_object_indicator E misp_object None
                 else add_object_observable E misp_object None)
                (\<lambda>e. True)
                (add_object_custom E misp_object to_ids))"

definition fetch_ids_flag :: "attribute list \<Rightarrow> bool" where
  "fetch_ids_flag attributes = list_ex a_to_ids attributes"

text \<open>
  \<^verbatim>\<open>self.objects_to_parse[name]\<close> as \<^verbatim>\<open>resolve_objects2parse\<close> reads it: the objects held
  under a name, none when nothing is held under it. (On the \<^verbatim>\<open>defaultdict\<close> the read of
  a missing name also leaves an empty entry under it; nothing reads that entry, since the
  loop reads by name only and \<^verbatim>\<open>handler\<close> makes a new dictionary before the next
  objects, so the state here goes without it.)
\<close>

definition parsed :: "builder \<Rightarrow> string \<Rightarrow> (string \<times> bool \<times> misp_object) list" where
  "parsed s name = (case map_of (objects_to_parse s) name of None \<Rightarrow> [] | Some d \<Rightarrow> d)"

text \<open>
  The sections an embedded executable refers to, with their flags, in the order of its
  references.
\<close>

definition resolved_sections :: "builder \<Rightarrow> misp_object \<Rightarrow> (bool \<times> misp_object) list" where
  "resolved_sections s pe_object =
     concat (map (\<lambda>reference.
                    if r_Object_name reference = ''pe-section''
                    then (case map_of (parsed s ''pe-section'') (r_referenced_uuid reference) of
                            Some x \<Rightarrow> [x] | None \<Rightarrow> [])
                    else [])
               (o_ObjectReference pe_object))"

text \<open>
  The body of the loop of \<^verbatim>\<open>resolve_objects2parse\<close> for one held file object. The
  variable \<open>pe_uuid\<close> keeps its value from one file to the next; the result is its new
  value.
\<close>

definition resolve_file_object ::
  "env \<Rightarrow> string option \<Rightarrow> bool \<times> misp_object \<Rightarrow> string option M" where
  "resolve_file_object E pe_uuid held s =
     (case held of
        (to_ids_file, file_object) \<Rightarrow>
          (let file_id = ''file--'' @ o_uuid file_object;
               pe_uuid1 = (case find includes_pe (o_ObjectReference file_object) of
                             Some reference \<Rightarrow> Some (r_referenced_uuid reference)
                           | None \<Rightarrow> pe_uuid)
           in case pe_uuid1 of
                None \<Rightarrow> (Inl UnboundLocalError, s)
              | Some u \<Rightarrow>
                  (case map_of (parsed s ''pe'') u of
                     None \<Rightarrow> (Inl KeyError, s)
                   | Some (to_ids_pe, pe_object) \<Rightarrow>
                       (let found = resolved_sections s pe_object;
                            sections = map snd found;
                            to_ids_list = [to_ids_file, to_ids_pe] @ map fst found
                        in bind
                             (if True \<in> set to_ids_list
                              then bind (resolve_file_pattern E (o_Attribute file_object) file_id)
                                     (\<lambda>patterns.
                                        add_object_indicator E file_object
                                          (Some (''['' @ join '' AND ''
                                                   (patterns @ parse_pe_extensions_pattern E
                                                                 pe_object sections) @ '']'')))
                              else bind (resolve_file_observable E (o_Attribute file_object)
                                           file_id)
                                     (\<lambda>observable.
                                        bind (lift
                                          (sbind (if length observable = 1 then Inr ''0''
                                                  else fetch_file_observable observable)
                                             (\<lambda>key.
                                                case map_of observable key of
                                                  Some (JDict node) \<Rightarrow>
                                                    sbind (get_pe_type_from_filename node)
                                                      (\<lambda>pe_type.
                                                         sbind (parse_pe_extensions_observable E
                                                                  pe_object sections pe_type)
                                                           (\<lambda>extensions.
                                                              Inr (AList.update key
                                                                     (JDict (AList.update
                                                                        ''extensions'' extensions
                                                                        node))
                                                                     observable)))
                                                | Some _ \<Rightarrow> Inl TypeError
                                                | None \<Rightarrow> Inl KeyError)))
                                          (\<lambda>observable1.
                                             add_object_observable E file_object
                                               (Some observable1))))
                             (\<lambda>_. ret pe_uuid1) s))))"

fun resolve_file_objects ::
  "env \<Rightarrow> string option \<Rightarrow> (bool \<times> misp_object) list \<Rightarrow> unit M" where
  "resolve_file_objects E pe_uuid [] s = (Inr (), s)"
| "resolve_file_objects E pe_uuid (held # rest) s =
     (case resolve_file_object E pe_uuid held s of
        (Inl e, s1) \<Rightarrow> (Inl e, s1)
      | (Inr pe_uuid1, s1) \<Rightarrow> resolve_file_objects E pe_uuid1 rest s1)"

definition resolve_objects2parse :: "env \<Rightarrow> unit M" where
  "resolve_objects2parse E s = resolve_file_objects E None (map snd (parsed s ''file'')) s"

section \<open>Event assembler and report builder\<close>

text \<open>\<^verbatim>\<open>getattr(self, to_call)(attribute)\<close> and \<^verbatim>\<open>getattr(self, to_call)(misp_object, to_ids)\<close>.\<close>

fun call_attribute :: "env \<Rightarrow> attr_call \<Rightarrow> attribute \<Rightarrow> unit M" where
  "call_attribute E Handle_person = handle_person E"
| "call_attribute E Handle_usual_type = handle_usual_type E"
| "call_attribute E Handle_link = handle_link"
| "call_attribute E Add_custom = add_custom E"
| "call_attribute E Add_identity = add_identity E"
| "call_attribute E Add_indicator = add_indicator E"
| "call_attribute E Add_observed_data = add_observed_data E"
| "call_attribute E Add_vulnerability = add_vulnerability E"

fun call_object :: "env \<Rightarrow> obj_call \<Rightarrow> misp_object \<Rightarrow> bool \<Rightarrow> unit M" where
  "call_object E Handle_usual_object_name = handle_usual_object_name E"
| "call_object E Populate_objects_to_parse = populate_objects_to_parse"
| "call_object E Add_attack_pattern_object = add_attack_pattern_object E"
| "call_object E Add_course_of_action_from_object = add_course_of_action_from_object E"
| "call_object E Add_object_vulnerability = add_object_vulnerability E"
| "call_object E Add_object_custom = add_object_custom E"

definition set_identity :: "env \<Rightarrow> nat M" where
  "set_identity E s =
     (case misp_event s of
        None \<Rightarrow> (Inl AttributeError, s)
      | Some ev \<Rightarrow>
          (let org_uuid = e_Orgc_uuid ev;
               new_id = ''identity--'' @ org_uuid;
               s1 = s\<lparr>identity_id := new_id\<rparr>
           in if org_uuid \<notin> set (orgs s1)
              then bind (new_object E ''Identity'' new_id
                           [(''type'', JStr ''identity''), (''id'', JStr new_id),
                            (''name'', JStr (e_Orgc_name ev)),
                            (''identity_class'', JStr ''organization''),
                            (''interoperability'', JBool True)])
                     (\<lambda>identity s2.
                        (Inr 1, s2\<lparr>SDOs := SDOs s2 @ [identity], orgs := orgs s2 @ [org_uuid]\<rparr>))
                     s1
              else (Inr 0, s1)))"

text \<open>One turn of the loop of \<^verbatim>\<open>handler\<close> over the event's attributes.\<close>

definition handle_attribute :: "env \<Rightarrow> attribute \<Rightarrow> unit M" where
  "handle_attribute E attribute =
     try_except
       (case map_of (mispTypesMapping E) (a_type attribute) of
          None \<Rightarrow> raise KeyError
        | Some entry \<Rightarrow> call_attribute E (to_call entry) attribute)
       (\<lambda>e. e = KeyError)
       (add_custom E attribute)"

text \<open>One turn of the loop of \<^verbatim>\<open>handler\<close> over the event's objects.\<close>

definition handle_object :: "env \<Rightarrow> misp_object \<Rightarrow> unit M" where
  "handle_object E misp_object =
     (let name = o_name misp_object
      in if name = ''original-imported-file'' then ret ()
         else
           (let to_ids = fetch_ids_flag (o_Attribute misp_object)
            in bind (try_except
                       (case objectsMapping_to_call E name of
                          None \<Rightarrow> raise KeyError
                        | Some method \<Rightarrow> call_object E method misp_object to_ids)
                       (\<lambda>e. e = KeyError)
                       (add_object_custom E misp_object to_ids))
                 (\<lambda>_ s.
                    if o_ObjectReference misp_object \<noteq> []
                    then (Inr (),
                          s\<lparr>relationships_to_define :=
                              AList.update (o_uuid misp_object)
                                (map (\<lambda>r. (r_referenced_uuid r, r_relationship_type r))
                                   (o_ObjectReference misp_object))
                                (relationships_to_define s)\<rparr>)
                    else (Inr (), s))))"

definition handle_objects :: "env \<Rightarrow> misp_object list \<Rightarrow> unit M" where
  "handle_objects E objs =
     (if objs \<noteq> []
      then bind (\<lambda>s. (Inr (), s\<lparr>objects_to_parse := []\<rparr>))
             (\<lambda>_. bind (for_each objs (handle_object E))
                (\<lambda>_ s. if objects_to_parse s \<noteq> [] then resolve_objects2parse E s
                        else (Inr (), s)))
      else ret ())"

definition parse_link :: "attribute \<Rightarrow> jv" where
  "parse_link link =
     JDict [(''source_name'',
             JStr (if a_comment link \<noteq> [] then ''url - '' @ a_comment link else ''url'')),
            (''url'', JStr (a_value link))]"

definition MISP_event_tags :: "string list" where
  "MISP_event_tags = [''Threat-Report'', ''misp:tool=\"misp2stix2\"'']"

definition eventReport :: "env \<Rightarrow> sdo M" where
  "eventReport E =
     bind (\<lambda>s. case links s of
                 link # rest \<Rightarrow>
                   if object_refs s = [] then add_custom E link (s\<lparr>links := rest\<rparr>)
                   else (Inr (), s)
               | [] \<Rightarrow> (Inr (), s))
       (\<lambda>_ s.
          (case misp_event s of
             None \<Rightarrow> (Inl AttributeError, s)
           | Some ev \<Rightarrow>
               (let external_refs = map parse_link (links s);
                    report_args =
                      [(''type'', JStr ''report''), (''id'', JStr (report_id s)),
                       (''name'', JStr (e_info ev)),
                       (''created_by_ref'', JStr (identity_id s)),
                       (''created'', JStr (e_date ev)),
                       (''published'', JTime (e_publish_timestamp ev)),
                       (''modified'', JTime (e_timestamp ev)),
                       (''interoperability'', JBool True)];
                    labels = MISP_event_tags
                             @ filter (\<lambda>name. \<not> startswith name ''tlp:'') (e_Tag ev);
                    tags = filter (\<lambda>name. startswith name ''tlp:'') (e_Tag ev)
                in bind (with_marking_refs E tags report_args)
                     (\<lambda>args.
                        (let args1 = AList.update ''labels'' (JList (map JStr labels)) args;
                             args2 = (if external_refs \<noteq> []
                                      then AList.update ''external_references''
                                             (JList external_refs) args1
                                      else args1)
                         in bind add_all_markings
                              (\<lambda>_. bind (add_all_relationships E)
                                 (\<lambda>_ s1. new_object E ''Report'' (report_id s1)
                                            (AList.update ''object_refs''
                                               (JList (map JStr (object_refs s1))) args2)
                                            s1)))) s)))"

text \<open>\<^verbatim>\<open>xs.insert(i, x)\<close> for \<open>i\<close> not negative.\<close>

definition list_insert :: "nat \<Rightarrow> 'a \<Rightarrow> 'a list \<Rightarrow> 'a list" where
  "list_insert i x xs = take i xs @ [x] @ drop i xs"

text \<open>
  The first statements of \<^verbatim>\<open>handler\<close>, up to the call of \<^verbatim>\<open>__set_identity\<close>: what the
  translation of an event starts from.
\<close>

definition begin_event :: "event \<Rightarrow> builder \<Rightarrow> builder" where
  "begin_event ev s =
     s\<lparr>misp_event := Some ev, report_id := ''report--'' @ e_uuid ev, SDOs := [],
       object_refs := [], links := [], markings := [], relationships_defined := [],
       relationships_to_define := []\<rparr>"

definition handler :: "env \<Rightarrow> event \<Rightarrow> sdo list M" where
  "handler E ev s =
     bind (set_identity E)
       (\<lambda>i. bind (for_each (e_Attribute ev) (handle_attribute E))
          (\<lambda>_. bind (handle_objects E (e_Object ev))
             (\<lambda>_. bind (for_each (e_Galaxy ev) (\<lambda>galaxy s1. parse_galaxy E galaxy (report_id s1) s1))
                (\<lambda>_. bind (eventReport E)
                   (\<lambda>report s1.
                      (Inr (list_insert i report (SDOs s1)),
                       s1\<lparr>SDOs := list_insert i report (SDOs s1)\<rparr>))))))
       (begin_event ev s)"

text \<open>
  \<^verbatim>\<open>initialize_misp_types\<close> gives every category name of \<^verbatim>\<open>describeTypes.json\<close> an entry
  of the table that calls \<^verbatim>\<open>handle_person\<close>.
\<close>

definition initialize_misp_types :: "env \<Rightarrow> env" where
  "initialize_misp_types E =
     E\<lparr>mispTypesMapping :=
         foldl (\<lambda>table category.
                  AList.update category
                    \<lparr>to_call = Handle_person, t_observable = None, t_clauses = None,
                     t_vulnerability_args = None\<rparr> table)
           (mispTypesMapping E) (category_type_mappings E)\<rparr>"

text \<open>
  The events of an input are translated one after the other by the one builder, and
  their outputs concatenated.
\<close>

fun handle_events :: "env \<Rightarrow> event list \<Rightarrow> sdo list M" where
  "handle_events E [] s = (Inr [], s)"
| "handle_events E (ev # evs) s =
     (case handler E ev s of
        (Inl e, s1) \<Rightarrow> (Inl e, s1)
      | (Inr sdos, s1) \<Rightarrow>
          (case handle_events E evs s1 of
             (Inl e, s2) \<Rightarrow> (Inl e, s2)
           | (Inr more_sdos, s2) \<Rightarrow> (Inr (sdos @ more_sdos), s2)))"

text \<open>
  \<^verbatim>\<open>buildEvent\<close> on the loaded JSON, the events under \<^verbatim>\<open>response\<close> or else the one under
  \<^verbatim>\<open>Event\<close>: the packages it writes out, or the error it reports.
\<close>

record json_event =
  response :: "event list"
  Event :: "event option"

definition buildEvent :: "env \<Rightarrow> json_event \<Rightarrow> error + sdo list" where
  "buildEvent E input =
     (if response input \<noteq> []
      then fst (handle_events (initialize_misp_types E) (response input) init)
      else (case Event input of
              None \<Rightarrow> Inl KeyError
            | Some ev \<Rightarrow> fst (handler (initialize_misp_types E) ev init)))"

section \<open>A concrete environment and concrete inputs\<close>

text \<open>
  An instance of what the translator is given, small enough to run the definitions on:
  a few entries of each table in the shape the code expects, four predefined markings under
  the four traffic-light tags, an object model that accepts every object but a marking of
  definition type \<^verbatim>\<open>tlp\<close> (which it refuses with \<^verbatim>\<open>TLPMarkingDefinitionError\<close>), and
  \<^verbatim>\<open>uuid4\<close> results numbered from 0.
\<close>

definition example_types :: "(string \<times> type_entry) list" where
  "example_types =
     [(''domain'',
       \<lparr>to_call = Handle_usual_type,
        t_observable =
          Some (\<lambda>t v d. Inr (JDict [(''0'', JDict [(''type'', JStr ''domain-name''), (''value'', v)])])),
        t_clauses =
          Some (\<lambda>t v d. Inr [''domain-name:value = '' @ quoted (case v of JStr s \<Rightarrow> s | _ \<Rightarrow> [])]),
        t_vulnerability_args = None\<rparr>),
      (''vulnerability'',
       \<lparr>to_call = Add_vulnerability, t_observable = None, t_clauses = None,
        t_vulnerability_args =
          Some (\<lambda>n. JDict [(''source_name'', JStr ''cve''), (''external_id'', JStr n)])\<rparr>),
      (''link'',
       \<lparr>to_call = Handle_link, t_observable = None, t_clauses = None,
        t_vulnerability_args = None\<rparr>)]"

definition example_tlp :: "string \<Rightarrow> sdo" where
  "example_tlp level =
     SDO ''MarkingDefinition'' (''marking-definition--'' @ level)
       [(''type'', JStr ''marking-definition''), (''id'', JStr (''marking-definition--'' @ level)),
        (''definition_type'', JStr ''tlp''), (''definition'', JDict [(''tlp'', JStr level)])]"

definition example_construct :: "string \<Rightarrow> (string \<times> jv) list \<Rightarrow> error option" where
  "example_construct cls args =
     (if cls = ''MarkingDefinition'' \<and> map_of args ''definition_type'' = Some (JStr ''tlp'')
      then Some TLPMarkingDefinitionError else None)"

definition example_env :: env where
  "example_env =
     \<lparr>mispTypesMapping = example_types,
      category_type_mappings = [''Person''],
      objectsMapping_to_call =
        map_of [(''file'', Handle_usual_object_name), (''pe'', Populate_objects_to_parse),
                (''pe-section'', Populate_objects_to_parse),
                (''stix2-pattern'', Handle_usual_object_name),
                (''domain-ip'', Handle_usual_object_name)],
      file_pattern = (\<lambda>a b. ''file:'' @ a @ '' = '' @ quoted (case b of JStr s \<Rightarrow> s | _ \<Rightarrow> [])),
      fileMapping = [(''md5'', ''MD5''), (''size-in-bytes'', ''size''), (''mime-type'', ''mime_type'')],
      hash_types = [''md5'', ''sha1'', ''sha256''],
      peMapping = map_of [(''number-sections'', ''number_of_sections''), (''type'', ''pe_type'')],
      peSectionMapping = map_of [(''name'', ''name''), (''size-in-bytes'', ''size'')],
      relationshipsSpecifications = (\<lambda>source_type. None),
      defineProtocols = map_of [(''80'', ''http''), (''443'', ''https'')],
      attackPatternObjectMapping = (\<lambda>relation. None),
      attack_pattern_reference_mapping = (\<lambda>relation. None),
      vulnerabilityMapping = (\<lambda>relation. None),
      socket_allowed = (\<lambda>feature. []),
      py_str = (\<lambda>v. []),
      tlp_markings =
        map_of [(''tlp:white'', ''TLP_WHITE''), (''tlp:green'', ''TLP_GREEN''),
                (''tlp:amber'', ''TLP_AMBER''), (''tlp:red'', ''TLP_RED'')],
      module_globals =
        map_of [(''TLP_WHITE'', example_tlp ''white''), (''TLP_GREEN'', example_tlp ''green''),
                (''TLP_AMBER'', example_tlp ''amber''), (''TLP_RED'', example_tlp ''red'')],
      construct = example_construct,
      define_custom = (\<lambda>cls. None),
      construct_custom = (\<lambda>cls args. None),
      uuid4 = str_nat,
      b_galaxies = (\<lambda>method. True),
      b_start = (\<lambda>method object_id st. JList []),
      b_step = (\<lambda>method attribute st. (None, st)),
      b_finish = (\<lambda>method st. (Inr st, st))\<rparr>"

definition example_attribute :: "string \<Rightarrow> string \<Rightarrow> string \<Rightarrow> string \<Rightarrow> bool \<Rightarrow> attribute" where
  "example_attribute uuid t relation v flag =
     \<lparr>a_uuid = uuid, a_type = t, a_category = ''Network activity'', a_value = v,
      a_to_ids = flag, a_comment = [], a_data = None, a_timestamp = 1500000000,
      a_object_relation = relation, a_first_seen = [], a_last_seen = [], a_Tag = [],
      a_Galaxy = []\<rparr>"

definition example_object ::
  "string \<Rightarrow> string \<Rightarrow> attribute list \<Rightarrow> object_reference list \<Rightarrow> misp_object" where
  "example_object uuid name attributes references =
     \<lparr>o_uuid = uuid, o_name = name, o_meta_category = ''file'', o_description = [],
      o_timestamp = 1500000000, o_first_seen = [], o_last_seen = [],
      o_Attribute = attributes, o_ObjectReference = references\<rparr>"

definition example_galaxy :: "string \<Rightarrow> string \<Rightarrow> galaxy" where
  "example_galaxy t cluster_id =
     \<lparr>g_type = Some t, g_uuid = ''g1'', g_name = ''Tool'', g_description = ''Tools'',
      g_GalaxyCluster =
        [\<lparr>c_collection_uuid = Some cluster_id, c_uuid = ''k1'', c_description = ''a tool'',
          c_value = ''mimikatz'', c_tag_name = ''misp-galaxy:tool=\"mimikatz\"'',
          c_meta = Some []\<rparr>]\<rparr>"

definition example_event ::
  "string \<Rightarrow> string \<Rightarrow> attribute list \<Rightarrow> misp_object list \<Rightarrow> galaxy list \<Rightarrow> event" where
  "example_event uuid org attributes objs gs =
     \<lparr>e_uuid = uuid, e_info = ''an event'', e_date = ''2019-01-01'', e_timestamp = 1500000000,
      e_publish_timestamp = 1500000000, e_Orgc_uuid = org, e_Orgc_name = ''ORG'',
      e_Attribute = attributes, e_Object = objs, e_Galaxy = gs, e_Tag = []\<rparr>"

definition example_pe :: misp_object where
  "example_pe =
     example_object ''p1'' ''pe''
       [example_attribute ''pa'' ''counter'' ''number-sections'' ''5'' False] []"

definition example_sections :: "misp_object list" where
  "example_sections =
     [example_object ''s1'' ''pe-section''
        [example_attribute ''sa'' ''text'' ''name'' ''.text'' False] [],
      example_object ''s2'' ''pe-section''
        [example_attribute ''sb'' ''text'' ''name'' ''.data'' False] []]"

definition example_imported_file :: misp_object where
  "example_imported_file =
     example_object ''o1'' ''original-imported-file''
       [example_attribute ''oa'' ''attachment'' ''imported-sample'' ''sample.json'' True]
       [\<lparr>r_referenced_uuid = ''o2'', r_relationship_type = ''related-to'',
         r_Object_name = ''file''\<rparr>]"

section \<open>What the claims speak of\<close>

text \<open>
  The edges the spec asks of the references to define: for each reference record, in the
  order of the table, one relationship when both the source and the target identifier are
  in the registry, labelled with the trimmed relationship type, and none otherwise. The
  value is the keyword arguments of each relationship.
\<close>

definition resolved_edges ::
  "(string \<times> string) list \<Rightarrow> (string \<times> (string \<times> string) list) list \<Rightarrow> (string \<times> jv) list list" where
  "resolved_edges registry to_define =
     concat (map (\<lambda>(source_uuid, references).
                    concat (map (\<lambda>(target_uuid, relationship_type).
                                   (case (map_of registry source_uuid, map_of registry target_uuid) of
                                      (Some source_type, Some target_type) \<Rightarrow>
                                        [[(''source_ref'', JStr (source_type @ ''--'' @ source_uuid)),
                                          (''target_ref'', JStr (target_type @ ''--'' @ target_uuid)),
                                          (''interoperability'', JBool True),
                                          (''relationship_type'', JStr (strip relationship_type))]]
                                    | _ \<Rightarrow> []))
                              references))
               to_define)"

text \<open>The state after the objects \<open>rels\<close>, each given a fresh identifier, were collected.\<close>

definition emitted :: "builder \<Rightarrow> sdo list \<Rightarrow> builder" where
  "emitted s rels =
     s\<lparr>SDOs := SDOs s @ rels, object_refs := object_refs s @ map sdo_id rels,
       uuid_calls := uuid_calls s + length rels\<rparr>"

text \<open>The edges recorded in \<^verbatim>\<open>self.relationships['defined']\<close>, as pairs of source and target.\<close>

definition defined_edges :: "builder \<Rightarrow> (string \<times> string) list" where
  "defined_edges s =
     concat (map (\<lambda>(source_id, targets). map (Pair source_id) targets) (relationships_defined s))"

definition example_registry_state :: builder where
  "example_registry_state =
     init\<lparr>ids := [(''o1'', ''indicator''), (''o2'', ''observed-data'')],
          relationships_to_define :=
            [(''o1'', [(''o2'', '' drops ''), (''o9'', ''uses'')]), (''o7'', [(''o1'', ''uses'')])]\<rparr>"

definition example_started :: builder where
  "example_started = begin_event (example_event ''e1'' ''org1'' [] [] []) init"

definition example_file :: misp_object where
  "example_file =
     example_object ''f1'' ''file''
       [example_attribute ''fa'' ''filename'' ''filename'' ''a.exe'' False,
        example_attribute ''fb'' ''text'' ''path'' ''/tmp/dropped'' False]
       [\<lparr>r_referenced_uuid = ''p1'', r_relationship_type = ''included-in'',
         r_Object_name = ''pe''\<rparr>]"

definition example_plain_file :: misp_object where
  "example_plain_file =
     example_object ''f2'' ''file''
       [example_attribute ''fc'' ''filename'' ''filename'' ''b.txt'' False] []"

definition example_pe_with_sections :: misp_object where
  "example_pe_with_sections =
     example_object ''p1'' ''pe''
       [example_attribute ''pa'' ''counter'' ''number-sections'' ''5'' False]
       [\<lparr>r_referenced_uuid = ''s1'', r_relationship_type = ''included-in'',
         r_Object_name = ''pe-section''\<rparr>,
        \<lparr>r_referenced_uuid = ''s2'', r_relationship_type = ''included-in'',
         r_Object_name = ''pe-section''\<rparr>]"

definition example_flagged_section :: misp_object where
  "example_flagged_section =
     example_object ''s2'' ''pe-section''
       [example_attribute ''sb'' ''text'' ''name'' ''.data'' True] []"

text \<open>The state in which the file, its embedded executable and two sections are held.\<close>

definition example_held :: builder where
  "example_held =
     snd (for_each [example_file, example_pe_with_sections, hd example_sections,
                    example_flagged_section]
            (handle_object example_env) example_started)"

text \<open>
  What one call leaves of the three tables that \<^verbatim>\<open>__init__\<close> alone sets: \<open>kept s s'\<close> when
  every cluster identifier seen in \<open>s\<close> is seen in \<open>s'\<close>, and every key of the identifier
  registry and of the cache of custom classes of \<open>s\<close> is a key in \<open>s'\<close>.
\<close>

definition kept :: "builder \<Rightarrow> builder \<Rightarrow> bool" where
  "kept s s' =
     (set (galaxies s) \<subseteq> set (galaxies s')
      \<and> set (map fst (ids s)) \<subseteq> set (map fst (ids s'))
      \<and> set (map fst (custom_objects s)) \<subseteq> set (map fst (custom_objects s')))"

definition keeps :: "'a M \<Rightarrow> bool" where
  "keeps m = (\<forall>s. kept s (snd (m s)))"


section \<open>A stricter object model and events as they are exported\<close>

text \<open>
  A second instance of what the translator is given, closer to the object model of the
  library in what it refuses. An identifier (\<^verbatim>\<open>id\<close>, \<^verbatim>\<open>created_by_ref\<close>,
  \<^verbatim>\<open>source_ref\<close>, \<^verbatim>\<open>target_ref\<close>) has to be a type name, \<^verbatim>\<open>--\<close> and a UUID. An empty list
  argument counts as not given, so a report with no object reference lacks a required
  property. A marking of definition type \<^verbatim>\<open>tlp\<close> other than the four predefined ones is
  refused with \<^verbatim>\<open>TLPMarkingDefinitionError\<close>, one of a definition type other than \<^verbatim>\<open>tlp\<close>
  and \<^verbatim>\<open>statement\<close> with \<^verbatim>\<open>ValueError\<close>. The pattern of an indicator has to open with a
  bracket and the name of an object type and close with a bracket. The class that
  \<^verbatim>\<open>add_object_custom\<close> declares requires \<^verbatim>\<open>x_misp_value\<close>, which its arguments never
  have. The predefined markings have the identifiers the library gives them, and the
  results of \<^verbatim>\<open>uuid4\<close> are UUIDs numbered from 0.
\<close>

definition is_hex :: "char \<Rightarrow> bool" where
  "is_hex c = (c \<in> set ''0123456789abcdef'')"

definition uuid_like :: "string \<Rightarrow> bool" where
  "uuid_like u =
     (length u = 36
      \<and> list_all (\<lambda>(i, c). if i \<in> set [8, 13, 18, 23 :: nat] then c = CHR ''-'' else is_hex c)
            (zip [0 ..< 36] u))"

definition well_formed_id :: "string \<Rightarrow> bool" where
  "well_formed_id i = (case split i ''--'' of [t, u] \<Rightarrow> t \<noteq> [] \<and> uuid_like u | _ \<Rightarrow> False)"

definition ref_ok :: "(string \<times> jv) list \<Rightarrow> string \<Rightarrow> bool" where
  "ref_ok args key =
     (case map_of args key of
        None \<Rightarrow> True
      | Some (JStr i) \<Rightarrow> well_formed_id i
      | Some _ \<Rightarrow> False)"

definition refs_ok :: "(string \<times> jv) list \<Rightarrow> bool" where
  "refs_ok args = list_all (ref_ok args) [''id'', ''created_by_ref'', ''source_ref'', ''target_ref'']"

definition opens_with_object_type :: "string \<Rightarrow> bool" where
  "opens_with_object_type p =
     (case p of
        c # d # rest \<Rightarrow>
          c = CHR ''['' \<and> 97 \<le> (of_char d :: nat) \<and> (of_char d :: nat) \<le> 122
          \<and> last rest = CHR '']''
      | _ \<Rightarrow> False)"

definition strict_construct :: "string \<Rightarrow> (string \<times> jv) list \<Rightarrow> error option" where
  "strict_construct cls args =
     (if \<not> refs_ok args then Some InvalidValueError
      else if cls = ''Report''
              \<and> (map_of args ''object_refs'' = None \<or> map_of args ''object_refs'' = Some (JList []))
      then Some StixError
      else if cls = ''MarkingDefinition''
      then (case map_of args ''definition_type'' of
              Some (JStr t) \<Rightarrow>
                if t = ''tlp'' then Some TLPMarkingDefinitionError
                else if t = ''statement'' then None
                else Some ValueError
            | _ \<Rightarrow> Some ValueError)
      else if cls = ''Indicator''
      then (case map_of args ''pattern'' of
              Some (JStr p) \<Rightarrow> if opens_with_object_type p then None else Some InvalidValueError
            | _ \<Rightarrow> Some InvalidValueError)
      else None)"

definition strict_construct_custom :: "custom_class \<Rightarrow> (string \<times> jv) list \<Rightarrow> error option" where
  "strict_construct_custom cls args =
     (if \<not> refs_ok args then Some InvalidValueError
      else if map_of args ''x_misp_value'' = None then Some StixError
      else None)"

definition library_tlp :: "string \<Rightarrow> string \<Rightarrow> sdo" where
  "library_tlp level uuid =
     SDO ''MarkingDefinition'' (''marking-definition--'' @ uuid)
       [(''type'', JStr ''marking-definition''), (''id'', JStr (''marking-definition--'' @ uuid)),
        (''definition_type'', JStr ''tlp''), (''definition'', JDict [(''tlp'', JStr level)])]"

definition numbered_uuid :: "nat \<Rightarrow> string" where
  "numbered_uuid n =
     ''00000000-0000-4000-8000-'' @ replicate (12 - length (str_nat n)) (CHR ''0'') @ str_nat n"

definition strict_env :: env where
  "strict_env =
     example_env
       \<lparr>objectsMapping_to_call :=
          map_of [(''file'', Handle_usual_object_name), (''pe'', Populate_objects_to_parse),
                  (''pe-section'', Populate_objects_to_parse),
                  (''stix2-pattern'', Handle_usual_object_name),
                  (''domain-ip'', Handle_usual_object_name),
                  (''attack-pattern'', Add_attack_pattern_object),
                  (''course-of-action'', Add_course_of_action_from_object),
                  (''vulnerability'', Add_object_vulnerability)],
        module_globals :=
          map_of [(''TLP_WHITE'', library_tlp ''white'' ''613f2e26-407d-48c7-9eca-b8e91df99dc9''),
                  (''TLP_GREEN'', library_tlp ''green'' ''34098fce-860f-48ae-8e50-ebd3cc5e41da''),
                  (''TLP_AMBER'', library_tlp ''amber'' ''f88d31f6-486f-44da-b317-01333bde0b82''),
                  (''TLP_RED'', library_tlp ''red'' ''5e57c739-391a-4eb3-b6be-7d15ca92d5ed'')],
        construct := strict_construct,
        construct_custom := strict_construct_custom,
        uuid4 := numbered_uuid\<rparr>"

text \<open>
  Attributes, objects and events with UUIDs for their identifiers; the last character
  tells them apart.
\<close>

definition exported_attribute ::
  "string \<Rightarrow> string \<Rightarrow> string \<Rightarrow> bool \<Rightarrow> string list \<Rightarrow> galaxy list \<Rightarrow> attribute" where
  "exported_attribute d t v flag tags gs =
     (example_attribute (''6b0d549b-6f03-475a-9600-a35a099950d'' @ d) t [] v flag)
       \<lparr>a_Tag := tags, a_Galaxy := gs\<rparr>"

definition exported_object :: "string \<Rightarrow> string \<Rightarrow> attribute list \<Rightarrow> misp_object" where
  "exported_object d name attributes =
     example_object (''8e81973e-0bec-47b0-b898-d190f9ebdac'' @ d) name attributes []"

definition exported_event ::
  "string \<Rightarrow> string \<Rightarrow> attribute list \<Rightarrow> misp_object list \<Rightarrow> galaxy list \<Rightarrow> event" where
  "exported_event d org attributes objs gs =
     example_event (''9531985d-5d9d-49f8-9818-e811892f902'' @ d)
       (''6513270e-269e-4d37-b2a7-4de452e6b43'' @ org) attributes objs gs"

definition tool_galaxy :: galaxy where
  "tool_galaxy = example_galaxy ''tool'' ''a170b338-3926-4059-b28c-105d1fb17c23''"

text \<open>
  Two events of one input. The first, of one organisation, has a flagged domain tagged
  \<^verbatim>\<open>tlp:white\<close> and a reference to a tool cluster; the second, of another organisation, has
  an unflagged domain and a reference to the same cluster.
\<close>

definition first_event :: event where
  "first_event =
     exported_event ''1'' ''a''
       [exported_attribute ''1'' ''domain'' ''evil.example'' True [''tlp:white''] []] []
       [tool_galaxy]"

definition second_event :: event where
  "second_event =
     exported_event ''2'' ''b''
       [exported_attribute ''2'' ''domain'' ''other.example'' False [] []] [] [tool_galaxy]"

text \<open>An event of two attributes that both refer to that cluster.\<close>

definition twice_event :: event where
  "twice_event =
     exported_event ''3'' ''b''
       [exported_attribute ''3'' ''domain'' ''a.example'' True [] [tool_galaxy],
        exported_attribute ''4'' ''domain'' ''b.example'' False [] [tool_galaxy]] [] []"

text \<open>
  An event of two attributes with the tag \<^verbatim>\<open>tlp:purple\<close>, which is none of the four
  tokens; and one of an attribute with \<^verbatim>\<open>tlp:ex:chr\<close>, a tag of the \<^verbatim>\<open>tlp\<close> taxonomy
  with two colons.
\<close>

definition refused_tag_event :: event where
  "refused_tag_event =
     exported_event ''4'' ''a''
       [exported_attribute ''5'' ''domain'' ''evil.example'' True [''tlp:purple''] [],
        exported_attribute ''6'' ''domain'' ''other.example'' False [''tlp:purple''] []] [] []"

definition three_part_tag_event :: event where
  "three_part_tag_event =
     exported_event ''5'' ''a''
       [exported_attribute ''7'' ''domain'' ''evil.example'' True [''tlp:ex:chr''] []] [] []"


text \<open>
  An event of a course of action with a flagged name; and one of a \<^verbatim>\<open>stix2-pattern\<close>
  object with no flagged attribute.
\<close>

definition course_of_action_event :: event where
  "course_of_action_event =
     exported_event ''7'' ''a'' []
       [exported_object ''1'' ''course-of-action''
          [(exported_attribute ''a'' ''text'' ''Block the domain'' True [] [])
             \<lparr>a_object_relation := ''name''\<rparr>]] []"

definition pattern_object_event :: event where
  "pattern_object_event =
     exported_event ''8'' ''a'' []
       [exported_object ''2'' ''stix2-pattern''
          [(exported_attribute ''b'' ''stix2-pattern''
              (''[domain-name:value = '' @ quoted ''evil.example'' @ '']'') False [] [])
             \<lparr>a_object_relation := ''stix2-pattern''\<rparr>]] []"


section \<open>Properties\<close>

subsection \<open>Auxiliary facts\<close>

lemma sbind_Inr: "sbind r f = Inr y \<Longrightarrow> \<exists>x. r = Inr x \<and> f x = Inr y"
  by (cases r) (auto simp: sbind_def)

lemma map_of_update_same: "map_of (AList.update k v al) k = Some v"
  by (simp add: update_conv')

lemma is_digit_digit_char: "d < 10 \<Longrightarrow> is_digit (digit_char d)"
  by (simp add: is_digit_def digit_char_def)

lemma digit_val_digit_char: "d < 10 \<Longrightarrow> digit_val (digit_char d) = d"
  by (simp add: digit_val_def digit_char_def)

lemma digits_str_nat_aux:
  "n < fuel \<Longrightarrow> list_all is_digit acc \<Longrightarrow> list_all is_digit (str_nat_aux fuel n acc)"
proof (induction fuel arbitrary: n acc)
  case 0 then show ?case by simp
next
  case (Suc fuel)
  show ?case
  proof (cases "n < 10")
    case True
    then show ?thesis using Suc.prems by (simp add: is_digit_digit_char)
  next
    case False
    have "n div 10 < fuel" using False Suc.prems(1) by simp
    moreover have "list_all is_digit (digit_char (n mod 10) # acc)"
      using Suc.prems(2) by (simp add: is_digit_digit_char)
    ultimately show ?thesis using False Suc.IH by simp
  qed
qed

lemma str_nat_aux_nonempty: "0 < fuel \<Longrightarrow> acc \<noteq> [] \<or> n < fuel \<Longrightarrow> str_nat_aux fuel n acc \<noteq> []"
proof (induction fuel arbitrary: n acc)
  case 0 then show ?case by simp
next
  case (Suc fuel)
  show ?case
  proof (cases "n < 10")
    case True then show ?thesis by simp
  next
    case False
    show ?thesis
    proof (cases fuel)
      case 0 then show ?thesis using False by simp
    next
      case (Suc f)
      then show ?thesis using False Suc.IH[of "digit_char (n mod 10) # acc" "n div 10"] by simp
    qed
  qed
qed

lemma value_str_nat_aux:
  "n < fuel \<Longrightarrow>
   foldl (\<lambda>a c. a * 10 + digit_val c) 0 (str_nat_aux fuel n acc)
     = foldl (\<lambda>a c. a * 10 + digit_val c) n acc"
proof (induction fuel arbitrary: n acc)
  case 0 then show ?case by simp
next
  case (Suc fuel)
  show ?case
  proof (cases "n < 10")
    case True then show ?thesis by (simp add: digit_val_digit_char)
  next
    case False
    have lt: "n div 10 < fuel" using False Suc.prems by simp
    show ?thesis using False Suc.IH[OF lt, of "digit_char (n mod 10) # acc"]
      by (simp add: digit_val_digit_char)
  qed
qed

lemma is_digit_not_underscore: "is_digit c \<Longrightarrow> c \<noteq> CHR ''_''"
  by (auto simp: is_digit_def)

lemma digits_val_digits:
  "list_all is_digit ds \<Longrightarrow> digits_val a ds = Some (foldl (\<lambda>a c. a * 10 + digit_val c) a ds)"
proof (induction a ds rule: digits_val.induct)
  case (1 acc) then show ?case by simp
next
  case (2 acc c) then show ?case by simp
next
  case (3 acc c d cs)
  then show ?case using is_digit_not_underscore[of d] by simp
qed

lemma is_digit_not_space: "is_digit c \<Longrightarrow> \<not> is_space c"
  by (auto simp: is_digit_def is_space_def Let_def)

lemma strip_digits:
  assumes "list_all is_digit ds"
  shows "strip ds = ds"
proof -
  have a: "\<And>xs. list_all is_digit xs \<Longrightarrow> dropWhile is_space xs = xs"
    by (case_tac xs) (auto simp: is_digit_not_space)
  have "list_all is_digit (rev ds)" using assms by (simp add: list_all_iff)
  then show ?thesis using a[OF assms] a[of "rev ds"] by (simp add: strip_def)
qed

lemma int_of_string_str_nat: "int_of_string (str_nat n) = Inr (int n)"
proof -
  let ?s = "str_nat n"
  have d: "list_all is_digit ?s" unfolding str_nat_def by (rule digits_str_nat_aux) simp_all
  have ne: "?s \<noteq> []" unfolding str_nat_def by (rule str_nat_aux_nonempty) simp_all
  have v: "digits_val 0 ?s = Some n"
    using digits_val_digits[OF d, of 0] value_str_nat_aux[of n "Suc n" "[]"]
    by (simp add: str_nat_def)
  obtain c cs where s: "?s = c # cs" using ne by (cases ?s) auto
  have "is_digit c" using d s by simp
  then have c: "c \<noteq> CHR ''-''" "c \<noteq> CHR ''+''" by (auto simp: is_digit_def)
  show ?thesis
    unfolding int_of_string_def strip_digits[OF d] using s c v by (simp add: Let_def)
qed

lemma count_key_distinct:
  "distinct (map fst al) \<Longrightarrow> map_of al k = Some v \<Longrightarrow> filter (\<lambda>kv. fst kv = k) al = [(k, v)]"
proof (induction al)
  case Nil then show ?case by simp
next
  case (Cons a al)
  obtain k' v' where a: "a = (k', v')" by (cases a)
  show ?case
  proof (cases "k' = k")
    case True
    with Cons.prems a have "v' = v" by simp
    moreover have "filter (\<lambda>kv. fst kv = k) al = []"
      using Cons.prems True a by (auto simp: filter_empty_conv image_iff)
    ultimately show ?thesis using True a by simp
  next
    case False
    then show ?thesis using Cons a by simp
  qed
qed

lemma resolve_tag_cached:
  assumes "resolve_tag E tag s = (Inr (Some i), s1)"
  shows "\<exists>m. map_of (markings s1) tag = Some m \<and> sdo_id m = i"
  using assms
  by (auto simp: resolve_tag_def create_marking_def Let_def map_of_update_same
           split: option.splits list.splits if_splits)

lemma resolve_tag_distinct:
  assumes "resolve_tag E tag s = (r, s1)" "distinct (map fst (markings s))"
  shows "distinct (map fst (markings s1))"
  using assms
  by (auto simp: resolve_tag_def create_marking_def Let_def distinct_update
           split: option.splits list.splits if_splits)

lemma handle_tags_single:
  "handle_tags E [tag] s = (Inr [i], s1) \<Longrightarrow> resolve_tag E tag s = (Inr (Some i), s1)"
  by (auto split: prod.splits sum.splits option.splits if_splits)

lemma for_each_append:
  "for_each (xs @ ys) f s =
     (case for_each xs f s of (Inl e, s') \<Rightarrow> (Inl e, s') | (Inr u, s') \<Rightarrow> for_each ys f s')"
  by (induction xs arbitrary: s) (auto split: prod.splits sum.splits)

lemma fix_number_of_sections_count:
  assumes "fix_number_of_sections n extension = Inr extension1"
  shows "\<exists>v. map_of extension1 ''number_of_sections'' = Some v \<and> py_int v = Inr (int n)"
proof -
  from sbind_Inr[OF assms[unfolded fix_number_of_sections_def]]
  obtain declared where
    dr: "py_int (case map_of extension ''number_of_sections'' of None \<Rightarrow> JList [] | Some v \<Rightarrow> v)
          = Inr declared
       \<and> (if int n \<noteq> declared
             then Inr (AList.update ''number_of_sections'' (JStr (str_nat n)) extension)
             else Inr extension) = (Inr extension1 :: error + (string \<times> jv) list)" ..
  note d = dr[THEN conjunct1] and r = dr[THEN conjunct2]
  show ?thesis
  proof (cases "int n = declared")
    case True
    then have e: "extension1 = extension" using r by simp
    from d obtain v where "map_of extension ''number_of_sections'' = Some v"
      by (cases "map_of extension ''number_of_sections''") auto
    then show ?thesis using d e True by auto
  next
    case False
    then have "extension1 = AList.update ''number_of_sections'' (JStr (str_nat n)) extension"
      using r by simp
    then show ?thesis by (simp add: map_of_update_same int_of_string_str_nat)
  qed
qed

subsection \<open>Markings\<close>

lemma markings_appended:
  "for_each ms (\<lambda>marking. append_object marking True) s = (Inr (), s')
   \<Longrightarrow> SDOs s' = SDOs s @ ms"
proof (induction ms arbitrary: s)
  case Nil
  then show ?case by simp
next
  case (Cons m ms)
  obtain r s1 where a: "append_object m True s = (r, s1)" by (cases "append_object m True s")
  with Cons.prems have r: "r = Inr ()" and rest:
    "for_each ms (\<lambda>marking. append_object marking True) s1 = (Inr (), s')"
    by (cases r; simp)+
  have "SDOs s1 = SDOs s @ [m]"
    using a r by (auto simp: append_object_def Let_def split: list.splits if_splits)
  with Cons.IH[OF rest] show ?case by simp
qed

text \<open>
  Claim C4, as the code has it. Within one event (the marking cache is a dictionary, so
  its keys are distinct), when the resolution of a tag yields an identifier, resolving the
  same tag again yields the same identifier and leaves the state as it is, and resolving
  it twice in one call yields the identifier twice. When \<^verbatim>\<open>add_all_markings\<close> then
  returns, what it has added to the event's output are the marking objects of the cache,
  one for each of its tags, and the cache holds exactly one marking for the tag, with that
  identifier.
\<close>

theorem handle_tags_idempotent:
  assumes first: "handle_tags E [tag] s = (Inr [i], s1)"
      and dict: "distinct (map fst (markings s))"
      and added: "add_all_markings s1 = (Inr (), s2)"
  shows "handle_tags E [tag] s1 = (Inr [i], s1)
       \<and> handle_tags E [tag, tag] s = (Inr [i, i], s1)
       \<and> SDOs s2 = SDOs s1 @ map snd (markings s1)
       \<and> map (sdo_id \<circ> snd) (filter (\<lambda>kv. fst kv = tag) (markings s1)) = [i]"
proof -
  have r: "resolve_tag E tag s = (Inr (Some i), s1)" using first by (rule handle_tags_single)
  have ne: "i \<noteq> []" using first r by (auto split: if_splits)
  obtain m where m: "map_of (markings s1) tag = Some m" "sdo_id m = i"
    using resolve_tag_cached[OF r] by blast
  have r2: "resolve_tag E tag s1 = (Inr (Some i), s1)"
    using m by (simp add: resolve_tag_def)
  have d: "distinct (map fst (markings s1))" using resolve_tag_distinct[OF r dict] .
  have one: "filter (\<lambda>kv. fst kv = tag) (markings s1) = [(tag, m)]"
    using count_key_distinct[OF d m(1)] .
  have out: "SDOs s2 = SDOs s1 @ map snd (markings s1)"
    using added unfolding add_all_markings_def by (rule markings_appended)
  show ?thesis using r r2 ne one m out by simp
qed

theorem handle_tags_idempotent_witness:
  "fst (handle_tags strict_env [''tlp:white''] init)
     = Inr [''marking-definition--613f2e26-407d-48c7-9eca-b8e91df99dc9'']
   \<and> fst (handle_tags strict_env [''tlp:white'', ''tlp:white''] init)
     = Inr [''marking-definition--613f2e26-407d-48c7-9eca-b8e91df99dc9'',
            ''marking-definition--613f2e26-407d-48c7-9eca-b8e91df99dc9'']
   \<and> handle_tags strict_env [''tlp:white''] (snd (handle_tags strict_env [''tlp:white''] init))
     = handle_tags strict_env [''tlp:white''] init
   \<and> SDOs (snd (add_all_markings (snd (handle_tags strict_env [''tlp:white''] init))))
     = [library_tlp ''white'' ''613f2e26-407d-48c7-9eca-b8e91df99dc9'']
   \<and> map (sdo_id \<circ> snd)
       (filter (\<lambda>kv. fst kv = ''tlp:white'')
          (markings (snd (handle_tags strict_env [''tlp:white''] init))))
     = [''marking-definition--613f2e26-407d-48c7-9eca-b8e91df99dc9'']"
proof -
  let ?i = "''marking-definition--613f2e26-407d-48c7-9eca-b8e91df99dc9''"
  let ?s1 = "snd (handle_tags strict_env [''tlp:white''] init)"
  let ?s2 = "snd (add_all_markings ?s1)"
  have f: "fst (handle_tags strict_env [''tlp:white''] init) = Inr [?i]" by code_simp
  then have first: "handle_tags strict_env [''tlp:white''] init = (Inr [?i], ?s1)"
    by (simp add: prod_eq_iff)
  have dict: "distinct (map fst (markings init))" by (simp add: init_def)
  have o: "fst (add_all_markings ?s1) = Inr ()" by code_simp
  then have added: "add_all_markings ?s1 = (Inr (), ?s2)" by (simp add: prod_eq_iff)
  have before: "SDOs ?s1 = []" by code_simp
  have cache: "map snd (markings ?s1) = [library_tlp ''white'' ''613f2e26-407d-48c7-9eca-b8e91df99dc9'']"
    by code_simp
  note T = handle_tags_idempotent[OF first dict added]
  from T have t1: "handle_tags strict_env [''tlp:white''] ?s1 = (Inr [?i], ?s1)"
    by (rule conjunct1)
  from T[THEN conjunct2] have
    t2: "handle_tags strict_env [''tlp:white'', ''tlp:white''] init = (Inr [?i, ?i], ?s1)"
    by (rule conjunct1)
  from T[THEN conjunct2, THEN conjunct2] have
    t3: "SDOs ?s2 = SDOs ?s1 @ map snd (markings ?s1)"
    by (rule conjunct1)
  from T[THEN conjunct2, THEN conjunct2] have
    t4: "map (sdo_id \<circ> snd) (filter (\<lambda>kv. fst kv = ''tlp:white'') (markings ?s1)) = [?i]"
    by (rule conjunct2)
  have c2: "fst (handle_tags strict_env [''tlp:white'', ''tlp:white''] init) = Inr [?i, ?i]"
    by (simp only: t2 fst_conv)
  have c3: "handle_tags strict_env [''tlp:white''] ?s1
              = handle_tags strict_env [''tlp:white''] init"
    by (rule trans[OF t1 first[symmetric]])
  have c4: "SDOs ?s2 = [library_tlp ''white'' ''613f2e26-407d-48c7-9eca-b8e91df99dc9'']"
    by (simp only: t3 before cache append_Nil)
  show ?thesis by (intro conjI) (rule f c2 c3 c4 t4)+
qed

text \<open>
  The tag \<^verbatim>\<open>tlp:purple\<close> is none of the four tokens and its marking is refused: resolved
  twice it yields no identifier and no marking, and the event whose two attributes carry
  it has no marking object in its output.
\<close>

theorem refused_tag_yields_no_marking:
  "handle_tags strict_env [''tlp:purple'', ''tlp:purple''] init
     = (Inr [], init\<lparr>uuid_calls := 2\<rparr>)
   \<and> map_sum id (map sdo_class) (fst (handler strict_env refused_tag_event init))
     = Inr [''Identity'', ''Report'', ''Indicator'', ''ObservedData'']"
  by code_simp

text \<open>
  A tag that is none of the traffic-light tokens of \<^verbatim>\<open>tlp_markings\<close>, is not cached yet
  and splits at its colon into a namespace and a predicate is made into a marking of that
  namespace and predicate; when the constructor rejects it with
  \<^verbatim>\<open>TLPMarkingDefinitionError\<close> or \<^verbatim>\<open>ValueError\<close>, \<^verbatim>\<open>create_marking\<close> returns nothing and
  stores nothing, and \<^verbatim>\<open>handle_tags\<close> goes on as if the tag had not been there: no
  marking, no reference, no error (one \<^verbatim>\<open>uuid4\<close> result is used up).
\<close>

theorem rejected_marking_is_skipped:
  assumes not_tlp: "tlp_markings E tag = None"
      and fresh: "map_of (markings s) tag = None"
      and parsed: "split tag '':'' = [namespace, predicate]"
      and rejected:
        "construct E ''MarkingDefinition''
           [(''type'', JStr ''marking-definition''),
            (''id'', JStr (''marking-definition--'' @ uuid4 E (uuid_calls s))),
            (''definition_type'', JStr namespace),
            (''definition'', JDict [(namespace, JStr predicate)])] = Some e"
      and caught: "e = TLPMarkingDefinitionError \<or> e = ValueError"
  shows "create_marking E tag s = (Inr None, s\<lparr>uuid_calls := Suc (uuid_calls s)\<rparr>)
       \<and> handle_tags E (tag # tags) s = handle_tags E tags (s\<lparr>uuid_calls := Suc (uuid_calls s)\<rparr>)"
proof -
  have c: "create_marking E tag s = (Inr None, s\<lparr>uuid_calls := Suc (uuid_calls s)\<rparr>)"
    using not_tlp parsed rejected caught by (auto simp: create_marking_def Let_def)
  then have "resolve_tag E tag s = (Inr None, s\<lparr>uuid_calls := Suc (uuid_calls s)\<rparr>)"
    using fresh by (simp add: resolve_tag_def)
  then have "handle_tags E (tag # tags) s = handle_tags E tags (s\<lparr>uuid_calls := Suc (uuid_calls s)\<rparr>)"
    by (simp split: prod.splits sum.splits)
  with c show ?thesis by simp
qed

theorem rejected_marking_is_skipped_witness:
  "handle_tags example_env [''tlp:purple'', ''tlp:white''] init
     = handle_tags example_env [''tlp:white''] (init\<lparr>uuid_calls := Suc (uuid_calls init)\<rparr>)
   \<and> fst (handle_tags example_env [''tlp:purple'', ''tlp:white''] init)
     = Inr [''marking-definition--white'']
   \<and> map fst (markings (snd (handle_tags example_env [''tlp:purple'', ''tlp:white''] init)))
     = [''tlp:white'']"
proof -
  have 1: "tlp_markings example_env ''tlp:purple'' = None" by (simp add: example_env_def)
  have 2: "map_of (markings init) ''tlp:purple'' = None" by (simp add: init_def)
  have 3: "split ''tlp:purple'' '':'' = [''tlp'', ''purple'']" by code_simp
  have 4: "construct example_env ''MarkingDefinition''
           [(''type'', JStr ''marking-definition''),
            (''id'', JStr (''marking-definition--'' @ uuid4 example_env (uuid_calls init))),
            (''definition_type'', JStr ''tlp''),
            (''definition'', JDict [(''tlp'', JStr ''purple'')])] = Some TLPMarkingDefinitionError"
    by (simp add: example_env_def example_construct_def)
  have 5: "handle_tags example_env [''tlp:white''] (init\<lparr>uuid_calls := Suc (uuid_calls init)\<rparr>)
     = (Inr [''marking-definition--white''],
        init\<lparr>uuid_calls := Suc (uuid_calls init),
             markings := [(''tlp:white'', example_tlp ''white'')]\<rparr>)"
    by (simp add: resolve_tag_def create_marking_def example_env_def init_def example_tlp_def)
  show ?thesis
    using rejected_marking_is_skipped[OF 1 2 3 4, of "[''tlp:white'']"] 5 by simp
qed

text \<open>
  Claim C8. The tag \<^verbatim>\<open>tlp:ex:chr\<close> is none of the four tokens and has two colons. The
  assignment \<^verbatim>\<open>definition_type, definition = tag.split(':')\<close> stands before the \<^verbatim>\<open>try\<close>
  of \<^verbatim>\<open>create_marking\<close>, so its \<^verbatim>\<open>ValueError\<close> is not the one the \<^verbatim>\<open>except\<close> clause
  passes over: it leaves \<^verbatim>\<open>create_marking\<close> and \<^verbatim>\<open>handle_tags\<close>, is caught once by
  \<^verbatim>\<open>handle_usual_type\<close>, raised again when \<^verbatim>\<open>add_custom\<close> resolves the same tag, and ends
  the translation of the event.
\<close>

theorem three_part_tag_aborts:
  "split ''tlp:ex:chr'' '':'' = [''tlp'', ''ex'', ''chr'']
   \<and> fst (create_marking strict_env ''tlp:ex:chr'' init) = Inl ValueError
   \<and> fst (handle_tags strict_env [''tlp:ex:chr''] init) = Inl ValueError
   \<and> fst (handler strict_env three_part_tag_event init) = Inl ValueError
   \<and> fst (handle_events strict_env [three_part_tag_event, second_event] init) = Inl ValueError"
  by code_simp

subsection \<open>The section count of the merged file family\<close>

text \<open>
  Claim C6. Whenever \<^verbatim>\<open>parse_pe_extensions_observable\<close> returns, its result is the
  \<^verbatim>\<open>windows-pebinary-ext\<close> extension, and the extension's \<^verbatim>\<open>number_of_sections\<close> reads,
  as an integer, as the number of resolved sections: a declared count that differs is
  overwritten by the resolved one.
\<close>

theorem section_count_is_resolved_count:
  assumes "parse_pe_extensions_observable E pe_object sections pe_type = Inr r"
  shows "\<exists>extension v.
           r = JDict [(''windows-pebinary-ext'', JDict extension)]
         \<and> map_of extension ''number_of_sections'' = Some v
         \<and> py_int v = Inr (int (length sections))"
proof -
  from sbind_Inr[OF assms[unfolded parse_pe_extensions_observable_def]]
  obtain extension where
    "add_sections E sections sections
       (foldl (\<lambda>extension attribute.
                 AList.update (pe_key E attribute) (JStr (a_value attribute)) extension)
          [(''pe_type'', JStr pe_type)] (o_Attribute pe_object)) = Inr extension
     \<and> sbind (fix_number_of_sections (length sections) extension)
         (\<lambda>extension1. Inr (JDict [(''windows-pebinary-ext'', JDict extension1)]))
          = (Inr r :: error + jv)" ..
  from sbind_Inr[OF this[THEN conjunct2]] obtain extension1 where
    fr: "fix_number_of_sections (length sections) extension = Inr extension1
       \<and> Inr (JDict [(''windows-pebinary-ext'', JDict extension1)]) = (Inr r :: error + jv)" ..
  note f = fr[THEN conjunct1]
  have r: "r = JDict [(''windows-pebinary-ext'', JDict extension1)]" using fr by simp
  show ?thesis using fix_number_of_sections_count[OF f] r by blast
qed

theorem section_count_is_resolved_count_witness:
  "parse_pe_extensions_observable example_env example_pe example_sections ''exe''
     = Inr (JDict [(''windows-pebinary-ext'',
                    JDict [(''pe_type'', JStr ''exe''), (''number_of_sections'', JStr ''2''),
                           (''sections'', JList [JDict [(''name'', JStr ''.text'')],
                                                 JDict [(''name'', JStr ''.data'')]])])])
   \<and> (\<exists>extension v.
         map_of extension ''number_of_sections'' = Some v
       \<and> parse_pe_extensions_observable example_env example_pe example_sections ''exe''
           = Inr (JDict [(''windows-pebinary-ext'', JDict extension)])
       \<and> py_int v = Inr 2)"
proof -
  have run: "parse_pe_extensions_observable example_env example_pe example_sections ''exe''
     = Inr (JDict [(''windows-pebinary-ext'',
                    JDict [(''pe_type'', JStr ''exe''), (''number_of_sections'', JStr ''2''),
                           (''sections'', JList [JDict [(''name'', JStr ''.text'')],
                                                 JDict [(''name'', JStr ''.data'')]])])])"
    by code_simp
  have two: "int (length example_sections) = 2" by (simp add: example_sections_def)
  show ?thesis using section_count_is_resolved_count[OF run] run two by auto
qed

subsection \<open>Objects that are passed over\<close>

text \<open>
  Claim C10. An object whose name is \<^verbatim>\<open>original-imported-file\<close> leaves the builder's
  state as it is: no object is produced, the identifier registry gets no entry, no
  reference of the object is recorded as an edge to define; and the loop of \<^verbatim>\<open>handler\<close>
  over the event's objects does what it does without that object.
\<close>

theorem original_imported_file_is_skipped:
  assumes "o_name misp_object = ''original-imported-file''"
  shows "handle_object E misp_object s = (Inr (), s)
       \<and> for_each (before @ misp_object # after) (handle_object E) s
           = for_each (before @ after) (handle_object E) s"
proof -
  have h: "\<And>s. handle_object E misp_object s = (Inr (), s)"
    using assms by (simp add: handle_object_def ret_def)
  have "for_each (before @ misp_object # after) (handle_object E) s
           = for_each (before @ after) (handle_object E) s"
    by (simp add: for_each_append h split: prod.splits sum.splits)
  with h show ?thesis by simp
qed

theorem original_imported_file_is_skipped_witness:
  "handle_object example_env example_imported_file init = (Inr (), init)
   \<and> for_each ([] @ example_imported_file # []) (handle_object example_env) init
       = for_each ([] @ []) (handle_object example_env) init"
proof -
  have name: "o_name example_imported_file = ''original-imported-file''"
    by (simp add: example_imported_file_def example_object_def)
  show ?thesis using original_imported_file_is_skipped[OF name, of example_env init "[]" "[]"] .
qed

subsection \<open>What a successful builder call leaves behind\<close>

lemma bind_InrE:
  assumes "bind m f s = (Inr y, s')"
  obtains x s1 where "m s = (Inr x, s1)" and "f x s1 = (Inr y, s')"
  using assms by (auto simp: bind_def split: prod.splits sum.splits)

lemma new_object_Inr:
  "new_object E cls oid args s = (Inr obj, s') \<Longrightarrow> obj = SDO cls oid args \<and> s' = s"
  by (auto simp: new_object_def split: option.splits)

lemma append_object_Inr:
  "append_object obj b s = (Inr (), s') \<Longrightarrow>
     SDOs s' = SDOs s @ [obj] \<and> galaxies s' = galaxies s
     \<and> relationships_defined s' = relationships_defined s"
  by (auto simp: append_object_def Let_def split: list.splits if_splits)

lemma new_append_Inr:
  assumes "bind (new_object E cls oid args) (\<lambda>obj. append_object obj True) s = (Inr (), s')"
  shows "SDOs s' = SDOs s @ [SDO cls oid args] \<and> galaxies s' = galaxies s
       \<and> relationships_defined s' = relationships_defined s"
  using assms by (auto elim!: bind_InrE dest!: new_object_Inr append_object_Inr)








lemma add_object_indicator_Inr:
  assumes "add_object_indicator E misp_object pattern_arg s = (Inr (), s')"
  shows "\<exists>before args.
           SDOs s' = before @ [SDO ''Indicator'' (''indicator--'' @ o_uuid misp_object) args]"
  using assms unfolding add_object_indicator_def Let_def
  by (auto elim!: bind_InrE dest!: new_object_Inr append_object_Inr split: prod.splits)

lemma fix_enumeration_issues_Inr:
  "fix_enumeration_issues E name oid args s = (Inr obj, s') \<Longrightarrow>
     (\<exists>args'. obj = SDO ''ObservedData'' oid args') \<and> s' = s"
  by (auto simp: fix_enumeration_issues_def lift_def elim!: bind_InrE dest!: new_object_Inr
           split: if_splits)

lemma try_except_InrE:
  assumes "try_except m caught h s = (Inr y, s')"
  obtains "m s = (Inr y, s')" | e s1 where "m s = (Inl e, s1)" "caught e" "h s1 = (Inr y, s')"
  using assms by (auto simp: try_except_def split: prod.splits sum.splits if_splits)

lemma add_object_observable_Inr:
  assumes "add_object_observable E misp_object observable_arg s = (Inr (), s')"
  shows "\<exists>before args.
           SDOs s' = before @ [SDO ''ObservedData'' (''observed-data--'' @ o_uuid misp_object) args]"
  using assms unfolding add_object_observable_def Let_def
  by (auto elim!: bind_InrE try_except_InrE
           dest!: new_object_Inr append_object_Inr fix_enumeration_issues_Inr
           split: prod.splits)


lemma try_except_Inr: "m s = (Inr y, s') \<Longrightarrow> try_except m caught h s = (Inr y, s')"
  by (simp add: try_except_def)

subsection \<open>Relationships to define\<close>

lemma emitted_Nil: "emitted s [] = s"
  by (simp add: emitted_def)

lemma emitted_emitted: "emitted (emitted s a) b = emitted s (a @ b)"
  by (simp add: emitted_def)

lemma emitted_ids: "ids (emitted s rels) = ids s"
  by (simp add: emitted_def)

text \<open>One reference: nothing when an endpoint is unresolved, one relationship otherwise.\<close>

lemma add_to_define_relationship_step:
  assumes "\<And>args. construct E ''Relationship'' args = None"
  shows "\<exists>rels. add_to_define_relationship E source_uuid reference s = (Inr (), emitted s rels)
              \<and> map sdo_args rels = resolved_edges (ids s) [(source_uuid, [reference])]
              \<and> list_all (\<lambda>r. sdo_class r = ''Relationship'') rels"
proof -
  obtain target_uuid relationship_type where r: "reference = (target_uuid, relationship_type)"
    by (cases reference)
  show ?thesis
  proof (cases "map_of (ids s) source_uuid")
    case None
    then have "add_to_define_relationship E source_uuid reference s = (Inr (), emitted s [])"
      by (simp add: add_to_define_relationship_def r emitted_Nil)
    then show ?thesis using None
      by (intro exI[of _ "[]"]) (simp add: resolved_edges_def r)
  next
    case (Some source_type)
    show ?thesis
    proof (cases "map_of (ids s) target_uuid")
      case None
      then have "add_to_define_relationship E source_uuid reference s = (Inr (), emitted s [])"
        using Some by (simp add: add_to_define_relationship_def r emitted_Nil)
      then show ?thesis using None Some
        by (intro exI[of _ "[]"]) (simp add: resolved_edges_def r)
    next
      case target: (Some target_type)
      let ?args = "[(''source_ref'', JStr (source_type @ ''--'' @ source_uuid)),
                    (''target_ref'', JStr (target_type @ ''--'' @ target_uuid)),
                    (''interoperability'', JBool True),
                    (''relationship_type'', JStr (strip relationship_type))]"
      let ?rel = "SDO ''Relationship'' (''relationship--'' @ uuid4 E (uuid_calls s)) ?args"
      have "add_to_define_relationship E source_uuid reference s = (Inr (), emitted s [?rel])"
        using Some target assms
        by (simp add: add_to_define_relationship_def r bind_def new_relationship_def
              append_object_def emitted_def Let_def)
      then show ?thesis using Some target
        by (intro exI[of _ "[?rel]"]) (simp add: resolved_edges_def r)
    qed
  qed
qed

lemma resolved_edges_Cons_ref:
  "resolved_edges registry [(u, reference # references)]
     = resolved_edges registry [(u, [reference])] @ resolved_edges registry [(u, references)]"
  by (simp add: resolved_edges_def)

lemma resolved_edges_Cons:
  "resolved_edges registry ((u, references) # rest)
     = resolved_edges registry [(u, references)] @ resolved_edges registry rest"
  by (simp add: resolved_edges_def)

lemma to_define_references:
  assumes "\<And>args. construct E ''Relationship'' args = None"
  shows "\<exists>rels. for_each references (add_to_define_relationship E source_uuid) s
                  = (Inr (), emitted s rels)
              \<and> map sdo_args rels = resolved_edges (ids s) [(source_uuid, references)]
              \<and> list_all (\<lambda>r. sdo_class r = ''Relationship'') rels"
proof (induction references arbitrary: s)
  case Nil
  show ?case by (rule exI[of _ "[]"]) (simp add: emitted_Nil resolved_edges_def)
next
  case (Cons reference references)
  obtain a where a: "add_to_define_relationship E source_uuid reference s = (Inr (), emitted s a)"
      "map sdo_args a = resolved_edges (ids s) [(source_uuid, [reference])]"
      "list_all (\<lambda>r. sdo_class r = ''Relationship'') a"
    using add_to_define_relationship_step[OF assms] by blast
  obtain b where b: "for_each references (add_to_define_relationship E source_uuid) (emitted s a)
                       = (Inr (), emitted (emitted s a) b)"
      "map sdo_args b = resolved_edges (ids (emitted s a)) [(source_uuid, references)]"
      "list_all (\<lambda>r. sdo_class r = ''Relationship'') b"
    using Cons.IH by blast
  show ?case
    by (rule exI[of _ "a @ b"])
       (simp add: a b emitted_emitted emitted_ids
          resolved_edges_Cons_ref[of "ids s" source_uuid reference references])
qed

lemma to_define_table:
  assumes "\<And>args. construct E ''Relationship'' args = None"
  shows "\<exists>rels. for_each table
                    (\<lambda>(source_uuid, references).
                       for_each references (add_to_define_relationship E source_uuid)) s
                  = (Inr (), emitted s rels)
              \<and> map sdo_args rels = resolved_edges (ids s) table
              \<and> list_all (\<lambda>r. sdo_class r = ''Relationship'') rels"
proof (induction table arbitrary: s)
  case Nil
  show ?case by (rule exI[of _ "[]"]) (simp add: emitted_Nil resolved_edges_def)
next
  case (Cons entry table)
  obtain source_uuid references where e: "entry = (source_uuid, references)" by (cases entry)
  obtain a where a: "for_each references (add_to_define_relationship E source_uuid) s
                       = (Inr (), emitted s a)"
      "map sdo_args a = resolved_edges (ids s) [(source_uuid, references)]"
      "list_all (\<lambda>r. sdo_class r = ''Relationship'') a"
    using to_define_references[OF assms] by blast
  obtain b where b: "for_each table
                    (\<lambda>(source_uuid, references).
                       for_each references (add_to_define_relationship E source_uuid)) (emitted s a)
                       = (Inr (), emitted (emitted s a) b)"
      "map sdo_args b = resolved_edges (ids (emitted s a)) table"
      "list_all (\<lambda>r. sdo_class r = ''Relationship'') b"
    using Cons.IH by blast
  show ?case
    by (rule exI[of _ "a @ b"])
       (simp add: e a b emitted_emitted emitted_ids
          resolved_edges_Cons[of "ids s" source_uuid references table])
qed

text \<open>
  Claim C7. When the object model accepts every relationship, resolving the references to
  define raises no error and emits, in the order of the table, exactly the relationships
  of \<open>resolved_edges\<close>: one for each reference whose source and target identifier are both
  in the identifier registry, with the trimmed relationship type as its label, and none for
  a reference with an endpoint that is not in the registry.
\<close>

theorem to_define_edges_are_the_resolved_ones:
  assumes "\<And>args. construct E ''Relationship'' args = None"
  shows "\<exists>rels. add_to_define_relationships E s = (Inr (), emitted s rels)
              \<and> map sdo_args rels = resolved_edges (ids s) (relationships_to_define s)
              \<and> list_all (\<lambda>r. sdo_class r = ''Relationship'') rels"
  unfolding add_to_define_relationships_def by (rule to_define_table[OF assms])

theorem to_define_edges_are_the_resolved_ones_witness:
  "fst (add_to_define_relationships example_env example_registry_state) = Inr ()
   \<and> map sdo_args (SDOs (snd (add_to_define_relationships example_env example_registry_state)))
     = [[(''source_ref'', JStr ''indicator--o1''), (''target_ref'', JStr ''observed-data--o2''),
         (''interoperability'', JBool True), (''relationship_type'', JStr ''drops'')]]"
proof -
  have accepts: "\<And>args. construct example_env ''Relationship'' args = None"
    by (simp add: example_env_def example_construct_def)
  from to_define_edges_are_the_resolved_ones[OF accepts, of example_registry_state]
  obtain rels where
    r: "add_to_define_relationships example_env example_registry_state
          = (Inr (), emitted example_registry_state rels)"
    and m: "map sdo_args rels
          = resolved_edges (ids example_registry_state)
              (relationships_to_define example_registry_state)"
    by blast
  have e: "resolved_edges (ids example_registry_state)
              (relationships_to_define example_registry_state)
     = [[(''source_ref'', JStr ''indicator--o1''), (''target_ref'', JStr ''observed-data--o2''),
         (''interoperability'', JBool True), (''relationship_type'', JStr ''drops'')]]"
    by code_simp
  have n: "SDOs example_registry_state = []" by (simp add: example_registry_state_def init_def)
  show ?thesis using r m e n by (simp add: emitted_def)
qed

subsection \<open>Two references to one cluster\<close>

lemma add_galaxy_sdo_Inr:
  assumes "add_galaxy_sdo E cls sdo_type b_killchain b_alias galaxy s = (Inr (), s')"
  shows "\<exists>obj. SDOs s' = SDOs s @ [obj] \<and> sdo_class obj = cls \<and> galaxies s' = galaxies s
             \<and> relationships_defined s' = relationships_defined s"
  using assms unfolding add_galaxy_sdo_def
  by (auto elim!: bind_InrE dest!: new_object_Inr append_object_Inr simp: lift_def)

lemma add_course_of_action_Inr:
  assumes "add_course_of_action E galaxy s = (Inr (), s')"
  shows "\<exists>obj. SDOs s' = SDOs s @ [obj] \<and> sdo_class obj = ''CourseOfAction''
             \<and> galaxies s' = galaxies s \<and> relationships_defined s' = relationships_defined s"
  using assms unfolding add_course_of_action_def add_coa_stix_object_def
  by (auto elim!: bind_InrE dest!: new_object_Inr append_object_Inr simp: lift_def)

lemma add_vulnerability_from_galaxy_Inr:
  assumes "add_vulnerability_from_galaxy E galaxy s = (Inr (), s')"
  shows "\<exists>obj. SDOs s' = SDOs s @ [obj] \<and> sdo_class obj = ''Vulnerability''
             \<and> galaxies s' = galaxies s \<and> relationships_defined s' = relationships_defined s"
proof -
  from assms obtain oid args where
    "bind (new_object E ''Vulnerability'' oid args) (\<lambda>obj. append_object obj True) s = (Inr (), s')"
    by (auto simp: add_vulnerability_from_galaxy_def Let_def split: list.splits sum.splits if_splits)
  from new_append_Inr[OF this] show ?thesis by simp
qed

lemma call_galaxy_Inr:
  assumes "call_galaxy E call galaxy s = (Inr (), s')"
  shows "\<exists>obj. SDOs s' = SDOs s @ [obj] \<and> galaxies s' = galaxies s
             \<and> relationships_defined s' = relationships_defined s"
  using assms
  by (cases call)
     (auto dest!: add_vulnerability_from_galaxy_Inr add_course_of_action_Inr add_galaxy_sdo_Inr)

lemma length_defined_edges_add:
  "length (defined_edges (snd (add_defined source_id target s))) = Suc (length (defined_edges s))"
proof -
  have "\<And>al. length (concat (map (\<lambda>(source_id, targets). map (Pair source_id) targets)
     (AList.update source_id ((case map_of al source_id of None \<Rightarrow> [] | Some ts \<Rightarrow> ts) @ [target]) al)))
     = Suc (length (concat (map (\<lambda>(source_id, targets). map (Pair source_id) targets) al)))"
    subgoal for al by (induction al) auto
    done
  then show ?thesis by (simp add: defined_edges_def add_defined_def)
qed

lemma mem_defined_edges_add:
  "(source_id, target) \<in> set (defined_edges (snd (add_defined source_id target s)))"
proof -
  have "\<And>al. (source_id, target) \<in> set (concat (map (\<lambda>(source_id, targets). map (Pair source_id) targets)
     (AList.update source_id ((case map_of al source_id of None \<Rightarrow> [] | Some ts \<Rightarrow> ts) @ [target]) al)))"
    subgoal for al by (induction al) auto
    done
  then show ?thesis by (simp add: defined_edges_def add_defined_def)
qed

lemma add_defined_frame:
  "add_defined source_id target s = (Inr (), s') \<Longrightarrow>
     SDOs s' = SDOs s \<and> galaxies s' = galaxies s \<and> ids s' = ids s \<and> object_refs s' = object_refs s"
  by (auto simp: add_defined_def)

text \<open>
  Claim C3. Within one event, for a cluster identifier that was not seen yet and two
  galaxies of known families whose first cluster has that identifier: when the first
  reference is translated, it appends one object; the second reference only records an
  edge to the identifier and appends no object; and after both, two more edges are
  recorded, one from each source.
\<close>

theorem same_cluster_twice:
  assumes g1: "g_GalaxyCluster g1 = c1 # cs1" "c_collection_uuid c1 = Some u"
              "g_type g1 = Some t1" "galaxies_mapping t1 = Some (k1, m1)"
      and g2: "g_GalaxyCluster g2 = c2 # cs2" "c_collection_uuid c2 = Some u"
              "g_type g2 = Some t2" "galaxies_mapping t2 = Some (k2, m2)"
      and unseen: "u \<notin> set (galaxies s)"
      and first: "parse_galaxy E g1 source1 s = (Inr (), s1)"
  shows "(\<exists>obj. SDOs s1 = SDOs s @ [obj])
       \<and> parse_galaxy E g2 source2 s1 = add_defined source2 (k2 @ ''--'' @ u) s1
       \<and> SDOs (snd (parse_galaxy E g2 source2 s1)) = SDOs s1
       \<and> length (defined_edges (snd (parse_galaxy E g2 source2 s1)))
           = length (defined_edges s) + 2
       \<and> (source1, k1 @ ''--'' @ u) \<in> set (defined_edges s1)
       \<and> (source2, k2 @ ''--'' @ u) \<in> set (defined_edges (snd (parse_galaxy E g2 source2 s1)))"
proof -
  from first g1 unseen obtain sa where
    call: "call_galaxy E m1 g1 s = (Inr (), sa)"
    and s1: "s1 = snd (add_defined source1 (k1 @ ''--'' @ u) (sa\<lparr>galaxies := galaxies sa @ [u]\<rparr>))"
    by (auto simp: parse_galaxy_def add_defined_def elim!: bind_InrE)
  from call_galaxy_Inr[OF call] obtain obj where
    sa: "SDOs sa = SDOs s @ [obj]" "galaxies sa = galaxies s"
        "relationships_defined sa = relationships_defined s" by blast
  have one: "SDOs s1 = SDOs s @ [obj]" by (simp add: s1 sa add_defined_def)
  have seen: "u \<in> set (galaxies s1)" by (simp add: s1 sa add_defined_def)
  have second: "parse_galaxy E g2 source2 s1 = add_defined source2 (k2 @ ''--'' @ u) s1"
    using g2 seen by (simp add: parse_galaxy_def bind_def ret_def)
  have e1: "length (defined_edges s1) = Suc (length (defined_edges s))"
    using length_defined_edges_add[of source1 "k1 @ ''--'' @ u" "sa\<lparr>galaxies := galaxies sa @ [u]\<rparr>"]
    by (simp add: s1 sa defined_edges_def)
  have m1: "(source1, k1 @ ''--'' @ u) \<in> set (defined_edges s1)"
    unfolding s1 by (rule mem_defined_edges_add)
  show ?thesis
    using one second e1 m1 length_defined_edges_add[of source2 "k2 @ ''--'' @ u" s1]
      mem_defined_edges_add[of source2 "k2 @ ''--'' @ u" s1]
    by (simp add: add_defined_def)
qed

theorem same_cluster_twice_witness:
  "map sdo_class
     (SDOs (snd (parse_galaxy example_env (example_galaxy ''rat'' ''c1'') ''observed-data--a2''
              (snd (parse_galaxy example_env (example_galaxy ''tool'' ''c1'') ''indicator--a1''
                      example_started))))) = [''Tool'']
   \<and> length (defined_edges
       (snd (parse_galaxy example_env (example_galaxy ''rat'' ''c1'') ''observed-data--a2''
              (snd (parse_galaxy example_env (example_galaxy ''tool'' ''c1'') ''indicator--a1''
                      example_started)))))
     = length (defined_edges example_started) + 2
   \<and> defined_edges
       (snd (parse_galaxy example_env (example_galaxy ''rat'' ''c1'') ''observed-data--a2''
              (snd (parse_galaxy example_env (example_galaxy ''tool'' ''c1'') ''indicator--a1''
                      example_started))))
     = [(''indicator--a1'', ''tool--c1''), (''observed-data--a2'', ''tool--c1'')]"
proof -
  let ?g1 = "example_galaxy ''tool'' ''c1''" and ?g2 = "example_galaxy ''rat'' ''c1''"
  let ?s1 = "snd (parse_galaxy example_env ?g1 ''indicator--a1'' example_started)"
  have a1: "g_GalaxyCluster ?g1 = hd (g_GalaxyCluster ?g1) # []"
       "c_collection_uuid (hd (g_GalaxyCluster ?g1)) = Some ''c1''"
       "g_type ?g1 = Some ''tool''" "galaxies_mapping ''tool'' = Some (''tool'', Add_tool)"
    by (simp_all add: example_galaxy_def galaxies_mapping_def tool_galaxies_list_def)
  have a2: "g_GalaxyCluster ?g2 = hd (g_GalaxyCluster ?g2) # []"
       "c_collection_uuid (hd (g_GalaxyCluster ?g2)) = Some ''c1''"
       "g_type ?g2 = Some ''rat''" "galaxies_mapping ''rat'' = Some (''tool'', Add_tool)"
    by (simp_all add: example_galaxy_def galaxies_mapping_def tool_galaxies_list_def)
  have u: "''c1'' \<notin> set (galaxies example_started)"
    by (simp add: example_started_def begin_event_def init_def)
  have f: "fst (parse_galaxy example_env ?g1 ''indicator--a1'' example_started) = Inr ()"
    by code_simp
  then have first: "parse_galaxy example_env ?g1 ''indicator--a1'' example_started = (Inr (), ?s1)"
    by (simp add: prod_eq_iff)
  have c: "map sdo_class (SDOs (snd (parse_galaxy example_env ?g2 ''observed-data--a2'' ?s1)))
             = [''Tool'']"
    by code_simp
  have d: "defined_edges (snd (parse_galaxy example_env ?g2 ''observed-data--a2'' ?s1))
     = [(''indicator--a1'', ''tool--c1''), (''observed-data--a2'', ''tool--c1'')]"
    by code_simp
  show ?thesis
    using same_cluster_twice[OF a1 a2 u first, of "''observed-data--a2''"] c d by simp
qed

text \<open>
  In an event translated after one that referred to the cluster, two references to it
  give no object and two edges: the identifier is still in the seen set.
\<close>

theorem later_event_adds_no_object:
  "map_sum id (map sdo_class) (fst (handler strict_env twice_event init))
     = Inr [''Identity'', ''Report'', ''Tool'', ''Indicator'', ''ObservedData'',
            ''Relationship'', ''Relationship'']
   \<and> map_sum id (map sdo_class)
       (fst (handler strict_env twice_event (snd (handler strict_env first_event init))))
     = Inr [''Identity'', ''Report'', ''Indicator'', ''ObservedData'',
            ''Relationship'', ''Relationship'']
   \<and> defined_edges
       (snd (handler strict_env twice_event (snd (handler strict_env first_event init))))
     = [(''indicator--6b0d549b-6f03-475a-9600-a35a099950d3'',
         ''tool--a170b338-3926-4059-b28c-105d1fb17c23''),
        (''observed-data--6b0d549b-6f03-475a-9600-a35a099950d4'',
         ''tool--a170b338-3926-4059-b28c-105d1fb17c23'')]"
  by code_simp

subsection \<open>The kind of object an attribute becomes\<close>






subsection \<open>The kind of object a composite object becomes\<close>

lemma True_in_flags: "(True \<in> set (map fst xs)) = list_ex fst xs"
  by (induction xs) auto

lemma resolve_file_object_Inr:
  assumes "resolve_file_object E pe_uuid (to_ids_file, file_object) s = (Inr p, s')"
  shows "\<exists>u to_ids_pe pe_object before obj.
           (case find includes_pe (o_ObjectReference file_object) of
              Some reference \<Rightarrow> Some (r_referenced_uuid reference) | None \<Rightarrow> pe_uuid) = Some u
         \<and> map_of (parsed s ''pe'') u = Some (to_ids_pe, pe_object)
         \<and> SDOs s' = before @ [obj]
         \<and> sdo_class obj
             = (if to_ids_file \<or> to_ids_pe \<or> list_ex fst (resolved_sections s pe_object)
                then ''Indicator'' else ''ObservedData'')"
proof -
  let ?u = "case find includes_pe (o_ObjectReference file_object) of
              Some reference \<Rightarrow> Some (r_referenced_uuid reference) | None \<Rightarrow> pe_uuid"
  note d = assms[unfolded resolve_file_object_def Let_def, simplified]
  from d obtain u where u: "?u = Some u" by (cases ?u) auto
  from d u obtain to_ids_pe pe_object where pe: "map_of (parsed s ''pe'') u = Some (to_ids_pe, pe_object)"
    by (cases "map_of (parsed s ''pe'') u") auto
  let ?ind = "to_ids_file \<or> to_ids_pe \<or> list_ex fst (resolved_sections s pe_object)"
  have flags: "(True \<in> set ([to_ids_file, to_ids_pe] @ map fst (resolved_sections s pe_object))) = ?ind"
    by (force simp: list_ex_iff)
  show ?thesis
  proof (cases ?ind)
    case True
    from d u pe True flags obtain pa s1 where
      "add_object_indicator E file_object pa s1 = (Inr (), s')"
      by (auto elim!: bind_InrE simp: ret_def)
    from add_object_indicator_Inr[OF this] obtain before args where
      "SDOs s' = before @ [SDO ''Indicator'' (''indicator--'' @ o_uuid file_object) args]" by blast
    then show ?thesis using u pe True
      by (intro exI[of _ u] exI[of _ to_ids_pe] exI[of _ pe_object] exI[of _ before]
            exI[of _ "SDO ''Indicator'' (''indicator--'' @ o_uuid file_object) args"]) simp
  next
    case False
    from d u pe False flags obtain oa s1 where
      "add_object_observable E file_object oa s1 = (Inr (), s')"
      by (auto elim!: bind_InrE simp: ret_def)
    from add_object_observable_Inr[OF this] obtain before args where
      "SDOs s' = before @ [SDO ''ObservedData'' (''observed-data--'' @ o_uuid file_object) args]"
      by blast
    then show ?thesis using u pe False
      by (intro exI[of _ u] exI[of _ to_ids_pe] exI[of _ pe_object] exI[of _ before]
            exI[of _ "SDO ''ObservedData'' (''observed-data--'' @ o_uuid file_object) args"]) simp
  qed
qed

lemma fetch_ids_flag_iff: "fetch_ids_flag attributes = (\<exists>a \<in> set attributes. a_to_ids a)"
  by (simp add: fetch_ids_flag_def list_ex_iff)

lemma populate_stores:
  "map_of (parsed (snd (populate_objects_to_parse misp_object flag s)) (o_name misp_object))
     (o_uuid misp_object) = Some (flag, misp_object)"
  by (simp add: populate_objects_to_parse_def parsed_def update_conv')

text \<open>
  Claim C5, as the code has it. The flag of an object is the disjunction of its attributes'
  \<^verbatim>\<open>to_ids\<close>. An object routed to \<^verbatim>\<open>handle_usual_object_name\<close> and translated without
  falling back to the custom wrapper becomes an \<^verbatim>\<open>Indicator\<close> when the flag is true or
  its name is \<^verbatim>\<open>stix2-pattern\<close>, and an \<^verbatim>\<open>ObservedData\<close> otherwise. A file that refers
  to an embedded executable is held back with its flag, and when the family is resolved
  the decision is the disjunction of the flags of the file, of the embedded executable and
  of every resolved section.
\<close>

theorem object_kind_follows_the_flags:
  "fetch_ids_flag attributes = (\<exists>a \<in> set attributes. a_to_ids a)
   \<and> (o_name misp_object \<noteq> ''original-imported-file''
        \<and> objectsMapping_to_call E (o_name misp_object) = Some Handle_usual_object_name
        \<and> \<not> (o_name misp_object = ''file'' \<and> list_ex includes_pe (o_ObjectReference misp_object))
        \<and> (if fetch_ids_flag (o_Attribute misp_object) \<or> o_name misp_object = ''stix2-pattern''
            then add_object_indicator E misp_object None
            else add_object_observable E misp_object None) s = (Inr (), s')
      \<longrightarrow> fst (handle_object E misp_object s) = Inr ()
        \<and> SDOs (snd (handle_object E misp_object s)) = SDOs s'
        \<and> (\<exists>before obj.
              SDOs s' = before @ [obj]
            \<and> sdo_class obj
                = (if fetch_ids_flag (o_Attribute misp_object)
                      \<or> o_name misp_object = ''stix2-pattern''
                   then ''Indicator'' else ''ObservedData'')))
   \<and> (o_name misp_object = ''file'' \<and> list_ex includes_pe (o_ObjectReference misp_object)
      \<longrightarrow> handle_usual_object_name E misp_object to_ids s
            = populate_objects_to_parse misp_object to_ids s)
   \<and> map_of (parsed (snd (populate_objects_to_parse misp_object to_ids s)) (o_name misp_object))
        (o_uuid misp_object) = Some (to_ids, misp_object)
   \<and> (resolve_file_object E pe_uuid (to_ids_file, file_object) s = (Inr p, s')
      \<longrightarrow> (\<exists>u to_ids_pe pe_object before obj.
             (case find includes_pe (o_ObjectReference file_object) of
                Some reference \<Rightarrow> Some (r_referenced_uuid reference) | None \<Rightarrow> pe_uuid) = Some u
           \<and> map_of (parsed s ''pe'') u = Some (to_ids_pe, pe_object)
           \<and> SDOs s' = before @ [obj]
           \<and> sdo_class obj
               = (if to_ids_file \<or> to_ids_pe \<or> list_ex fst (resolved_sections s pe_object)
                  then ''Indicator'' else ''ObservedData'')))"
proof (intro conjI impI)
  show "fetch_ids_flag attributes = (\<exists>a \<in> set attributes. a_to_ids a)"
    by (rule fetch_ids_flag_iff)
next
  let ?flag = "fetch_ids_flag (o_Attribute misp_object)"
  assume a: "o_name misp_object \<noteq> ''original-imported-file''
        \<and> objectsMapping_to_call E (o_name misp_object) = Some Handle_usual_object_name
        \<and> \<not> (o_name misp_object = ''file'' \<and> list_ex includes_pe (o_ObjectReference misp_object))
        \<and> (if ?flag \<or> o_name misp_object = ''stix2-pattern''
            then add_object_indicator E misp_object None
            else add_object_observable E misp_object None) s = (Inr (), s')"
  then have typed: "(if ?flag \<or> o_name misp_object = ''stix2-pattern''
            then add_object_indicator E misp_object None
            else add_object_observable E misp_object None) s = (Inr (), s')" by simp
  have "handle_usual_object_name E misp_object ?flag s
          = try_except
              (if ?flag \<or> o_name misp_object = ''stix2-pattern''
               then add_object_indicator E misp_object None
               else add_object_observable E misp_object None)
              (\<lambda>e. True) (add_object_custom E misp_object ?flag) s"
    using a by (auto simp: handle_usual_object_name_def Let_def)
  also have "\<dots> = (Inr (), s')" using typed by (rule try_except_Inr)
  finally have u: "handle_usual_object_name E misp_object ?flag s = (Inr (), s')" .
  have t: "try_except (handle_usual_object_name E misp_object ?flag) (\<lambda>e. e = KeyError)
             (add_object_custom E misp_object ?flag) s = (Inr (), s')"
    using u by (rule try_except_Inr)
  have h: "handle_object E misp_object s
             = (Inr (), if o_ObjectReference misp_object \<noteq> []
                        then s'\<lparr>relationships_to_define :=
                                 AList.update (o_uuid misp_object)
                                   (map (\<lambda>r. (r_referenced_uuid r, r_relationship_type r))
                                      (o_ObjectReference misp_object))
                                   (relationships_to_define s')\<rparr>
                        else s')"
    using a t by (simp add: handle_object_def Let_def bind_def)
  show "fst (handle_object E misp_object s) = Inr ()" by (simp add: h)
  show "SDOs (snd (handle_object E misp_object s)) = SDOs s'" by (simp add: h)
  show "\<exists>before obj.
              SDOs s' = before @ [obj]
            \<and> sdo_class obj = (if ?flag \<or> o_name misp_object = ''stix2-pattern''
                               then ''Indicator'' else ''ObservedData'')"
  proof (cases "?flag \<or> o_name misp_object = ''stix2-pattern''")
    case True
    then have "add_object_indicator E misp_object None s = (Inr (), s')" using typed by simp
    from add_object_indicator_Inr[OF this] obtain before args where
      "SDOs s' = before @ [SDO ''Indicator'' (''indicator--'' @ o_uuid misp_object) args]" by blast
    then show ?thesis using True
      by (intro exI[of _ before]
            exI[of _ "SDO ''Indicator'' (''indicator--'' @ o_uuid misp_object) args"]) simp
  next
    case False
    then have "add_object_observable E misp_object None s = (Inr (), s')" using typed by simp
    from add_object_observable_Inr[OF this] obtain before args where
      "SDOs s' = before @ [SDO ''ObservedData'' (''observed-data--'' @ o_uuid misp_object) args]"
      by blast
    then show ?thesis using False
      by (intro exI[of _ before]
            exI[of _ "SDO ''ObservedData'' (''observed-data--'' @ o_uuid misp_object) args"]) simp
  qed
next
  assume "o_name misp_object = ''file'' \<and> list_ex includes_pe (o_ObjectReference misp_object)"
  then show "handle_usual_object_name E misp_object to_ids s
            = populate_objects_to_parse misp_object to_ids s"
    by (simp add: handle_usual_object_name_def)
next
  show "map_of (parsed (snd (populate_objects_to_parse misp_object to_ids s)) (o_name misp_object))
        (o_uuid misp_object) = Some (to_ids, misp_object)"
    by (rule populate_stores)
next
  assume "resolve_file_object E pe_uuid (to_ids_file, file_object) s = (Inr p, s')"
  then show "\<exists>u to_ids_pe pe_object before obj.
             (case find includes_pe (o_ObjectReference file_object) of
                Some reference \<Rightarrow> Some (r_referenced_uuid reference) | None \<Rightarrow> pe_uuid) = Some u
           \<and> map_of (parsed s ''pe'') u = Some (to_ids_pe, pe_object)
           \<and> SDOs s' = before @ [obj]
           \<and> sdo_class obj
               = (if to_ids_file \<or> to_ids_pe \<or> list_ex fst (resolved_sections s pe_object)
                  then ''Indicator'' else ''ObservedData'')"
    by (rule resolve_file_object_Inr)
qed

theorem object_kind_follows_the_flags_witness:
  "fetch_ids_flag (o_Attribute example_flagged_section)
   \<and> fst (handle_object example_env example_plain_file example_started) = Inr ()
   \<and> map sdo_class (SDOs (snd (handle_object example_env example_plain_file example_started)))
       = [''ObservedData'']
   \<and> handle_usual_object_name example_env example_file False example_started
       = populate_objects_to_parse example_file False example_started
   \<and> map_of (parsed (snd (populate_objects_to_parse example_file False example_started)) ''file'')
       ''f1'' = Some (False, example_file)
   \<and> list_ex fst (resolved_sections example_held example_pe_with_sections)
   \<and> sdo_class
       (last (SDOs (snd (resolve_file_object example_env None (False, example_file)
                           example_held))))
       = ''Indicator''"
proof -
  let ?s1 = "snd (add_object_observable example_env example_plain_file None example_started)"
  let ?s2 = "snd (resolve_file_object example_env None (False, example_file) example_held)"
  let ?p = "fst (resolve_file_object example_env None (False, example_file) example_held)"
  have flagged: "\<exists>a \<in> set (o_Attribute example_flagged_section). a_to_ids a"
    by (simp add: example_flagged_section_def example_object_def example_attribute_def)
  have n: "o_name example_plain_file = ''file''" "o_uuid example_file = ''f1''"
          "o_name example_file = ''file''"
    by (simp_all add: example_plain_file_def example_file_def example_object_def)
  have plain: "o_name example_plain_file \<noteq> ''original-imported-file''
      \<and> objectsMapping_to_call example_env (o_name example_plain_file)
          = Some Handle_usual_object_name
      \<and> \<not> (o_name example_plain_file = ''file''
           \<and> list_ex includes_pe (o_ObjectReference example_plain_file))
      \<and> (if fetch_ids_flag (o_Attribute example_plain_file)
             \<or> o_name example_plain_file = ''stix2-pattern''
          then add_object_indicator example_env example_plain_file None
          else add_object_observable example_env example_plain_file None) example_started
        = (Inr (), ?s1)"
    by code_simp
  have observed: "map sdo_class (SDOs ?s1) = [''ObservedData'']" by code_simp
  have deferred: "o_name example_file = ''file''
      \<and> list_ex includes_pe (o_ObjectReference example_file)"
    by code_simp
  have r: "?p = Inr (Some ''p1'')" by code_simp
  then have resolved: "resolve_file_object example_env None (False, example_file) example_held
                = (Inr (Some ''p1''), ?s2)"
    by (simp add: prod_eq_iff)
  have held: "(case find includes_pe (o_ObjectReference example_file) of
                 Some reference \<Rightarrow> Some (r_referenced_uuid reference) | None \<Rightarrow> None)
               = Some ''p1''"
             "map_of (parsed example_held ''pe'') ''p1'' = Some (False, example_pe_with_sections)"
    by code_simp+
  have sections: "list_ex fst (resolved_sections example_held example_pe_with_sections)"
    by code_simp
  note A = object_kind_follows_the_flags[of "o_Attribute example_flagged_section"
             example_plain_file example_env example_started ?s1]
  note B = object_kind_follows_the_flags[of _ example_file example_env example_started _ False]
  note C = object_kind_follows_the_flags[of _ _ example_env example_held ?s2 _ None False
             example_file "Some ''p1''"]
  have c1: "fetch_ids_flag (o_Attribute example_flagged_section)"
    using A flagged by blast
  have c2: "fst (handle_object example_env example_plain_file example_started) = Inr ()
            \<and> SDOs (snd (handle_object example_env example_plain_file example_started))
                = SDOs ?s1"
    using A plain by blast
  have c3: "handle_usual_object_name example_env example_file False example_started
              = populate_objects_to_parse example_file False example_started"
    using B deferred by blast
  have c4: "map_of (parsed (snd (populate_objects_to_parse example_file False example_started))
                      ''file'') ''f1'' = Some (False, example_file)"
    using B n by metis
  from C resolved obtain u to_ids_pe pe_object before obj where
    k: "(case find includes_pe (o_ObjectReference example_file) of
           Some reference \<Rightarrow> Some (r_referenced_uuid reference) | None \<Rightarrow> None) = Some u"
       "map_of (parsed example_held ''pe'') u = Some (to_ids_pe, pe_object)"
       "SDOs ?s2 = before @ [obj]"
       "sdo_class obj
          = (if False \<or> to_ids_pe \<or> list_ex fst (resolved_sections example_held pe_object)
             then ''Indicator'' else ''ObservedData'')"
    by blast
  from k(1) held(1) have "u = ''p1''" by simp
  with k(2) held(2) have "pe_object = example_pe_with_sections" by simp
  with k(3,4) sections have c5: "sdo_class (last (SDOs ?s2)) = ''Indicator''" by simp
  show ?thesis using c1 c2 c3 c4 c5 observed sections by simp
qed

text \<open>
  A course of action with a flagged attribute is translated by the method the table names
  for it and becomes a \<^verbatim>\<open>CourseOfAction\<close>, not an \<^verbatim>\<open>Indicator\<close>. A \<^verbatim>\<open>stix2-pattern\<close> object
  with no flagged attribute is given to the indicator builder, not to the one of observed
  data; the characters of its pattern are joined by \<^verbatim>\<open> AND \<close>, the indicator is
  refused, so is the custom wrapper, and the translation of the event ends with the error.
\<close>

theorem object_kind_counterexample:
  "fetch_ids_flag (o_Attribute (hd (e_Object course_of_action_event)))
   \<and> map_sum id (map sdo_class) (fst (handler strict_env course_of_action_event init))
       = Inr [''Identity'', ''Report'', ''CourseOfAction'']
   \<and> \<not> fetch_ids_flag (o_Attribute (hd (e_Object pattern_object_event)))
   \<and> fst (add_object_observable strict_env (hd (e_Object pattern_object_event)) None init)
       = Inl KeyError
   \<and> fst (add_object_indicator strict_env (hd (e_Object pattern_object_event)) None init)
       = Inl InvalidValueError
   \<and> fst (handler strict_env pattern_object_event init) = Inl StixError
   \<and> map sdo_class (SDOs (snd (handler strict_env pattern_object_event init)))
       = [''Identity'']"
  by code_simp

subsection \<open>The directory of a file\<close>

lemma str_nat_inj: "str_nat m = str_nat n \<Longrightarrow> m = n"
proof -
  assume "str_nat m = str_nat n"
  then have "int_of_string (str_nat m) = int_of_string (str_nat n)" by simp
  then show "m = n" by (simp add: int_of_string_str_nat)
qed

lemma str_nat_0: "str_nat 0 = ''0''"
  by code_simp

lemma str_nat_pos: "1 \<le> n \<Longrightarrow> (''0'' = str_nat n) = False"
  using str_nat_inj[of n 0] by (auto simp: str_nat_0)

lemma map_of_update_paths:
  "map_of (update_paths d) ''path'' = Some (JList [JStr ''/home/chrisr3d/git/''])"
  "map_of (update_paths d) ''fullpath''
     = Some (JList [JStr ''/home/chrisr3d/git/MISP/cleanMISP/app/files/scripts/stix2''])"
  by (simp_all add: update_paths_def update_conv')

lemma file_step_filename_Inr:
  "file_step_filename d (observable, fo, n) = Inr vars
   \<Longrightarrow> \<exists>fo1. vars = (observable, fo1, n)"
  by (auto simp: file_step_filename_def Let_def dest!: sbind_Inr
           split: option.splits jv.splits list.splits if_splits)

lemma file_step_path_fixed:
  "file_step_path (update_paths d) ([], fo, 0)
     = Inr ([(''0'', JDict [(''type'', JStr ''directory''),
                            (''path'', JStr ''/home/chrisr3d/git/'')])],
            AList.update ''parent_directory_ref'' (JStr ''0'') fo, 1)"
  by (simp add: file_step_path_def map_of_update_paths str_nat_0)

lemma file_step_fullpath_fixed:
  "file_step_fullpath (update_paths d)
     (observable, AList.update ''parent_directory_ref'' (JStr ''0'') fo, n)
     = Inr (observable,
            AList.update ''x_misp_multiple_fullpath''
              (JStr ''/home/chrisr3d/git/MISP/cleanMISP/app/files/scripts/stix2'')
              (AList.update ''parent_directory_ref'' (JStr ''0'') fo), n)"
  by (simp add: file_step_fullpath_def map_of_update_paths map_of_update_same
        handle_multiple_file_fields_observable_def sbind_def)

lemma file_step_malware_sample_Inr:
  "file_step_malware_sample d (observable, fo, n) = Inr (observable1, fo1, n1)
   \<Longrightarrow> 1 \<le> n \<Longrightarrow> map_of observable ''0'' = Some v
   \<Longrightarrow> 1 \<le> n1 \<and> map_of observable1 ''0'' = Some v"
  by (auto simp: file_step_malware_sample_def update_conv' str_nat_pos dest!: sbind_Inr
           split: option.splits jv.splits list.splits if_splits prod.splits)

lemma file_step_attachment_Inr:
  "file_step_attachment d (observable, fo, n) = Inr (observable1, fo1, n1)
   \<Longrightarrow> 1 \<le> n \<Longrightarrow> map_of observable ''0'' = Some v
   \<Longrightarrow> 1 \<le> n1 \<and> map_of observable1 ''0'' = Some v"
  by (auto simp: file_step_attachment_def update_conv' str_nat_pos dest!: sbind_Inr
           split: option.splits prod.splits)

lemma file_observable_of_fixed:
  assumes "file_observable_of E (update_paths d) = Inr observable"
  shows "map_of observable ''0''
           = Some (JDict [(''type'', JStr ''directory''),
                          (''path'', JStr ''/home/chrisr3d/git/'')])"
proof -
  let ?dir = "JDict [(''type'', JStr ''directory''), (''path'', JStr ''/home/chrisr3d/git/'')]"
  let ?d = "update_paths d"
  let ?last = "\<lambda>(observable, file_observable1, n_object).
                 (Inr (AList.update (str_nat n_object) (JDict file_observable1) observable)
                    :: error + (string \<times> jv) list)"
  from assms obtain fo where
    r1: "sbind (file_step_filename ?d ([], fo, 0))
           (\<lambda>vars1. sbind (file_step_path ?d vars1)
           (\<lambda>vars2. sbind (file_step_fullpath ?d vars2)
           (\<lambda>vars3. sbind (file_step_malware_sample ?d vars3)
           (\<lambda>vars4. sbind (file_step_attachment ?d vars4) ?last)))) = Inr observable"
    unfolding file_observable_of_def by (blast dest: sbind_Inr)
  from sbind_Inr[OF r1] obtain vars1 where
    f: "file_step_filename ?d ([], fo, 0) = Inr vars1"
    and r2: "sbind (file_step_path ?d vars1)
           (\<lambda>vars2. sbind (file_step_fullpath ?d vars2)
           (\<lambda>vars3. sbind (file_step_malware_sample ?d vars3)
           (\<lambda>vars4. sbind (file_step_attachment ?d vars4) ?last))) = Inr observable"
    by blast
  from file_step_filename_Inr[OF f] obtain fo1 where v1: "vars1 = ([], fo1, 0)" by blast
  let ?fo3 = "AList.update ''x_misp_multiple_fullpath''
                (JStr ''/home/chrisr3d/git/MISP/cleanMISP/app/files/scripts/stix2'')
                (AList.update ''parent_directory_ref'' (JStr ''0'') fo1)"
  have r4: "sbind (file_step_malware_sample ?d ([(''0'', ?dir)], ?fo3, 1))
              (\<lambda>vars4. sbind (file_step_attachment ?d vars4) ?last) = Inr observable"
    using r2 unfolding v1 file_step_path_fixed
    by (simp add: sbind_def file_step_fullpath_fixed)
  from sbind_Inr[OF r4] obtain o4 fo4 n4 where
    m: "file_step_malware_sample ?d ([(''0'', ?dir)], ?fo3, 1) = Inr (o4, fo4, n4)"
    and r5: "sbind (file_step_attachment ?d (o4, fo4, n4)) ?last = Inr observable"
    by (metis prod_cases3)
  from file_step_malware_sample_Inr[OF m, of ?dir]
  have i4: "1 \<le> n4" "map_of o4 ''0'' = Some ?dir" by simp_all
  from sbind_Inr[OF r5] obtain o5 fo5 n5 where
    a: "file_step_attachment ?d (o4, fo4, n4) = Inr (o5, fo5, n5)"
    and r6: "observable = AList.update (str_nat n5) (JDict fo5) o5"
    by (metis (no_types, lifting) prod_cases3 case_prod_conv sum.inject(2))
  from file_step_attachment_Inr[OF a i4]
  have i5: "1 \<le> n5" "map_of o5 ''0'' = Some ?dir" by simp_all
  show ?thesis using i5 unfolding r6 by (simp add: update_conv' str_nat_pos)
qed

lemma file_patterns_of_fixed:
  assumes "file_patterns_of E (update_paths d) = Inr patterns"
  shows "\<exists>before after.
           patterns = before
             @ [file_clause E ''parent_directory_ref.path'' (JStr ''/home/chrisr3d/git/''),
                file_clause E ''parent_directory_ref.path''
                  (JStr ''/home/chrisr3d/git/MISP/cleanMISP/app/files/scripts/stix2'')]
             @ after"
proof -
  let ?d = "update_paths d"
  have p: "handle_multiple_file_fields_pattern E ?d ''path'' ''parent_directory_ref.path''
             = Inr [file_clause E ''parent_directory_ref.path'' (JStr ''/home/chrisr3d/git/'')]"
          "handle_multiple_file_fields_pattern E ?d ''fullpath'' ''parent_directory_ref.path''
             = Inr [file_clause E ''parent_directory_ref.path''
                      (JStr ''/home/chrisr3d/git/MISP/cleanMISP/app/files/scripts/stix2'')]"
    by (simp_all add: handle_multiple_file_fields_pattern_def map_of_update_paths)
  from assms obtain p1 p4 p5 where
    "patterns = file_mapping_patterns E ?d (fileMapping E)
       @ p1 @ [file_clause E ''parent_directory_ref.path'' (JStr ''/home/chrisr3d/git/'')]
       @ [file_clause E ''parent_directory_ref.path''
            (JStr ''/home/chrisr3d/git/MISP/cleanMISP/app/files/scripts/stix2'')] @ p4 @ p5"
    unfolding file_patterns_of_def p
    by (auto simp: sbind_def split: sum.splits)
  then show ?thesis
    by (intro exI[of _ "file_mapping_patterns E ?d (fileMapping E) @ p1"] exI[of _ "p4 @ p5"])
       simp
qed

lemma resolve_file_observable_Inr:
  "resolve_file_observable E attributes object_id s = (Inr observable, s')
   \<Longrightarrow> file_observable_of E (update_paths (file_attributes_dict attributes)) = Inr observable"
  by (auto simp: resolve_file_observable_def create_file_attributes_dict_def lift_def ret_def
           elim!: bind_InrE)

lemma resolve_file_pattern_Inr:
  "resolve_file_pattern E attributes object_id s = (Inr patterns, s')
   \<Longrightarrow> file_patterns_of E (update_paths (file_attributes_dict attributes)) = Inr patterns"
  by (auto simp: resolve_file_pattern_def create_file_attributes_dict_def lift_def ret_def
           elim!: bind_InrE)

text \<open>
  Claim C9. Whatever the attributes of the file object, when the observable builder
  returns, the directory of its result has the path \<^verbatim>\<open>/home/chrisr3d/git/\<close>, and when the
  pattern builder returns, its \<^verbatim>\<open>parent_directory_ref.path\<close> clauses are those of that
  path and of the fixed full path: the values of the input's \<^verbatim>\<open>path\<close> and \<^verbatim>\<open>fullpath\<close>
  attributes are overwritten before they are read.
\<close>

theorem file_paths_are_fixed:
  "(resolve_file_observable E attributes object_id s = (Inr observable, s1)
      \<longrightarrow> map_of observable ''0''
            = Some (JDict [(''type'', JStr ''directory''),
                           (''path'', JStr ''/home/chrisr3d/git/'')]))
   \<and> (resolve_file_pattern E attributes object_id s = (Inr patterns, s2)
      \<longrightarrow> (\<exists>before after.
             patterns = before
               @ [file_clause E ''parent_directory_ref.path'' (JStr ''/home/chrisr3d/git/''),
                  file_clause E ''parent_directory_ref.path''
                    (JStr ''/home/chrisr3d/git/MISP/cleanMISP/app/files/scripts/stix2'')]
               @ after))"
  using file_observable_of_fixed[OF resolve_file_observable_Inr]
        file_patterns_of_fixed[OF resolve_file_pattern_Inr]
  by blast

theorem file_paths_are_fixed_witness:
  "map_of (file_attributes_dict (o_Attribute example_file)) ''path''
     = Some (JList [JStr ''/tmp/dropped''])
   \<and> fst (resolve_file_observable example_env (o_Attribute example_file) ''f1'' example_started)
     = Inr [(''0'', JDict [(''type'', JStr ''directory''),
                           (''path'', JStr ''/home/chrisr3d/git/'')]),
            (''1'', JDict [(''type'', JStr ''file''), (''name'', JStr ''a.exe''),
                           (''parent_directory_ref'', JStr ''0''),
                           (''x_misp_multiple_fullpath'',
                            JStr ''/home/chrisr3d/git/MISP/cleanMISP/app/files/scripts/stix2'')])]
   \<and> fst (resolve_file_pattern example_env (o_Attribute example_file) ''f1'' example_started)
     = Inr [''file:name = '' @ quoted ''a.exe'',
            ''file:parent_directory_ref.path = '' @ quoted ''/home/chrisr3d/git/'',
            ''file:parent_directory_ref.path = ''
              @ quoted ''/home/chrisr3d/git/MISP/cleanMISP/app/files/scripts/stix2'']"
proof -
  let ?o = "resolve_file_observable example_env (o_Attribute example_file) ''f1'' example_started"
  let ?p = "resolve_file_pattern example_env (o_Attribute example_file) ''f1'' example_started"
  have input: "map_of (file_attributes_dict (o_Attribute example_file)) ''path''
                 = Some (JList [JStr ''/tmp/dropped''])"
    by code_simp
  have o: "fst ?o
     = Inr [(''0'', the (map_of (projr (fst ?o)) ''0'')),
            (''1'', JDict [(''type'', JStr ''file''), (''name'', JStr ''a.exe''),
                           (''parent_directory_ref'', JStr ''0''),
                           (''x_misp_multiple_fullpath'',
                            JStr ''/home/chrisr3d/git/MISP/cleanMISP/app/files/scripts/stix2'')])]"
    by code_simp
  have p: "fst ?p
     = Inr [''file:name = '' @ quoted ''a.exe'',
            ''file:parent_directory_ref.path = '' @ quoted ''/home/chrisr3d/git/'',
            ''file:parent_directory_ref.path = ''
              @ quoted ''/home/chrisr3d/git/MISP/cleanMISP/app/files/scripts/stix2'']"
    by code_simp
  from o obtain x where x: "fst ?o = Inr x" by blast
  from p obtain y where y: "fst ?p = Inr y" by blast
  have so: "?o = (Inr x, snd ?o)" using x by (simp add: prod_eq_iff)
  have sp: "?p = (Inr y, snd ?p)" using y by (simp add: prod_eq_iff)
  from file_paths_are_fixed[of example_env "o_Attribute example_file" "''f1''" example_started
         x "snd ?o" y "snd ?p"] so sp
  have "map_of x ''0''
          = Some (JDict [(''type'', JStr ''directory''),
                         (''path'', JStr ''/home/chrisr3d/git/'')])"
    by blast
  then have d: "the (map_of (projr (fst ?o)) ''0'')
          = JDict [(''type'', JStr ''directory''), (''path'', JStr ''/home/chrisr3d/git/'')]"
    by (simp add: x)
  have "fst ?o
     = Inr [(''0'', JDict [(''type'', JStr ''directory''),
                           (''path'', JStr ''/home/chrisr3d/git/'')]),
            (''1'', JDict [(''type'', JStr ''file''), (''name'', JStr ''a.exe''),
                           (''parent_directory_ref'', JStr ''0''),
                           (''x_misp_multiple_fullpath'',
                            JStr ''/home/chrisr3d/git/MISP/cleanMISP/app/files/scripts/stix2'')])]"
    by (rule trans[OF o]) (simp only: d)
  then show ?thesis using input p by simp
qed

subsection \<open>What the translation of an event starts from\<close>

text \<open>
  No method of the builder removes a cluster identifier from the seen set, or a key from
  the identifier registry or from the cache of custom classes, whether it returns or
  raises.
\<close>

lemma kept_refl: "kept s s"
  by (simp add: kept_def)

lemma kept_trans: "kept s s1 \<Longrightarrow> kept s1 s2 \<Longrightarrow> kept s s2"
  unfolding kept_def by blast

lemma keepsD: "keeps m \<Longrightarrow> kept s (snd (m s))"
  by (simp add: keeps_def)

lemma keepsI: "(\<And>s. kept s (snd (m s))) \<Longrightarrow> keeps m"
  by (simp add: keeps_def)

lemma kept_frame:
  "kept s (s'\<lparr>SDOs := a\<rparr>) = kept s s'"
  "kept s (s'\<lparr>object_refs := b\<rparr>) = kept s s'"
  "kept s (s'\<lparr>links := c\<rparr>) = kept s s'"
  "kept s (s'\<lparr>markings := d\<rparr>) = kept s s'"
  "kept s (s'\<lparr>relationships_defined := e\<rparr>) = kept s s'"
  "kept s (s'\<lparr>relationships_to_define := f\<rparr>) = kept s s'"
  "kept s (s'\<lparr>objects_to_parse := g\<rparr>) = kept s s'"
  "kept s (s'\<lparr>uuid_calls := h\<rparr>) = kept s s'"
  "kept s (s'\<lparr>builder_state := i\<rparr>) = kept s s'"
  "kept s (s'\<lparr>identity_id := j\<rparr>) = kept s s'"
  "kept s (s'\<lparr>orgs := k\<rparr>) = kept s s'"
  "kept s (s'\<lparr>misp_event := l\<rparr>) = kept s s'"
  "kept s (s'\<lparr>report_id := m\<rparr>) = kept s s'"
  by (simp_all add: kept_def)

lemma kept_grows:
  "kept s s' \<Longrightarrow> kept s (s'\<lparr>ids := AList.update k v (ids s')\<rparr>)"
  "kept s s' \<Longrightarrow> kept s (s'\<lparr>galaxies := galaxies s' @ [u]\<rparr>)"
  "kept s s' \<Longrightarrow> kept s (s'\<lparr>custom_objects := AList.update n c (custom_objects s')\<rparr>)"
  unfolding kept_def by (auto simp: dom_update)

lemma keeps_ret: "keeps (ret x)"
  by (simp add: keeps_def ret_def kept_refl)

lemma keeps_raise: "keeps (raise e)"
  by (simp add: keeps_def raise_def kept_refl)

lemma keeps_lift: "keeps (lift r)"
  by (simp add: keeps_def lift_def kept_refl)

lemma keeps_pure: "keeps (\<lambda>s. (r s, s))"
  by (simp add: keeps_def kept_refl)

lemma keeps_bind:
  assumes "keeps m" and "\<And>x. keeps (f x)"
  shows "keeps (bind m f)"
proof (rule keepsI)
  fix s :: builder
  obtain r s1 where m: "m s = (r, s1)" by (cases "m s")
  have k1: "kept s s1" using keepsD[OF assms(1), of s] m by simp
  show "kept s (snd (bind m f s))"
  proof (cases r)
    case (Inl e)
    then show ?thesis using m k1 by (simp add: bind_def)
  next
    case (Inr x)
    have "kept s1 (snd (f x s1))" using assms(2) by (rule keepsD)
    then show ?thesis using m Inr k1 by (simp add: bind_def kept_trans)
  qed
qed

lemma keeps_try_except:
  assumes "keeps m" and "keeps h"
  shows "keeps (try_except m caught h)"
proof (rule keepsI)
  fix s :: builder
  obtain r s1 where m: "m s = (r, s1)" by (cases "m s")
  have k1: "kept s s1" using keepsD[OF assms(1), of s] m by simp
  have k2: "kept s1 (snd (h s1))" using assms(2) by (rule keepsD)
  show "kept s (snd (try_except m caught h s))"
    using m k1 kept_trans[OF k1 k2] by (cases r) (simp_all add: try_except_def)
qed

lemma kept_for_each: "(\<And>x. x \<in> set xs \<Longrightarrow> keeps (f x)) \<Longrightarrow> kept s (snd (for_each xs f s))"
proof (induction xs arbitrary: s)
  case Nil
  show ?case by (simp add: kept_refl)
next
  case (Cons x xs)
  have k: "kept s (snd (f x s))" using Cons.prems by (simp add: keepsD)
  show ?case
  proof (cases "f x s")
    case (Pair r s1)
    with k have k1: "kept s s1" by simp
    show ?thesis
    proof (cases r)
      case (Inl e)
      then show ?thesis using Pair k1 by simp
    next
      case (Inr u)
      have "kept s1 (snd (for_each xs f s1))" using Cons.IH Cons.prems by simp
      then show ?thesis using Pair Inr k1 by (simp add: kept_trans)
    qed
  qed
qed

lemma keeps_for_each: "(\<And>x. keeps (f x)) \<Longrightarrow> keeps (for_each xs f)"
  by (simp add: keeps_def kept_for_each)

lemma keeps_lift_of: "keeps (\<lambda>s. lift (r s) s)"
  by (simp add: keeps_def lift_def kept_refl)

lemma keeps_append_object: "keeps (append_object obj flag)"
  by (auto simp: keeps_def append_object_def Let_def kept_def dom_update split: list.splits)

lemma keeps_new_object: "keeps (new_object E cls oid args)"
  by (auto simp: keeps_def new_object_def kept_refl split: option.splits)

lemma keeps_same:
  "galaxies (snd (m s)) = galaxies s \<Longrightarrow> ids (snd (m s)) = ids s
   \<Longrightarrow> custom_objects (snd (m s)) = custom_objects s \<Longrightarrow> kept s (snd (m s))"
  by (simp add: kept_def)

lemma keeps_create_marking: "keeps (create_marking E tag)"
  by (rule keepsI, rule keeps_same)
     (simp_all add: create_marking_def Let_def split: option.split list.split)

lemma keeps_resolve_tag: "keeps (resolve_tag E tag)"
  using keeps_create_marking[of E tag]
  by (simp add: keeps_def resolve_tag_def kept_refl split: option.split)

lemma kept_handle_tags: "kept s (snd (handle_tags E tags s))"
proof (induction tags arbitrary: s)
  case Nil
  show ?case by (simp add: kept_refl)
next
  case (Cons tag tags)
  have k: "kept s (snd (resolve_tag E tag s))" by (simp add: keepsD keeps_resolve_tag)
  show ?case
  proof (cases "resolve_tag E tag s")
    case (Pair r s1)
    with k have k1: "kept s s1" by simp
    have k2: "kept s1 (snd (handle_tags E tags s1))" by (rule Cons.IH)
    show ?thesis using Pair k1 kept_trans[OF k1 k2]
      by (cases r; cases "handle_tags E tags s1") (simp_all split: sum.split)
  qed
qed

lemma keeps_handle_tags: "keeps (handle_tags E tags)"
  by (simp add: keeps_def kept_handle_tags)

lemma keeps_new_object_of: "keeps (\<lambda>s. new_object E cls oid (args s) s)"
  by (auto simp: keeps_def new_object_def kept_refl split: option.splits)

lemma keeps_add_all_markings: "keeps add_all_markings"
  by (rule keepsI) (simp add: add_all_markings_def kept_for_each keeps_append_object)

lemmas keeps_intros =
  keeps_ret keeps_raise keeps_lift keeps_bind keeps_try_except keeps_for_each
  keeps_append_object keeps_new_object keeps_handle_tags keeps_lift_of keeps_new_object_of

lemma keeps_add_galaxy_sdo: "keeps (add_galaxy_sdo E cls sdo_type b_killchain b_alias galaxy)"
  unfolding add_galaxy_sdo_def by (intro keeps_intros)

lemma keeps_add_coa_stix_object: "keeps (add_coa_stix_object E coa_args)"
  unfolding add_coa_stix_object_def by (intro keeps_intros)

lemma keeps_add_course_of_action: "keeps (add_course_of_action E galaxy)"
  unfolding add_course_of_action_def by (intro keeps_intros keeps_add_coa_stix_object)

lemma keeps_new_append:
  "keeps (bind (new_object E cls oid args) (\<lambda>obj. append_object obj flag))"
  by (intro keeps_intros)

lemma keeps_add_vulnerability_from_galaxy: "keeps (add_vulnerability_from_galaxy E galaxy)"
  by (rule keepsI)
     (auto simp: add_vulnerability_from_galaxy_def Let_def kept_refl keepsD[OF keeps_new_append]
           split: list.splits sum.splits)

lemma keeps_call_galaxy: "keeps (call_galaxy E call galaxy)"
  by (cases call)
     (simp_all add: keeps_add_galaxy_sdo keeps_add_course_of_action
        keeps_add_vulnerability_from_galaxy)

lemma keeps_add_defined: "keeps (add_defined source_id target)"
  by (simp add: keeps_def add_defined_def kept_frame kept_refl)

lemma keeps_seen: "keeps (\<lambda>s1. (Inr (), s1\<lparr>galaxies := galaxies s1 @ [u]\<rparr>))"
  by (simp add: keeps_def kept_grows kept_refl)

lemma keeps_parse_galaxy: "keeps (parse_galaxy E galaxy source_id)"
proof (rule keepsI)
  fix s :: builder
  have "\<And>stix_type call u.
          keeps (bind (if u \<notin> set (galaxies s)
                       then bind (call_galaxy E call galaxy)
                              (\<lambda>_ s1. (Inr (), s1\<lparr>galaxies := galaxies s1 @ [u]\<rparr>))
                       else ret ())
                   (\<lambda>_. add_defined source_id (stix_type @ ''--'' @ u)))"
    by (intro keeps_bind) (simp_all add: keeps_intros keeps_call_galaxy keeps_seen keeps_add_defined)
  then show "kept s (snd (parse_galaxy E galaxy source_id s))"
    by (auto simp: parse_galaxy_def kept_refl keepsD split: list.splits option.splits)
qed

lemma keeps_parse_galaxies: "keeps (parse_galaxies E gs source_id)"
  unfolding parse_galaxies_def by (intro keeps_for_each keeps_parse_galaxy)

lemma keeps_new_relationship: "keeps (new_relationship E args)"
  by (auto simp: keeps_def new_relationship_def kept_frame kept_refl split: option.splits)

lemma keeps_add_defined_relationship:
  "keeps (add_defined_relationship E source source_type target)"
  unfolding add_defined_relationship_def Let_def
  by (intro keeps_intros keeps_new_relationship)

lemma keeps_add_defined_relationships: "keeps (add_defined_relationships E)"
proof (rule keepsI)
  fix s :: builder
  have "\<And>x. keeps ((\<lambda>(source, targets).
          if startswith source ''report'' then ret ()
          else bind (lift (first_of_pair source))
                 (\<lambda>source_type. for_each targets (add_defined_relationship E source source_type)))
          x)"
    by (auto intro!: keeps_intros keeps_add_defined_relationship)
  then show "kept s (snd (add_defined_relationships E s))"
    unfolding add_defined_relationships_def by (rule kept_for_each)
qed

lemma keeps_add_to_define_relationship:
  "keeps (add_to_define_relationship E source_uuid reference)"
proof (rule keepsI)
  fix s :: builder
  have "\<And>args. keeps (bind (new_relationship E args)
                         (\<lambda>relationship. append_object relationship False))"
    by (intro keeps_intros keeps_new_relationship)
  then show "kept s (snd (add_to_define_relationship E source_uuid reference s))"
    by (auto simp: add_to_define_relationship_def kept_refl keepsD
             split: prod.splits option.splits)
qed

lemma keeps_add_to_define_relationships: "keeps (add_to_define_relationships E)"
proof (rule keepsI)
  fix s :: builder
  have "\<And>x. keeps ((\<lambda>(source_uuid, references).
          for_each references (add_to_define_relationship E source_uuid)) x)"
    by (auto intro!: keeps_intros keeps_add_to_define_relationship)
  then show "kept s (snd (add_to_define_relationships E s))"
    unfolding add_to_define_relationships_def by (rule kept_for_each)
qed

lemma keeps_add_all_relationships: "keeps (add_all_relationships E)"
  unfolding add_all_relationships_def
  by (intro keeps_intros keeps_add_defined_relationships keeps_add_to_define_relationships)

lemma keeps_with_marking_refs: "keeps (with_marking_refs E tags args)"
  unfolding with_marking_refs_def by (auto intro!: keeps_intros)

lemma keeps_marked_object:
  "keeps (bind (with_marking_refs E tags args)
            (\<lambda>args. bind (new_object E cls oid args) (\<lambda>obj. append_object obj flag)))"
  by (intro keeps_intros keeps_with_marking_refs)

lemma keeps_add_indicator: "keeps (add_indicator E attribute)"
  unfolding add_indicator_def Let_def
  by (intro keeps_bind keeps_lift keeps_parse_galaxies keepsI)
     (simp_all add: keepsD[OF keeps_marked_object])

lemma keeps_add_observed_data: "keeps (add_observed_data E attribute)"
  unfolding add_observed_data_def Let_def
  by (intro keeps_bind keeps_lift keeps_parse_galaxies keepsI)
     (simp_all add: keepsD[OF keeps_marked_object])

lemma keeps_new_custom: "keeps (new_custom E custom_object_type declared custom_object_id args)"
  by (rule keepsI)
     (auto simp: new_custom_def kept_def dom_update split: option.splits)

lemma keeps_marked_custom:
  "keeps (bind (with_marking_refs E tags args)
            (\<lambda>args. bind (new_custom E t (declared args) oid args)
                       (\<lambda>obj. append_object obj flag)))"
  by (intro keeps_intros keeps_with_marking_refs keeps_new_custom)

lemma keeps_add_custom: "keeps (add_custom E attribute)"
  by (rule keepsI) (simp add: add_custom_def Let_def keepsD[OF keeps_marked_custom])

lemma keeps_add_identity: "keeps (add_identity E attribute)"
  by (simp add: add_identity_def keeps_raise)

lemma keeps_add_vulnerability: "keeps (add_vulnerability E attribute)"
  by (rule keepsI)
     (simp add: add_vulnerability_def Let_def keepsD[OF keeps_marked_object] kept_refl
           split: sum.split)

lemma keeps_handle_person: "keeps (handle_person E attribute)"
  by (simp add: handle_person_def keeps_add_identity keeps_add_custom)

lemma keeps_handle_usual_type: "keeps (handle_usual_type E attribute)"
  unfolding handle_usual_type_def
  by (intro keeps_try_except) (simp_all add: keeps_add_indicator keeps_add_observed_data keeps_add_custom)

lemma keeps_handle_link: "keeps (handle_link attribute)"
  by (simp add: keeps_def handle_link_def kept_frame kept_refl)

lemma keeps_galaxies_of_attributes:
  "keeps (for_each attributes (\<lambda>attribute. parse_galaxies E (a_Galaxy attribute) object_id))"
  by (intro keeps_for_each keeps_parse_galaxies)

lemma keeps_create_file_attributes_dict:
  "keeps (create_file_attributes_dict E attributes object_id)"
  unfolding create_file_attributes_dict_def
  by (intro keeps_bind keeps_ret keeps_galaxies_of_attributes)

lemma keeps_resolve_file_observable: "keeps (resolve_file_observable E attributes object_id)"
  unfolding resolve_file_observable_def
  by (intro keeps_bind keeps_lift keeps_create_file_attributes_dict)

lemma keeps_resolve_file_pattern: "keeps (resolve_file_pattern E attributes object_id)"
  unfolding resolve_file_pattern_def
  by (intro keeps_bind keeps_lift keeps_create_file_attributes_dict)

lemma keeps_builder_step:
  "keeps (\<lambda>s1. (case step (builder_state s1) of
                   (None, st) \<Rightarrow> (Inr (), s1\<lparr>builder_state := st\<rparr>)
                 | (Some e, st) \<Rightarrow> (Inl e, s1\<lparr>builder_state := st\<rparr>)))"
  by (rule keepsI) (simp add: kept_frame kept_refl split: prod.split option.split)

lemma keeps_builder_finish:
  "keeps (\<lambda>s1. (case finish (builder_state s1) of (r, st) \<Rightarrow> (r, s1\<lparr>builder_state := st\<rparr>)))"
  by (rule keepsI) (simp add: kept_frame kept_refl split: prod.split)

lemma keeps_other_builder: "keeps (other_builder E call attributes object_id)"
proof (rule keepsI)
  fix s :: builder
  let ?s0 = "s\<lparr>builder_state := b_start E call object_id (builder_state s)\<rparr>"
  have "keeps (bind (for_each attributes
             (\<lambda>attribute.
                bind (if b_galaxies E call
                      then parse_galaxies E (a_Galaxy attribute) object_id else ret ())
                  (\<lambda>_ s1. (case b_step E call attribute (builder_state s1) of
                              (None, st) \<Rightarrow> (Inr (), s1\<lparr>builder_state := st\<rparr>)
                            | (Some e, st) \<Rightarrow> (Inl e, s1\<lparr>builder_state := st\<rparr>)))))
       (\<lambda>_ s1. (case b_finish E call (builder_state s1) of
                   (r, st) \<Rightarrow> (r, s1\<lparr>builder_state := st\<rparr>))))" (is "keeps ?m")
    by (intro keeps_bind keeps_for_each keeps_builder_step keeps_builder_finish)
       (simp_all add: keeps_parse_galaxies keeps_ret)
  then have "kept ?s0 (snd (?m ?s0))" by (rule keepsD)
  moreover have "kept s ?s0" by (simp add: kept_frame kept_refl)
  ultimately show "kept s (snd (other_builder E call attributes object_id s))"
    unfolding other_builder_def by (blast intro: kept_trans)
qed

lemma keeps_call_builder: "keeps (call_builder E call attributes object_id)"
  unfolding call_builder_def
  by (auto intro!: keeps_bind keeps_ret keeps_resolve_file_observable keeps_resolve_file_pattern
        keeps_other_builder)

lemma keeps_new_append_of:
  "keeps (\<lambda>s. bind (new_object E cls oid (args s)) (\<lambda>obj. append_object obj flag) s)"
proof (rule keepsI)
  fix s :: builder
  show "kept s (snd (bind (new_object E cls oid (args s)) (\<lambda>obj. append_object obj flag) s))"
    by (rule keepsD[OF keeps_new_append])
qed

lemma keeps_add_object_indicator: "keeps (add_object_indicator E misp_object pattern_arg)"
  unfolding add_object_indicator_def Let_def
  by (rule keeps_bind)
     (simp_all add: keeps_bind keeps_ret keeps_raise keeps_lift keeps_call_builder
        keeps_new_append_of split: option.split prod.split)

lemma keeps_fix_enumeration_issues: "keeps (fix_enumeration_issues E name oid args)"
  unfolding fix_enumeration_issues_def
  by (auto intro!: keeps_bind keeps_lift keeps_new_object)

lemma keeps_observed_append:
  "keeps (bind (try_except (new_object E cls oid args) caught
                  (fix_enumeration_issues E name oid args))
            (\<lambda>observed_data. append_object observed_data flag))"
  by (intro keeps_bind keeps_try_except keeps_new_object keeps_fix_enumeration_issues
        keeps_append_object)

lemma keeps_observed_append_of:
  "keeps (\<lambda>s. bind (try_except (new_object E cls oid (args s)) caught
                        (fix_enumeration_issues E name oid (args s)))
                  (\<lambda>observed_data. append_object observed_data flag) s)"
proof (rule keepsI)
  fix s :: builder
  show "kept s (snd (bind (try_except (new_object E cls oid (args s)) caught
                             (fix_enumeration_issues E name oid (args s)))
                       (\<lambda>observed_data. append_object observed_data flag) s))"
    by (rule keepsD[OF keeps_observed_append])
qed

lemma keeps_add_object_observable: "keeps (add_object_observable E misp_object observable_arg)"
  unfolding add_object_observable_def Let_def
  by (rule keeps_bind)
     (simp_all add: keeps_bind keeps_ret keeps_raise keeps_call_builder
        keeps_observed_append_of split: option.split prod.split list.split)

lemma keeps_fetch_custom_values: "keeps (fetch_custom_values E attributes object_id)"
  unfolding fetch_custom_values_def
  by (intro keeps_bind keeps_ret keeps_galaxies_of_attributes)

lemma keeps_custom_append:
  "keeps (bind (new_custom E t declared oid args) (\<lambda>obj. append_object obj flag))"
  by (intro keeps_bind keeps_new_custom keeps_append_object)

lemma keeps_add_object_custom: "keeps (add_object_custom E misp_object to_ids)"
  unfolding add_object_custom_def Let_def
  by (intro keeps_bind keeps_fetch_custom_values keepsI)
     (simp_all add: keepsD[OF keeps_custom_append])

lemma keeps_add_attack_pattern_object: "keeps (add_attack_pattern_object E misp_object to_ids)"
proof (rule keepsI)
  fix s :: builder
  have "\<And>args. keeps (bind (lift (parse_attack_pattern_fields E (o_Attribute misp_object)))
           (\<lambda>attack_pattern_fields.
              bind (new_object E ''AttackPattern'' (''attack-pattern--'' @ o_uuid misp_object)
                      (args attack_pattern_fields))
                (\<lambda>attack_pattern. append_object attack_pattern True)))"
    by (intro keeps_intros)
  from keepsD[OF this]
  show "kept s (snd (add_attack_pattern_object E misp_object to_ids s))"
    by (simp add: add_attack_pattern_object_def Let_def)
qed

lemma keeps_add_course_of_action_from_object:
  "keeps (add_course_of_action_from_object E misp_object to_ids)"
proof (rule keepsI)
  fix s :: builder
  have "\<And>coa_id coa_args.
          keeps (bind (for_each (o_Attribute misp_object)
                         (\<lambda>attribute. parse_galaxies E (a_Galaxy attribute) coa_id))
                   (\<lambda>_. if map_of coa_args ''name'' = None then ret ()
                         else add_coa_stix_object E coa_args))"
    by (intro keeps_bind keeps_galaxies_of_attributes)
       (simp add: keeps_ret keeps_add_coa_stix_object)
  from keepsD[OF this]
  show "kept s (snd (add_course_of_action_from_object E misp_object to_ids s))"
    by (simp add: add_course_of_action_from_object_def Let_def)
qed

lemma keeps_add_object_vulnerability: "keeps (add_object_vulnerability E misp_object to_ids)"
  by (rule keepsI)
     (simp add: add_object_vulnerability_def Let_def keepsD[OF keeps_new_append])

lemma keeps_populate_objects_to_parse: "keeps (populate_objects_to_parse misp_object to_ids)"
  by (simp add: keeps_def populate_objects_to_parse_def kept_frame kept_refl)

lemma keeps_handle_usual_object_name: "keeps (handle_usual_object_name E misp_object to_ids)"
  unfolding handle_usual_object_name_def Let_def
  by (auto intro!: keeps_try_except keeps_populate_objects_to_parse keeps_add_object_indicator
        keeps_add_object_observable keeps_add_object_custom)

lemma keeps_resolve_file_object: "keeps (resolve_file_object E pe_uuid held)"
proof (rule keepsI)
  fix s :: builder
  have "\<And>flag (file_object :: misp_object) file_id pattern_of observable_of (u :: string option).
          keeps (bind
                   (if flag
                    then bind (resolve_file_pattern E (o_Attribute file_object) file_id)
                           (\<lambda>patterns. add_object_indicator E file_object (pattern_of patterns))
                    else bind (resolve_file_observable E (o_Attribute file_object) file_id)
                           (\<lambda>observable.
                              bind (lift (observable_of observable))
                                (\<lambda>observable1.
                                   add_object_observable E file_object (Some observable1))))
                   (\<lambda>_. ret u))"
    by (auto intro!: keeps_bind keeps_ret keeps_lift keeps_resolve_file_pattern
          keeps_resolve_file_observable keeps_add_object_indicator keeps_add_object_observable)
  from keepsD[OF this]
  show "kept s (snd (resolve_file_object E pe_uuid held s))"
    by (simp add: resolve_file_object_def Let_def kept_refl
          split: prod.split option.split)
qed

lemma kept_resolve_file_objects: "kept s (snd (resolve_file_objects E pe_uuid held s))"
proof (induction held arbitrary: s pe_uuid)
  case Nil
  show ?case by (simp add: kept_refl)
next
  case (Cons h held)
  obtain r s1 where m: "resolve_file_object E pe_uuid h s = (r, s1)"
    by (cases "resolve_file_object E pe_uuid h s")
  have k1: "kept s s1" using keepsD[OF keeps_resolve_file_object, of s E pe_uuid h] m by simp
  show ?case
  proof (cases r)
    case (Inl e)
    then show ?thesis using m k1 by simp
  next
    case (Inr u)
    have "kept s1 (snd (resolve_file_objects E u held s1))" by (rule Cons.IH)
    then show ?thesis using m Inr k1 by (simp add: kept_trans)
  qed
qed

lemma keeps_resolve_objects2parse: "keeps (resolve_objects2parse E)"
  by (simp add: keeps_def resolve_objects2parse_def kept_resolve_file_objects)

lemma keeps_call_attribute: "keeps (call_attribute E call attribute)"
  by (cases call)
     (simp_all add: keeps_handle_person keeps_handle_usual_type keeps_handle_link
        keeps_add_custom keeps_add_identity keeps_add_indicator keeps_add_observed_data
        keeps_add_vulnerability)

lemma keeps_call_object: "keeps (call_object E call misp_object to_ids)"
  by (cases call)
     (simp_all add: keeps_handle_usual_object_name keeps_populate_objects_to_parse
        keeps_add_attack_pattern_object keeps_add_course_of_action_from_object
        keeps_add_object_vulnerability keeps_add_object_custom)

lemma keeps_identity_added:
  "keeps (\<lambda>s2. (Inr (n :: nat), s2\<lparr>SDOs := SDOs s2 @ [identity], orgs := orgs s2 @ [org_uuid]\<rparr>))"
  by (simp add: keeps_def kept_def)

lemma keeps_set_identity: "keeps (set_identity E)"
proof (rule keepsI)
  fix s :: builder
  have b: "kept s (snd (bind (new_object E cls oid args)
                   (\<lambda>identity s2.
                      (Inr (n :: nat),
                       s2\<lparr>SDOs := SDOs s2 @ [identity], orgs := orgs s2 @ [org_uuid]\<rparr>))
                   (s\<lparr>identity_id := i\<rparr>)))" for cls oid args org_uuid i n
  proof -
    have "kept s (s\<lparr>identity_id := i\<rparr>)" by (simp add: kept_frame kept_refl)
    moreover have "kept (s\<lparr>identity_id := i\<rparr>)
            (snd (bind (new_object E cls oid args)
                   (\<lambda>identity s2.
                      (Inr n,
                       s2\<lparr>SDOs := SDOs s2 @ [identity], orgs := orgs s2 @ [org_uuid]\<rparr>))
                   (s\<lparr>identity_id := i\<rparr>)))"
      by (intro keepsD keeps_bind keeps_new_object keeps_identity_added)
    ultimately show ?thesis by (rule kept_trans)
  qed
  show "kept s (snd (set_identity E s))"
    by (simp add: set_identity_def Let_def kept_refl kept_frame b split: option.split)
qed

lemma keeps_handle_attribute: "keeps (handle_attribute E attribute)"
  unfolding handle_attribute_def
  by (intro keeps_try_except keeps_add_custom)
     (simp add: keeps_raise keeps_call_attribute split: option.split)

lemma keeps_references_recorded:
  "keeps (\<lambda>s. if c then (Inr (), s\<lparr>relationships_to_define := f s\<rparr>) else (Inr (), s))"
  by (simp add: keeps_def kept_frame kept_refl)

lemma keeps_handle_object: "keeps (handle_object E misp_object)"
  unfolding handle_object_def Let_def
  by (auto intro!: keeps_ret keeps_bind keeps_try_except keeps_add_object_custom
        keeps_references_recorded keeps_raise keeps_call_object
      split: option.splits)

lemma keeps_objects_cleared: "keeps (\<lambda>s. (Inr (), s\<lparr>objects_to_parse := []\<rparr>))"
  by (simp add: keeps_def kept_frame kept_refl)

lemma keeps_resolve_if_held:
  "keeps (\<lambda>s. if objects_to_parse s \<noteq> [] then resolve_objects2parse E s else (Inr (), s))"
  using keeps_resolve_objects2parse[of E] by (simp add: keeps_def kept_refl)

lemma keeps_handle_objects: "keeps (handle_objects E objs)"
  unfolding handle_objects_def
  by (auto intro!: keeps_ret keeps_bind keeps_for_each keeps_handle_object
        keeps_objects_cleared keeps_resolve_if_held)

lemma keeps_galaxies_of_event:
  "keeps (for_each gs (\<lambda>galaxy s1. parse_galaxy E galaxy (report_id s1) s1))"
proof (rule keeps_for_each, rule keepsI)
  fix galaxy and s :: builder
  show "kept s (snd (parse_galaxy E galaxy (report_id s) s))"
    by (rule keepsD[OF keeps_parse_galaxy])
qed

lemma keeps_first_link:
  "keeps (\<lambda>s. case links s of
                 link # rest \<Rightarrow>
                   if object_refs s = [] then add_custom E link (s\<lparr>links := rest\<rparr>)
                   else (Inr (), s)
               | [] \<Rightarrow> (Inr (), s))"
proof (rule keepsI)
  fix s :: builder
  have "\<And>link rest. kept s (snd (add_custom E link (s\<lparr>links := rest\<rparr>)))"
  proof -
    fix link rest
    have "kept s (s\<lparr>links := rest\<rparr>)" by (simp add: kept_frame kept_refl)
    moreover have "kept (s\<lparr>links := rest\<rparr>) (snd (add_custom E link (s\<lparr>links := rest\<rparr>)))"
      by (rule keepsD[OF keeps_add_custom])
    ultimately show "kept s (snd (add_custom E link (s\<lparr>links := rest\<rparr>)))"
      by (rule kept_trans)
  qed
  then show "kept s (snd (case links s of
                 link # rest \<Rightarrow>
                   if object_refs s = [] then add_custom E link (s\<lparr>links := rest\<rparr>)
                   else (Inr (), s)
               | [] \<Rightarrow> (Inr (), s)))"
    by (simp add: kept_refl split: list.split)
qed

lemma keeps_report:
  "keeps (bind (with_marking_refs E tags args)
            (\<lambda>args. bind add_all_markings
               (\<lambda>_. bind (add_all_relationships E)
                  (\<lambda>_ s1. new_object E ''Report'' (report_id s1) (report_args args s1) s1))))"
proof -
  have "\<And>args. keeps (\<lambda>s1. new_object E ''Report'' (report_id s1) (report_args args s1) s1)"
    by (auto simp: keeps_def new_object_def kept_refl split: option.splits)
  then show ?thesis
    by (intro keeps_bind keeps_with_marking_refs keeps_add_all_markings
          keeps_add_all_relationships)
qed

lemma keeps_eventReport: "keeps (eventReport E)"
  unfolding eventReport_def
  by (intro keeps_bind keeps_first_link keepsI)
     (simp add: Let_def kept_refl keepsD[OF keeps_report] split: option.split)

lemma keeps_report_inserted:
  "keeps (\<lambda>s1. (Inr (list_insert i report (SDOs s1)),
                 s1\<lparr>SDOs := list_insert i report (SDOs s1)\<rparr>))"
  by (simp add: keeps_def kept_frame kept_refl)

lemma keeps_event_body:
  "keeps (bind (set_identity E)
       (\<lambda>i. bind (for_each (e_Attribute ev) (handle_attribute E))
          (\<lambda>_. bind (handle_objects E (e_Object ev))
             (\<lambda>_. bind (for_each (e_Galaxy ev) (\<lambda>galaxy s1. parse_galaxy E galaxy (report_id s1) s1))
                (\<lambda>_. bind (eventReport E)
                   (\<lambda>report s1.
                      (Inr (list_insert i report (SDOs s1)),
                       s1\<lparr>SDOs := list_insert i report (SDOs s1)\<rparr>)))))))"
  by (intro keeps_bind keeps_set_identity keeps_for_each keeps_handle_attribute
        keeps_handle_objects keeps_galaxies_of_event keeps_eventReport keeps_report_inserted)

lemma kept_begin_event: "kept s (begin_event ev s)"
  by (simp add: kept_def begin_event_def)

lemma kept_handler: "kept s (snd (handler E ev s))"
  unfolding handler_def
  by (rule kept_trans[OF kept_begin_event keepsD[OF keeps_event_body]])

text \<open>
  Claim C1, as the code has it. \<^verbatim>\<open>handler\<close> empties the marking cache (with the produced
  objects, the report's references, the links and the two relationship tables) when the
  translation of an event begins, so the translation of an event does not depend on the
  marking cache it is started with. The identifier registry, the set of seen clusters and
  the cache of custom wrapper kinds are set in \<^verbatim>\<open>__init__\<close> only: the translation of an
  event begins with what they held before; every cluster identifier of the seen set,
  every uuid that is a key of the registry and every kind that is a key of the cache of
  custom classes when it begins is still one when it ends (the kind the registry records
  for a uuid is replaced when a later object has the same uuid); and in an input of
  several events the next event is translated from the state the one before left.
\<close>

theorem only_the_marking_cache_is_reset:
  "markings (begin_event ev s) = []
   \<and> ids (begin_event ev s) = ids s
   \<and> galaxies (begin_event ev s) = galaxies s
   \<and> custom_objects (begin_event ev s) = custom_objects s
   \<and> handler E ev (s\<lparr>markings := m\<rparr>) = handler E ev s
   \<and> kept s (snd (handler E ev s))
   \<and> handle_events E [ev1, ev2] s
       = (case handler E ev1 s of
            (Inl e, s1) \<Rightarrow> (Inl e, s1)
          | (Inr sdos, s1) \<Rightarrow>
              (case handler E ev2 s1 of
                 (Inl e, s2) \<Rightarrow> (Inl e, s2)
               | (Inr more_sdos, s2) \<Rightarrow> (Inr (sdos @ more_sdos), s2)))"
proof -
  have "handler E ev (s\<lparr>markings := m\<rparr>) = handler E ev s"
    by (simp add: begin_event_def handler_def)
  moreover have "handle_events E [ev1, ev2] s
       = (case handler E ev1 s of
            (Inl e, s1) \<Rightarrow> (Inl e, s1)
          | (Inr sdos, s1) \<Rightarrow>
              (case handler E ev2 s1 of
                 (Inl e, s2) \<Rightarrow> (Inl e, s2)
               | (Inr more_sdos, s2) \<Rightarrow> (Inr (sdos @ more_sdos), s2)))"
    by (simp split: prod.splits sum.splits)
  ultimately show ?thesis
    by (simp add: begin_event_def kept_handler)
qed

theorem only_the_marking_cache_is_reset_witness:
  "map fst (markings (snd (handler strict_env first_event init))) = [''tlp:white'']
   \<and> markings (begin_event second_event (snd (handler strict_env first_event init))) = []
   \<and> ids (begin_event second_event (snd (handler strict_env first_event init)))
       = [(''6b0d549b-6f03-475a-9600-a35a099950d1'', ''indicator''),
          (''a170b338-3926-4059-b28c-105d1fb17c23'', ''tool''),
          (''613f2e26-407d-48c7-9eca-b8e91df99dc9'', ''marking-definition'')]
   \<and> galaxies (begin_event second_event (snd (handler strict_env first_event init)))
       = [''a170b338-3926-4059-b28c-105d1fb17c23'']
   \<and> custom_objects (begin_event second_event (snd (handler strict_env first_event init)))
       = []
   \<and> handler strict_env second_event
         ((snd (handler strict_env first_event init))\<lparr>markings := []\<rparr>)
       = handler strict_env second_event (snd (handler strict_env first_event init))
   \<and> kept (snd (handler strict_env first_event init))
        (snd (handler strict_env second_event (snd (handler strict_env first_event init))))"
proof -
  let ?s = "snd (handler strict_env first_event init)"
  have left: "map fst (markings ?s) = [''tlp:white'']"
             "ids ?s = [(''6b0d549b-6f03-475a-9600-a35a099950d1'', ''indicator''),
                        (''a170b338-3926-4059-b28c-105d1fb17c23'', ''tool''),
                        (''613f2e26-407d-48c7-9eca-b8e91df99dc9'', ''marking-definition'')]"
             "galaxies ?s = [''a170b338-3926-4059-b28c-105d1fb17c23'']"
             "custom_objects ?s = []"
    by code_simp+
  show ?thesis
    using only_the_marking_cache_is_reset[of second_event ?s strict_env "[]"] left
    by simp
qed

text \<open>
  Translated alone, the second event yields a tool; translated after the first, it yields
  none, because the cluster is still in the seen set, and the registry still holds what
  the first event left.
\<close>

theorem caches_leak_across_events:
  "map_sum id (map sdo_class) (fst (handler strict_env first_event init))
     = Inr [''Identity'', ''Report'', ''Indicator'', ''Tool'', ''MarkingDefinition'']
   \<and> map_sum id (map sdo_class) (fst (handler strict_env second_event init))
     = Inr [''Identity'', ''Report'', ''ObservedData'', ''Tool'']
   \<and> map_sum id (map sdo_class)
       (fst (handler strict_env second_event (snd (handler strict_env first_event init))))
     = Inr [''Identity'', ''Report'', ''ObservedData'']
   \<and> map_sum id (map sdo_class)
       (fst (handle_events strict_env [first_event, second_event] init))
     = Inr [''Identity'', ''Report'', ''Indicator'', ''Tool'', ''MarkingDefinition'',
            ''Identity'', ''Report'', ''ObservedData'']
   \<and> galaxies (begin_event second_event (snd (handler strict_env first_event init)))
       = [''a170b338-3926-4059-b28c-105d1fb17c23'']
   \<and> ids (begin_event second_event (snd (handler strict_env first_event init)))
       = [(''6b0d549b-6f03-475a-9600-a35a099950d1'', ''indicator''),
          (''a170b338-3926-4059-b28c-105d1fb17c23'', ''tool''),
          (''613f2e26-407d-48c7-9eca-b8e91df99dc9'', ''marking-definition'')]"
  by code_simp

end
